theory Spec2Isabelle
  imports Complex_Main "HOL-Library.Log_Nat"
begin

section \<open>Data model\<close>

text \<open>
  The simulator of \<^verbatim>\<open>main.js\<close> keeps a tile world, a list of species and a list of
  creatures. Its enumerations are strings in the source (\<^verbatim>\<open>"water"\<close>, \<^verbatim>\<open>"herbivore"\<close>, ...);
  here each is a datatype. The movement mode the source writes \<^verbatim>\<open>"water"\<close> is
  \<open>Aquatic\<close>, so that it is not confused with the biome of the same name.

  JavaScript numbers are modelled by exact reals: rounding of IEEE doubles, NaN and
  the infinities are outside the model. The one exception is the year counter, which
  the program adds to at every step and then tests for equality: its additions round
  as binary64 does. Tile coordinates are integers (they come from \<^verbatim>\<open>Math.floor\<close> and
  change by one), a creature's age is a natural number.
\<close>

datatype biome = Water | Desert | Snowy | Woods | Swamp | Fields

datatype mode = Terrestrial | Aquatic

datatype diet = Herbivore | Carnivore | Omnivore

datatype sex = M | F

text \<open>
  A trait object is a JavaScript dictionary with a fixed set of keys, read both by name
  (\<^verbatim>\<open>t.armor\<close>) and by a computed key (\<^verbatim>\<open>t[key]\<close>). The keys are the two datatypes below
  (numeric and boolean traits, in the order of \<^verbatim>\<open>createBaselineTraits\<close>); a trait object
  is a total function on each. The key \<^verbatim>\<open>size\<close> is written \<open>size_trait\<close>.
\<close>

datatype num_trait =
    size_trait | max_speed | accel | turn_speed | armor | attack_damage | venom_power
  | stomach_capacity | constriction_power | ram_force | tail_power | bite_force
  | vision_radius | fov | detection_chance | smell_range | night_vision
  | metabolism_rate | food_efficiency | temp_tolerance | toxin_resistance
  | disease_chance | slime_thickness | shell_hardness
  | offspring_per_cycle | repro_cooldown | max_age | care_level
  | aggression | caution | curiosity | grouping | territorial | risk_taking
  | camo | crypsis_level | mimicry_level | false_eye_spots
  | burrow_speed | spine_damage | repellent_strength | irritant_level | startle_power
  | regen_rate

datatype bool_trait = has_venom | can_hibernate | can_burrow | can_autotomize

record traits =
  num :: "num_trait \<Rightarrow> real"
  flag :: "bool_trait \<Rightarrow> bool"

text \<open>Class \<^verbatim>\<open>Species\<close> (the display colour is left out: only rendering reads it).\<close>

record species =
  sp_id :: nat
  sp_movementMode :: mode
  sp_dietType :: diet
  sp_isCannibal :: bool

text \<open>Class \<^verbatim>\<open>Creature\<close>; the fields \<^verbatim>\<open>x\<close> and \<^verbatim>\<open>y\<close> are \<open>posx\<close> and \<open>posy\<close>.\<close>

record creature =
  speciesId :: nat
  movementMode :: mode
  dietType :: diet
  isCannibal :: bool
  posx :: int
  posy :: int
  sex :: sex
  age :: nat
  energy :: real
  traits :: traits
  alive :: bool

definition Creature :: "species \<Rightarrow> int \<Rightarrow> int \<Rightarrow> sex \<Rightarrow> traits \<Rightarrow> creature" where
  "Creature sp x y sx tr =
     \<lparr> speciesId = sp_id sp, movementMode = sp_movementMode sp, dietType = sp_dietType sp,
       isCannibal = sp_isCannibal sp, posx = x, posy = y, sex = sx, age = 0, energy = 50,
       traits = tr, alive = True \<rparr>"

text \<open>
  The globals that do not change while the simulation runs: the grid dimensions (read
  from the canvas in the source, parameters here), the grid and the species list.
\<close>

record env =
  WORLD_WIDTH :: nat
  WORLD_HEIGHT :: nat
  world :: "biome list list"
  speciesList :: "species list"

text \<open>
  The globals that change: the creature list, the year counter and the random source.
  Objects of the source are identified by reference; here a creature is identified by
  its index in the creature list, and every write of the source is an update of the list
  at that index, done in the order of the source.
\<close>

definition modify :: "nat \<Rightarrow> ('a \<Rightarrow> 'a) \<Rightarrow> 'a list \<Rightarrow> 'a list" where
  "modify i f cs = cs[i := f (cs ! i)]"

section \<open>The random source\<close>

text \<open>
  \<^verbatim>\<open>Math.random()\<close> returns a number in \<open>[0, 1)\<close>: the type \<open>draw\<close>. The random source
  is the infinite sequence of the draws still to come; \<open>Math_random\<close> is the value the
  next call returns and \<open>rest\<close> the source after that call. Every theorem below
  quantifies over the whole sequence, that is over every outcome of every draw.
\<close>

typedef draw = "{r::real. 0 \<le> r \<and> r < 1}"
  by (rule exI [of _ 0]) simp

type_synonym rng = "nat \<Rightarrow> draw"

definition Math_random :: "rng \<Rightarrow> real" where
  "Math_random g = Rep_draw (g 0)"

definition rest :: "rng \<Rightarrow> rng" where
  "rest g = (\<lambda>n. g (Suc n))"

text \<open>Concrete random sources: the draws of a list, then a constant.\<close>

definition mk_draw :: "real \<Rightarrow> draw" where
  "mk_draw r = Abs_draw (if 0 \<le> r \<and> r < 1 then r else 0)"

definition draws :: "real list \<Rightarrow> real \<Rightarrow> rng" where
  "draws rs r = (\<lambda>n. mk_draw (if n < length rs then rs ! n else r))"

text \<open>\<^verbatim>\<open>randomChoice(arr)\<close>: \<^verbatim>\<open>arr[Math.floor(Math.random() * arr.length)]\<close>.\<close>

definition randomChoice :: "'a list \<Rightarrow> rng \<Rightarrow> 'a" where
  "randomChoice arr g = arr ! nat \<lfloor>Math_random g * real (length arr)\<rfloor>"

section \<open>World generation\<close>

definition BIOMES :: "biome list" where
  "BIOMES = [Water, Desert, Snowy, Woods, Swamp, Fields]"

text \<open>
  A JavaScript \<^verbatim>\<open>Set\<close> keeps its members in insertion order and \<^verbatim>\<open>add\<close> of a member
  changes nothing: a list without repetition, \<^verbatim>\<open>size\<close> its length.
\<close>

definition Set_add :: "'a list \<Rightarrow> 'a \<Rightarrow> 'a list" where
  "Set_add chosen b = (if b \<in> set chosen then chosen else chosen @ [b])"

text \<open>
  The loop \<^verbatim>\<open>while (chosen.size < n) chosen.add(randomChoice(BIOMES))\<close> of
  \<^verbatim>\<open>generateBiomes\<close>. It runs for as long as the draws repeat members, possibly for
  ever: the result \<open>None\<close> is the loop that does not end.
\<close>

partial_function (option) chooseBiomes :: "int \<Rightarrow> biome list \<Rightarrow> rng \<Rightarrow> (biome list \<times> rng) option" where
  "chooseBiomes n chosen g =
     (if int (length chosen) < n
      then chooseBiomes n (Set_add chosen (randomChoice BIOMES g)) (rest g)
      else Some (chosen, g))"

definition generateBiomes :: "rng \<Rightarrow> (biome list \<times> rng) option" where
  "generateBiomes g =
     (let chosen = Set_add [] Water;
          n = 2 + \<lfloor>Math_random g * 3\<rfloor>
      in chooseBiomes n chosen (rest g))"

record seed =
  seed_x :: int
  seed_y :: int
  seed_biome :: biome

text \<open>
  The biome of seed \<open>i\<close> in \<^verbatim>\<open>generateWorld\<close>. The condition
  \<^verbatim>\<open>biome === "water" && Math.random() < 0.6 && allowedBiomes.length > 1\<close> draws only when
  its first conjunct holds.
\<close>

definition seedBiome :: "biome list \<Rightarrow> nat \<Rightarrow> rng \<Rightarrow> biome \<times> rng" where
  "seedBiome allowedBiomes i g =
     (if i = 0 then (Water, g)
      else
        let b = randomChoice allowedBiomes g; g1 = rest g
        in if b = Water
           then (if Math_random g1 < 0.6 \<and> length allowedBiomes > 1
                 then (randomChoice (filter (\<lambda>b. b \<noteq> Water) allowedBiomes) (rest g1), rest (rest g1))
                 else (b, rest g1))
           else (b, g1))"

text \<open>
  The seed loop \<^verbatim>\<open>for (let i = 0; i < numSeeds; i++)\<close>, from index \<open>i\<close> with \<open>k\<close>
  iterations left.
\<close>

fun makeSeeds :: "nat \<Rightarrow> nat \<Rightarrow> biome list \<Rightarrow> nat \<Rightarrow> nat \<Rightarrow> rng \<Rightarrow> seed list \<times> rng" where
  "makeSeeds W H allowedBiomes i 0 g = ([], g)"
| "makeSeeds W H allowedBiomes i (Suc k) g =
     (let x = \<lfloor>Math_random g * real W\<rfloor>;
          y = \<lfloor>Math_random (rest g) * real H\<rfloor>;
          bg = seedBiome allowedBiomes i (rest (rest g));
          more = makeSeeds W H allowedBiomes (Suc i) k (snd bg)
      in (\<lparr>seed_x = x, seed_y = y, seed_biome = fst bg\<rparr> # fst more, snd more))"

text \<open>
  The search for the nearest seed of a cell: \<^verbatim>\<open>bestSeed\<close> starts as \<^verbatim>\<open>null\<close> (\<open>None\<close>) and
  \<^verbatim>\<open>bestDist2\<close> as \<^verbatim>\<open>Infinity\<close> (\<open>None\<close>); a seed replaces the best one only when strictly
  nearer.
\<close>

definition nearer :: "int \<Rightarrow> int option \<Rightarrow> bool" where
  "nearer d2 bestDist2 = (case bestDist2 of None \<Rightarrow> True | Some m \<Rightarrow> d2 < m)"

definition betterSeed :: "int \<Rightarrow> int \<Rightarrow> seed option \<times> int option \<Rightarrow> seed \<Rightarrow> seed option \<times> int option" where
  "betterSeed x y best s =
     (let dx = x - seed_x s; dy = y - seed_y s; d2 = dx * dx + dy * dy
      in if nearer d2 (snd best) then (Some s, Some d2) else best)"

definition bestSeed :: "seed list \<Rightarrow> int \<Rightarrow> int \<Rightarrow> seed option" where
  "bestSeed seeds x y = fst (foldl (betterSeed x y) (None, None) seeds)"

text \<open>
  \<^verbatim>\<open>generateWorld\<close>. Reading \<^verbatim>\<open>bestSeed.biome\<close> of a \<^verbatim>\<open>null\<close> seed throws, so a cell is
  an option and the grid is returned when every cell has a seed. The result is \<open>None\<close>
  when no grid is returned (the palette loop does not end, or a cell has no seed).
\<close>

definition gridCells :: "nat \<Rightarrow> nat \<Rightarrow> seed list \<Rightarrow> biome list list option" where
  "gridCells W H seeds =
     those (map (\<lambda>y. those (map (\<lambda>x. map_option seed_biome (bestSeed seeds (int x) (int y)))
                                [0..<W]))
                [0..<H])"

definition generateWorld :: "nat \<Rightarrow> nat \<Rightarrow> rng \<Rightarrow> (biome list list \<times> rng) option" where
  "generateWorld W H g =
     (case generateBiomes g of
        None \<Rightarrow> None
      | Some (allowedBiomes, g1) \<Rightarrow>
          let numSeeds = length allowedBiomes * 3;
              sg = makeSeeds W H allowedBiomes 0 numSeeds g1
          in map_option (\<lambda>grid. (grid, snd sg)) (gridCells W H (fst sg)))"

section \<open>Species and creature placement\<close>



section \<open>Traits: baseline, mutation, crossover\<close>

definition createBaselineTraits :: traits where
  "createBaselineTraits =
     \<lparr> num = (\<lambda>k. case k of
          size_trait \<Rightarrow> 1.0 | max_speed \<Rightarrow> 1.0 | accel \<Rightarrow> 0.1 | turn_speed \<Rightarrow> 0.2
        | armor \<Rightarrow> 0 | attack_damage \<Rightarrow> 1 | venom_power \<Rightarrow> 0 | stomach_capacity \<Rightarrow> 60
        | constriction_power \<Rightarrow> 0 | ram_force \<Rightarrow> 0 | tail_power \<Rightarrow> 0 | bite_force \<Rightarrow> 1
        | vision_radius \<Rightarrow> 5 | fov \<Rightarrow> 180 | detection_chance \<Rightarrow> 0.7 | smell_range \<Rightarrow> 3
        | night_vision \<Rightarrow> 0.0
        | metabolism_rate \<Rightarrow> 0.03 | food_efficiency \<Rightarrow> 1.0 | temp_tolerance \<Rightarrow> 0.0
        | toxin_resistance \<Rightarrow> 0.0 | disease_chance \<Rightarrow> 0.0 | slime_thickness \<Rightarrow> 0.0
        | shell_hardness \<Rightarrow> 0.0
        | offspring_per_cycle \<Rightarrow> 1 | repro_cooldown \<Rightarrow> 200 | max_age \<Rightarrow> 2000 | care_level \<Rightarrow> 0
        | aggression \<Rightarrow> 0.3 | caution \<Rightarrow> 0.5 | curiosity \<Rightarrow> 0.5 | grouping \<Rightarrow> 0.2
        | territorial \<Rightarrow> 0.2 | risk_taking \<Rightarrow> 0.3
        | camo \<Rightarrow> 0.0 | crypsis_level \<Rightarrow> 0.0 | mimicry_level \<Rightarrow> 0.0 | false_eye_spots \<Rightarrow> 0.0
        | burrow_speed \<Rightarrow> 0.0 | spine_damage \<Rightarrow> 0.0 | repellent_strength \<Rightarrow> 0.0
        | irritant_level \<Rightarrow> 0.0 | startle_power \<Rightarrow> 0.0
        | regen_rate \<Rightarrow> 0.0),
       flag = (\<lambda>k. False) \<rparr>"

text \<open>\<^verbatim>\<open>cloneTraits\<close> copies the object; values have no identity here.\<close>

definition cloneTraits :: "traits \<Rightarrow> traits" where
  "cloneTraits t = t"

definition MUTABLE_NUMERIC_TRAITS :: "num_trait list" where
  "MUTABLE_NUMERIC_TRAITS =
     [size_trait, max_speed, armor, attack_damage, venom_power,
      vision_radius, food_efficiency, temp_tolerance,
      toxin_resistance, offspring_per_cycle, repro_cooldown,
      max_age, aggression, caution, curiosity, grouping,
      territorial, risk_taking, camo, crypsis_level,
      mimicry_level, false_eye_spots, burrow_speed,
      spine_damage, repellent_strength, irritant_level,
      startle_power, regen_rate]"

definition MUTABLE_BOOLEAN_TRAITS :: "bool_trait list" where
  "MUTABLE_BOOLEAN_TRAITS = [has_venom, can_hibernate, can_burrow, can_autotomize]"

text \<open>The clamping lines of \<^verbatim>\<open>applyMutation\<close>, one \<^verbatim>\<open>if (key === ...)\<close> after the other.\<close>

definition clampTrait :: "num_trait \<Rightarrow> real \<Rightarrow> real" where
  "clampTrait key newValue =
     (let v1 = (if key = size_trait then max 0.3 (min newValue 3) else newValue);
          v2 = (if key = max_speed then max 0.2 (min v1 4) else v1);
          v3 = (if key = armor then max 0 (min v2 5) else v2);
          v4 = (if key = attack_damage then max 0.1 v3 else v3);
          v5 = (if key = offspring_per_cycle then max 1 (min v4 5) else v4);
          v6 = (if key = repro_cooldown then max 80 (min v5 500) else v5);
          v7 = (if key = vision_radius then max 3 (min v6 20) else v6)
      in v7)"

text \<open>
  One iteration of the loop over \<^verbatim>\<open>numMutations\<close>; \<^verbatim>\<open>t[key] || 0\<close> is \<open>0\<close> for a
  value that is \<open>0\<close> and the value otherwise.
\<close>

definition mutateNumeric :: "traits \<Rightarrow> rng \<Rightarrow> traits \<times> rng" where
  "mutateNumeric t g =
     (let key = randomChoice MUTABLE_NUMERIC_TRAITS g;
          base = (if num t key = 0 then 0 else num t key);
          delta = Math_random (rest g) * 0.4 - 0.2;
          newValue = clampTrait key (base + delta)
      in (t\<lparr>num := (num t)(key := newValue)\<rparr>, rest (rest g)))"

fun mutateLoop :: "nat \<Rightarrow> traits \<Rightarrow> rng \<Rightarrow> traits \<times> rng" where
  "mutateLoop 0 t g = (t, g)"
| "mutateLoop (Suc k) t g = (let tg = mutateNumeric t g in mutateLoop k (fst tg) (snd tg))"

definition complexity :: "traits \<Rightarrow> real" where
  "complexity t =
     num t size_trait +
     num t armor * 0.5 +
     num t attack_damage * 0.3 +
     num t max_speed * 0.3 +
     num t vision_radius * 0.1 +
     (if flag t has_venom then 2 else 0) +
     num t regen_rate * 2 +
     (if flag t can_burrow then 1 else 0) +
     (if flag t can_hibernate then 0.5 else 0)"

definition applyMutation :: "traits \<Rightarrow> rng \<Rightarrow> traits \<times> rng" where
  "applyMutation tr g =
     (let t = cloneTraits tr;
          tg1 = (if Math_random g < 0.05
                 then (let key = randomChoice MUTABLE_BOOLEAN_TRAITS (rest g)
                       in (t\<lparr>flag := (flag t)(key := \<not> flag t key)\<rparr>, rest (rest g)))
                 else (t, rest g));
          numMutations = 1 + (if Math_random (snd tg1) < 0.3 then 1 else 0);
          tg2 = mutateLoop numMutations (fst tg1) (rest (snd tg1));
          t2 = fst tg2
      in (t2\<lparr>num := (num t2)(metabolism_rate := 0.02 + complexity t2 * 0.003)\<rparr>, snd tg2))"

text \<open>
  \<^verbatim>\<open>mixTraits\<close> visits the keys of \<open>a\<close> in the order of the object: numbers are averaged
  without a draw, each of the four booleans takes one draw, in the order \<^verbatim>\<open>has_venom\<close>,
  \<^verbatim>\<open>can_hibernate\<close>, \<^verbatim>\<open>can_burrow\<close>, \<^verbatim>\<open>can_autotomize\<close>.
\<close>

definition flagDraw :: "bool_trait \<Rightarrow> nat" where
  "flagDraw k = (case k of has_venom \<Rightarrow> 0 | can_hibernate \<Rightarrow> 1 | can_burrow \<Rightarrow> 2 | can_autotomize \<Rightarrow> 3)"

definition mixTraits :: "traits \<Rightarrow> traits \<Rightarrow> rng \<Rightarrow> traits \<times> rng" where
  "mixTraits a b g =
     (\<lparr> num = (\<lambda>k. (num a k + num b k) / 2),
        flag = (\<lambda>k. if Math_random ((rest ^^ flagDraw k) g) < 0.5 then flag a k else flag b k) \<rparr>,
      (rest ^^ 4) g)"

section \<open>Terrain and food\<close>

definition biomeFoodValue :: "biome \<Rightarrow> diet \<Rightarrow> real" where
  "biomeFoodValue b d =
     (if d = Herbivore then (if b = Woods \<or> b = Fields \<or> b = Swamp then 1.0 else 0.2)
      else if d = Omnivore then (if b = Woods \<or> b = Fields \<or> b = Swamp then 0.7 else 0.3)
      else 0.1)"

definition getBiome :: "env \<Rightarrow> int \<Rightarrow> int \<Rightarrow> biome" where
  "getBiome e x y =
     (if y < 0 \<or> y \<ge> int (WORLD_HEIGHT e) \<or> x < 0 \<or> x \<ge> int (WORLD_WIDTH e) then Fields
      else world e ! nat y ! nat x)"

section \<open>Queries on the creature list\<close>

text \<open>
  \<^verbatim>\<open>findNearbyCreature(creature, radius)\<close> for the creature at index \<open>i\<close>: the index of the
  first other living creature within the radius, in list order.
\<close>

definition findNearbyCreature :: "creature list \<Rightarrow> nat \<Rightarrow> int \<Rightarrow> nat option" where
  "findNearbyCreature cs i radius =
     (let r2 = radius * radius
      in find (\<lambda>j. alive (cs ! j) \<and> j \<noteq> i \<and>
                    (let dx = posx (cs ! j) - posx (cs ! i); dy = posy (cs ! j) - posy (cs ! i)
                     in dx * dx + dy * dy \<le> r2))
              [0..<length cs])"

text \<open>The predicate of \<^verbatim>\<open>creatures.find\<close> in \<^verbatim>\<open>attemptReproduction\<close>.\<close>

definition isMate :: "creature list \<Rightarrow> nat \<Rightarrow> nat \<Rightarrow> bool" where
  "isMate cs i j =
     (alive (cs ! j) \<and> j \<noteq> i \<and> speciesId (cs ! j) = speciesId (cs ! i) \<and>
      sex (cs ! j) \<noteq> sex (cs ! i) \<and>
      \<not> (\<bar>posx (cs ! j) - posx (cs ! i)\<bar> > 1 \<or> \<bar>posy (cs ! j) - posy (cs ! i)\<bar> > 1) \<and>
      \<not> energy (cs ! j) < num (traits (cs ! j)) stomach_capacity * 0.5)"

definition findMate :: "creature list \<Rightarrow> nat \<Rightarrow> nat option" where
  "findMate cs i = find (isMate cs i) [0..<length cs]"

section \<open>Attack resolution\<close>

text \<open>
  \<^verbatim>\<open>resolveAttack(attacker, target)\<close>, with the attacker at index \<open>a\<close> and the target at
  index \<open>t\<close> of the creature list. The local \<^verbatim>\<open>armor\<close> of the source is \<open>armorValue\<close>.
\<close>

definition resolveAttack :: "nat \<Rightarrow> nat \<Rightarrow> creature list \<Rightarrow> creature list" where
  "resolveAttack a t cs =
     (let damage0 = num (traits (cs ! a)) attack_damage + num (traits (cs ! a)) bite_force;
          armorValue = num (traits (cs ! t)) armor + num (traits (cs ! t)) shell_hardness * 2;
          damage = max 0 (damage0 - armorValue)
      in if damage \<le> 0 then cs
         else
          let cs1 = modify t (\<lambda>c. c\<lparr>energy := energy c - damage * 5\<rparr>) cs;
              cs2 = (if num (traits (cs1 ! t)) spine_damage > 0
                     then modify a (\<lambda>c. c\<lparr>energy := energy c - num (traits (cs1 ! t)) spine_damage * 3\<rparr>) cs1
                     else cs1);
              cs3 = (if flag (traits (cs2 ! a)) has_venom \<and> num (traits (cs2 ! a)) venom_power > 0
                     then modify t (\<lambda>c. c\<lparr>energy := energy c - num (traits (cs2 ! a)) venom_power * 2\<rparr>) cs2
                     else cs2)
          in if energy (cs3 ! t) \<le> 0
             then
               let cs4 = modify t (\<lambda>c. c\<lparr>alive := False\<rparr>) cs3
               in modify a (\<lambda>c. c\<lparr>energy := min (num (traits c) stomach_capacity)
                                                 (energy c + 30 * num (traits c) food_efficiency)\<rparr>) cs4
             else cs3)"

section \<open>Reproduction\<close>

text \<open>
  The remainder operator \<^verbatim>\<open>%\<close> on numbers: the quotient is truncated towards zero, and
  the result is \<^verbatim>\<open>NaN\<close> (\<open>None\<close>) for a zero divisor. \<^verbatim>\<open>NaN !== 0\<close> holds.
\<close>

definition js_trunc :: "real \<Rightarrow> int" where
  "js_trunc r = (if 0 \<le> r then \<lfloor>r\<rfloor> else \<lceil>r\<rceil>)"

definition js_rem :: "real \<Rightarrow> real \<Rightarrow> real option" where
  "js_rem a b = (if b = 0 then None else Some (a - b * of_int (js_trunc (a / b))))"

text \<open>
  The offspring loop of \<^verbatim>\<open>attemptReproduction\<close> with \<open>k\<close> iterations left: the parent
  is at index \<open>i\<close>, the mate at index \<open>m\<close>; each child is pushed at the end of the list.
  The lookup \<^verbatim>\<open>speciesList[creature.speciesId]\<close> is modelled for an id that is an index of
  the list. For any other id the source throws in the constructor; that is outside the
  model, and the theorems about offspring assume the id is an index.
\<close>

fun spawnOffspring :: "env \<Rightarrow> nat \<Rightarrow> nat \<Rightarrow> nat \<Rightarrow> creature list \<times> rng \<Rightarrow> creature list \<times> rng" where
  "spawnOffspring e i m 0 s = s"
| "spawnOffspring e i m (Suc k) s =
     (let cs = fst s; g = snd s;
          childSex = (if Math_random g < 0.5 then M else F);
          mixed = mixTraits (traits (cs ! i)) (traits (cs ! m)) (rest g);
          childTraits = fst mixed; g1 = snd mixed;
          sp = speciesList e ! speciesId (cs ! i)
      in if Math_random g1 < 0.4
         then (let mutated = applyMutation childTraits (rest g1)
               in spawnOffspring e i m k
                    (cs @ [Creature sp (posx (cs ! i)) (posy (cs ! i)) childSex (fst mutated)], snd mutated))
         else spawnOffspring e i m k
                (cs @ [Creature sp (posx (cs ! i)) (posy (cs ! i)) childSex childTraits], rest g1))"

definition attemptReproduction :: "env \<Rightarrow> nat \<Rightarrow> creature list \<times> rng \<Rightarrow> creature list \<times> rng" where
  "attemptReproduction e i s =
     (let cs = fst s in
      if \<not> alive (cs ! i) then s
      else if js_rem (real (age (cs ! i))) (num (traits (cs ! i)) repro_cooldown) \<noteq> Some 0 then s
      else case findMate cs i of
             None \<Rightarrow> s
           | Some m \<Rightarrow>
               let offspringCount =
                     round ((num (traits (cs ! i)) offspring_per_cycle +
                             num (traits (cs ! m)) offspring_per_cycle) / 2);
                   s1 = spawnOffspring e i m (nat offspringCount) s;
                   cs2 = modify i (\<lambda>c. c\<lparr>energy := energy c * 0.5\<rparr>) (fst s1);
                   cs3 = modify m (\<lambda>c. c\<lparr>energy := energy c * 0.5\<rparr>) cs2
               in (cs3, snd s1))"

section \<open>The tick of one creature\<close>

definition hungerIncrease :: "creature \<Rightarrow> real" where
  "hungerIncrease c =
     (if dietType c = Omnivore then num (traits c) metabolism_rate * 1.3
      else num (traits c) metabolism_rate)"

text \<open>The first block of \<^verbatim>\<open>stepCreature\<close>: one tick older and hungrier.\<close>

definition ageAndHunger :: "creature \<Rightarrow> creature" where
  "ageAndHunger c =
     (let c1 = c\<lparr>age := age c + 1\<rparr>
      in c1\<lparr>energy := energy c1 - hungerIncrease c1\<rparr>)"

text \<open>The eight lines \<^verbatim>\<open>if (dir === k) ...\<close>: the destination for direction \<open>dir\<close>.\<close>

definition destination :: "int \<Rightarrow> int \<Rightarrow> int \<Rightarrow> int \<times> int" where
  "destination dir x y =
     (if dir = 0 then (x + 1, y)
      else if dir = 1 then (x - 1, y)
      else if dir = 2 then (x, y + 1)
      else if dir = 3 then (x, y - 1)
      else if dir = 4 then (x + 1, y - 1)
      else if dir = 5 then (x - 1, y - 1)
      else if dir = 6 then (x + 1, y + 1)
      else if dir = 7 then (x - 1, y + 1)
      else (x, y))"

text \<open>The creature at the destination, its coordinates clamped to the grid.\<close>

definition moveTo :: "env \<Rightarrow> int \<times> int \<Rightarrow> creature \<Rightarrow> creature" where
  "moveTo e n c =
     c\<lparr>posx := max 0 (min (int (WORLD_WIDTH e) - 1) (fst n)),
       posy := max 0 (min (int (WORLD_HEIGHT e) - 1) (snd n))\<rparr>"

text \<open>The movement block of \<^verbatim>\<open>stepCreature\<close> (the random walk).\<close>

definition moveCreature :: "env \<Rightarrow> creature \<Rightarrow> rng \<Rightarrow> creature \<times> rng" where
  "moveCreature e c g =
     (let stepChance = 0.2 + num (traits c) curiosity * 0.3
      in if Math_random g < stepChance
         then
           (let dir = \<lfloor>Math_random (rest g) * 8\<rfloor>;
                n = destination dir (posx c) (posy c);
                nextBiome = getBiome e (fst n) (snd n)
            in (if movementMode c = Aquatic
                then (if nextBiome = Water then moveTo e n c else c)
                else (if nextBiome \<noteq> Water then moveTo e n c else c),
                rest (rest g)))
         else (c, rest g))"

text \<open>The feeding block: \<open>b\<close> is the value of the local \<^verbatim>\<open>biome\<close>.\<close>

definition feed :: "biome \<Rightarrow> creature \<Rightarrow> creature" where
  "feed b c =
     (let foodFromBiome = biomeFoodValue b (dietType c);
          c1 = c\<lparr>energy := energy c + foodFromBiome * 0.5 * num (traits c) food_efficiency\<rparr>
      in if energy c1 > num (traits c1) stomach_capacity
         then c1\<lparr>energy := num (traits c1) stomach_capacity\<rparr>
         else c1)"

text \<open>The predation block, for the creature at index \<open>i\<close>.\<close>

definition predation :: "nat \<Rightarrow> creature list \<times> rng \<Rightarrow> creature list \<times> rng" where
  "predation i s =
     (let cs = fst s; g = snd s in
      if Math_random g < num (traits (cs ! i)) aggression * 0.05
      then (case findNearbyCreature cs i 1 of
              None \<Rightarrow> (cs, rest g)
            | Some t \<Rightarrow>
                if alive (cs ! t) \<and> t \<noteq> i
                then (let sameSpecies = (speciesId (cs ! t) = speciesId (cs ! i));
                          canAttackSame = isCannibal (cs ! i);
                          isCarnivore = (dietType (cs ! i) = Carnivore \<or> dietType (cs ! i) = Omnivore)
                      in if isCarnivore \<and> (\<not> sameSpecies \<or> (sameSpecies \<and> canAttackSame))
                         then (resolveAttack i t cs, rest g)
                         else (cs, rest g))
                else (cs, rest g))
      else (cs, rest g))"

text \<open>
  The blocks of \<^verbatim>\<open>stepCreature\<close> between the death check and predation, for the creature
  \<open>c2\<close> that passed the death check: regeneration, the local \<^verbatim>\<open>biome\<close> (read before the
  move), the move, feeding.
\<close>

definition regenMoveFeed :: "env \<Rightarrow> creature \<Rightarrow> rng \<Rightarrow> creature \<times> rng" where
  "regenMoveFeed e c2 g =
     (let c3 = c2\<lparr>energy := min (num (traits c2) stomach_capacity)
                                (energy c2 + num (traits c2) regen_rate)\<rparr>;
          b = getBiome e (posx c3) (posy c3);
          moved = moveCreature e c3 g
      in (feed b (fst moved), snd moved))"

text \<open>
  \<^verbatim>\<open>stepCreature(creature, index)\<close> for the creature at index \<open>i\<close>. The writes to
  \<^verbatim>\<open>selectedCreature\<close> belong to the display and are left out.
\<close>

definition stepCreature :: "env \<Rightarrow> nat \<Rightarrow> creature list \<times> rng \<Rightarrow> creature list \<times> rng" where
  "stepCreature e i s =
     (let cs = fst s; g = snd s; c = cs ! i in
      if \<not> alive c then s
      else
        let c2 = ageAndHunger c
        in if real (age c2) > num (traits c2) max_age \<or> energy c2 \<le> 0
           then (cs[i := c2\<lparr>alive := False\<rparr>], g)
           else
             let fed = regenMoveFeed e c2 g;
                 s6 = predation i (cs[i := fst fed], snd fed)
             in if energy (fst s6 ! i) > num (traits (fst s6 ! i)) stomach_capacity * 0.7
                then attemptReproduction e i s6
                else s6)"

section \<open>The simulation step\<close>

text \<open>
  The loop \<^verbatim>\<open>for (let i = 0; i < creatures.length; i++)\<close> of \<^verbatim>\<open>stepSimulation\<close>, from
  index \<open>i\<close>. The bound \<^verbatim>\<open>creatures.length\<close> is read again at every iteration, and the
  list can grow in the loop, so that the loop need not end: \<open>None\<close> is the loop that
  does not end.
\<close>

partial_function (option) tickCreatures :: "env \<Rightarrow> nat \<Rightarrow> creature list \<times> rng \<Rightarrow> (creature list \<times> rng) option" where
  "tickCreatures e i s =
     (if i < length (fst s)
      then tickCreatures e (Suc i) (if alive (fst s ! i) then stepCreature e i s else s)
      else Some s)"

text \<open>
  The year counter is a binary64 number. \<open>binary64 x\<close> is the double nearest to the real
  \<open>x\<close>: round to nearest with ties to even on a significand of 53 bits, the exponent
  not below that of the subnormal numbers. For a positive \<open>x\<close>, \<open>exponent x\<close> is the
  integer \<open>k\<close> with \<open>pow2 k \<le> x < pow2 (k + 1)\<close>. Overflow is outside the model: the
  counter stays far below the largest double. The remainder \<^verbatim>\<open>%\<close> of two doubles is
  exact, so \<open>js_rem\<close> needs no rounding.
\<close>

definition pow2 :: "int \<Rightarrow> real" where
  "pow2 k = (if 0 \<le> k then 2 ^ nat k else 1 / 2 ^ nat (- k))"

definition exponent :: "real \<Rightarrow> int" where
  "exponent x = (if 1 \<le> x then bitlen \<lfloor>x\<rfloor> - 1 else - bitlen (\<lceil>1 / x\<rceil> - 1))"

definition roundTiesToEven :: "real \<Rightarrow> int" where
  "roundTiesToEven r =
     (let f = \<lfloor>r\<rfloor>; d = r - of_int f
      in if d < 1 / 2 then f else if 1 / 2 < d then f + 1 else if even f then f else f + 1)"

definition binary64 :: "real \<Rightarrow> real" where
  "binary64 x =
     (if x = 0 then 0
      else let e = max (exponent \<bar>x\<bar>) (- 1022);
               ulp = pow2 (e - 52)
           in sgn x * (of_int (roundTiesToEven (\<bar>x\<bar> / ulp)) * ulp))"

text \<open>The literal \<^verbatim>\<open>0.01\<close> as a double, and the statement \<^verbatim>\<open>year += 0.01\<close>.\<close>

definition yearStep :: real where
  "yearStep = binary64 0.01"

definition advance :: "real \<Rightarrow> real" where
  "advance y = binary64 (y + yearStep)"

record simulation =
  creatures :: "creature list"
  year :: real
  rand :: rng

definition stepSimulation :: "env \<Rightarrow> simulation \<Rightarrow> simulation option" where
  "stepSimulation e st =
     (case tickCreatures e 0 (creatures st, rand st) of
        None \<Rightarrow> None
      | Some s \<Rightarrow>
          Some \<lparr> creatures = (if js_rem (year st) 5 = Some 0 then filter alive (fst s) else fst s),
                 year = advance (year st),
                 rand = snd s \<rparr>)"

section \<open>Concrete scenes\<close>

text \<open>Small worlds, species and creatures on which the theorems below are run.\<close>

definition withNum :: "num_trait \<Rightarrow> real \<Rightarrow> traits \<Rightarrow> traits" where
  "withNum k v t = t\<lparr>num := (num t)(k := v)\<rparr>"

definition hunters :: species where
  "hunters = \<lparr> sp_id = 0, sp_movementMode = Terrestrial, sp_dietType = Carnivore, sp_isCannibal = False \<rparr>"

definition grazers :: species where
  "grazers = \<lparr> sp_id = 1, sp_movementMode = Terrestrial, sp_dietType = Herbivore, sp_isCannibal = False \<rparr>"

text \<open>
  An attacker with \<^verbatim>\<open>attack_damage = 5\<close> (and the baseline \<^verbatim>\<open>bite_force = 1\<close>, no venom)
  next to a target with \<^verbatim>\<open>armor = 2\<close> (and the baseline \<^verbatim>\<open>shell_hardness = 0\<close>).
\<close>

definition duel :: "creature list" where
  "duel = [Creature hunters 0 0 M (withNum attack_damage 5 createBaselineTraits),
           Creature grazers 1 0 F (withNum armor 2 createBaselineTraits)]"

text \<open>
  What the offspring loop pushes for the parents \<open>p\<close> and \<open>q\<close>: a new creature of the
  species looked up under \<open>p\<close>'s species id, at \<open>p\<close>'s position, whose stomach capacity
  is the mean of the parents'.
\<close>

definition offspringOf :: "env \<Rightarrow> creature \<Rightarrow> creature \<Rightarrow> creature \<Rightarrow> bool" where
  "offspringOf e p q c =
     (\<exists>sx tr. c = Creature (speciesList e ! speciesId p) (posx p) (posy p) sx tr \<and>
        num tr stomach_capacity = (num (traits p) stomach_capacity + num (traits q) stomach_capacity) / 2)"

definition savanna :: env where
  "savanna = \<lparr> WORLD_WIDTH = 2, WORLD_HEIGHT = 2,
               world = [[Water, Fields], [Fields, Fields]],
               speciesList = [hunters, grazers] \<rparr>"

text \<open>
  A tick reaches the reproduction block when the creature is alive and passes the death
  check; \<open>beforeReproduction\<close> is the state in which it reaches it, after ageing, hunger,
  regeneration, the move, feeding and predation.
\<close>

definition survivesTick :: "creature \<Rightarrow> bool" where
  "survivesTick c =
     (alive c \<and>
      \<not> (real (age (ageAndHunger c)) > num (traits (ageAndHunger c)) max_age \<or>
         energy (ageAndHunger c) \<le> 0))"

definition beforeReproduction :: "env \<Rightarrow> nat \<Rightarrow> creature list \<times> rng \<Rightarrow> creature list \<times> rng" where
  "beforeReproduction e i s =
     (let fed = regenMoveFeed e (ageAndHunger (fst s ! i)) (snd s)
      in predation i ((fst s)[i := fst fed], snd fed))"

text \<open>
  A female of age 200 with energy 50.47 and a male of the same species on the tile above
  her: the state in which the tick of the mother of \<open>family\<close> (below) reaches the
  reproduction block.
\<close>

definition courting :: "creature list" where
  "courting = [(Creature grazers 1 1 F createBaselineTraits)\<lparr>age := 200, energy := 50.47\<rparr>,
               Creature grazers 1 0 M createBaselineTraits]"

text \<open>
  The same female with two males next to her; the first in the list has
  \<^verbatim>\<open>offspring_per_cycle = 5\<close>.
\<close>

definition trio :: "creature list" where
  "trio = [(Creature grazers 1 1 F createBaselineTraits)\<lparr>age := 200\<rparr>,
           Creature grazers 1 0 M (withNum offspring_per_cycle 5 createBaselineTraits),
           Creature grazers 0 1 M createBaselineTraits]"

text \<open>
  A female with energy 35 one tick before age 200, next to a male, and the state in
  which her tick reaches the reproduction block.
\<close>

definition shy :: "creature list" where
  "shy = [(Creature grazers 1 1 F createBaselineTraits)\<lparr>age := 199, energy := 35\<rparr>,
          Creature grazers 1 0 M createBaselineTraits]"

definition shy1 :: "creature list" where
  "shy1 = [(Creature grazers 1 1 F createBaselineTraits)\<lparr>age := 200, energy := 35.47\<rparr>,
           Creature grazers 1 0 M createBaselineTraits]"

text \<open>
  A coordinate pair outside the grid, and the destination the movement block computes
  from its second draw.
\<close>

definition offGrid :: "env \<Rightarrow> int \<Rightarrow> int \<Rightarrow> bool" where
  "offGrid e x y = (x < 0 \<or> x \<ge> int (WORLD_WIDTH e) \<or> y < 0 \<or> y \<ge> int (WORLD_HEIGHT e))"

definition nextTile :: "creature \<Rightarrow> rng \<Rightarrow> int \<times> int" where
  "nextTile c g = destination \<lfloor>Math_random (rest g) * 8\<rfloor> (posx c) (posy c)"

definition wanderer :: creature where
  "wanderer = Creature grazers 0 1 F createBaselineTraits"

definition swimmer :: creature where
  "swimmer = (Creature grazers 0 0 F createBaselineTraits)\<lparr>movementMode := Aquatic\<rparr>"

text \<open>
  The clamp table of \<^verbatim>\<open>applyMutation\<close> as a predicate on trait objects, and \<open>n\<close>
  successive calls of \<^verbatim>\<open>applyMutation\<close>, each on the result of the one before.
\<close>

definition clampTable :: "traits \<Rightarrow> bool" where
  "clampTable t =
     (0.3 \<le> num t size_trait \<and> num t size_trait \<le> 3 \<and>
      0.2 \<le> num t max_speed \<and> num t max_speed \<le> 4 \<and>
      0 \<le> num t armor \<and> num t armor \<le> 5 \<and>
      0.1 \<le> num t attack_damage \<and>
      1 \<le> num t offspring_per_cycle \<and> num t offspring_per_cycle \<le> 5 \<and>
      80 \<le> num t repro_cooldown \<and> num t repro_cooldown \<le> 500 \<and>
      3 \<le> num t vision_radius \<and> num t vision_radius \<le> 20)"

fun mutateTimes :: "nat \<Rightarrow> traits \<Rightarrow> rng \<Rightarrow> traits \<times> rng" where
  "mutateTimes 0 t g = (t, g)"
| "mutateTimes (Suc n) t g = (let r = applyMutation t g in mutateTimes n (fst r) (snd r))"

text \<open>
  A herbivore on the \<open>Fields\<close> tile of a two-tile world whose other tile is \<open>Desert\<close>, and
  draws that make it step to the right, attack nobody and so end its tick after feeding.
\<close>

definition meadow :: env where
  "meadow = \<lparr> WORLD_WIDTH = 2, WORLD_HEIGHT = 1, world = [[Fields, Desert]],
              speciesList = [hunters, grazers] \<rparr>"

definition grazer :: creature where
  "grazer = Creature grazers 0 0 F createBaselineTraits"

definition meadowDraws :: rng where
  "meadowDraws = draws [0.1, 0, 0.5] 0.5"

definition meadowTick :: creature where
  "meadowTick = fst (stepCreature meadow 0 ([grazer], meadowDraws)) ! 0"

text \<open>Draws for which the palette loop ends after two additions.\<close>

definition worldDraws :: rng where
  "worldDraws = draws [0.5, 0.2, 0.5] 0.5"

text \<open>
  Relations between a creature list and a later one. \<open>grows\<close>: the list has only been
  extended and updated in place, no age has changed, no dead creature has changed, and
  the creatures appended have age 0. \<open>ticked i\<close>: the same, except that the creature at
  index \<open>i\<close>, if alive, is one tick older. \<open>passed i\<close>: what the loop of
  \<^verbatim>\<open>stepSimulation\<close> from index \<open>i\<close> does to the ages of the creatures alive at its end.
\<close>

definition grows :: "creature list \<Rightarrow> creature list \<Rightarrow> bool" where
  "grows cs cs' =
     (length cs \<le> length cs' \<and>
      (\<forall>k<length cs. age (cs' ! k) = age (cs ! k) \<and> (\<not> alive (cs ! k) \<longrightarrow> cs' ! k = cs ! k)) \<and>
      (\<forall>k<length cs'. length cs \<le> k \<longrightarrow> age (cs' ! k) = 0))"

definition ticked :: "nat \<Rightarrow> creature list \<Rightarrow> creature list \<Rightarrow> bool" where
  "ticked i cs cs' =
     (length cs \<le> length cs' \<and>
      (\<forall>k<length cs. (\<not> alive (cs ! k) \<longrightarrow> cs' ! k = cs ! k) \<and>
          age (cs' ! k) = (if k = i \<and> alive (cs ! k) then age (cs ! k) + 1 else age (cs ! k))) \<and>
      (\<forall>k<length cs'. length cs \<le> k \<longrightarrow> age (cs' ! k) = 0))"

definition passed :: "nat \<Rightarrow> creature list \<Rightarrow> creature list \<Rightarrow> bool" where
  "passed i cs cs' =
     (length cs \<le> length cs' \<and>
      (\<forall>k<length cs. \<not> alive (cs ! k) \<longrightarrow> cs' ! k = cs ! k) \<and>
      (\<forall>k<length cs'. alive (cs' ! k) \<longrightarrow>
          age (cs' ! k) = (if k < i then age (cs ! k)
                           else if k < length cs then age (cs ! k) + 1 else 1)))"

text \<open>The random source whose every draw is 0.5: nobody moves, attacks or mutates.\<close>

definition halfDraws :: rng where
  "halfDraws = draws [] 0.5"

text \<open>
  A female one tick before her reproduction age and a male next to her; the list after
  her tick (with the child) and after the whole pass.
\<close>

definition family :: "creature list" where
  "family = [(Creature grazers 1 1 F createBaselineTraits)\<lparr>age := 199\<rparr>,
             Creature grazers 1 0 M createBaselineTraits]"

definition babyTraits :: traits where
  "babyTraits = fst (mixTraits createBaselineTraits createBaselineTraits halfDraws)"

definition family1 :: "creature list" where
  "family1 = [(Creature grazers 1 1 F createBaselineTraits)\<lparr>age := 200, energy := 25.235\<rparr>,
              (Creature grazers 1 0 M createBaselineTraits)\<lparr>energy := 25\<rparr>,
              Creature grazers 1 1 F babyTraits]"

definition family3 :: "creature list" where
  "family3 = [(Creature grazers 1 1 F createBaselineTraits)\<lparr>age := 200, energy := 25.235\<rparr>,
              (Creature grazers 1 0 M createBaselineTraits)\<lparr>age := 1, energy := 25.47\<rparr>,
              (Creature grazers 1 1 F babyTraits)\<lparr>age := 1, energy := 50.47\<rparr>]"

text \<open>
  The loop of \<^verbatim>\<open>loop\<close>: \<open>n\<close> simulation steps in a row.
\<close>

fun runSteps :: "nat \<Rightarrow> env \<Rightarrow> simulation \<Rightarrow> simulation option" where
  "runSteps 0 e st = Some st"
| "runSteps (Suc n) e st =
     (case stepSimulation e st of None \<Rightarrow> None | Some st1 \<Rightarrow> runSteps n e st1)"

text \<open>
  A creature one tick short of its maximal age, the same creature a tick later, and
  what the tick after that leaves of it: it dies of age.
\<close>

definition elder :: creature where
  "elder = (Creature grazers 1 1 F createBaselineTraits)\<lparr>age := 1999\<rparr>"

definition elder1 :: creature where
  "elder1 = (Creature grazers 1 1 F createBaselineTraits)\<lparr>age := 2000, energy := 50.47\<rparr>"

definition late :: creature where
  "late = (Creature grazers 1 1 F createBaselineTraits)\<lparr>age := 2001, energy := 50.44, alive := False\<rparr>"

text \<open>A creature too hungry to survive its next tick, and what that tick leaves of it.\<close>

definition starving :: creature where
  "starving = (Creature grazers 1 1 F createBaselineTraits)\<lparr>energy := 0.02\<rparr>"

definition starved :: creature where
  "starved = (Creature grazers 1 1 F createBaselineTraits)\<lparr>age := 1, energy := - 0.01, alive := False\<rparr>"

text \<open>
  The bound a living creature keeps: its energy is at most its stomach capacity, and the
  capacity is at least 50, the energy a creature is born with.
\<close>

definition fits :: "creature \<Rightarrow> bool" where
  "fits c = (alive c \<longrightarrow> 50 \<le> num (traits c) stomach_capacity \<and>
                          energy c \<le> num (traits c) stomach_capacity)"

text \<open>The attacker of \<open>duel\<close> next to a target with energy 10.\<close>

definition ambush :: "creature list" where
  "ambush = [Creature hunters 0 0 M (withNum attack_damage 5 createBaselineTraits),
             (Creature grazers 1 0 F (withNum armor 2 createBaselineTraits))\<lparr>energy := 10\<rparr>]"

section \<open>Movement-mode containment: predicates and scenes\<close>








section \<open>Properties of the random source\<close>

lemma Rep_mk_draw [simp]: "Rep_draw (mk_draw r) = (if 0 \<le> r \<and> r < 1 then r else 0)"
  by (simp add: mk_draw_def Abs_draw_inverse)

lemma Math_random_range: "0 \<le> Math_random g \<and> Math_random g < 1"
  using Rep_draw [of "g 0"] by (simp add: Math_random_def)

lemma Math_random_draws_Cons [simp]:
  "Math_random (draws (r # rs) d) = (if 0 \<le> r \<and> r < 1 then r else 0)"
  by (simp add: Math_random_def draws_def)

lemma Math_random_draws_Nil [simp]:
  "Math_random (draws [] d) = (if 0 \<le> d \<and> d < 1 then d else 0)"
  by (simp add: Math_random_def draws_def)

lemma rest_draws_Cons [simp]: "rest (draws (r # rs) d) = draws rs d"
  by (simp add: rest_def draws_def cong: if_cong)

lemma rest_draws_Nil [simp]: "rest (draws [] d) = draws [] d"
  by (simp add: rest_def draws_def)

section \<open>Properties of binary64 rounding\<close>

lemma bitlen_numeral:
  "bitlen (numeral n) = bitlen (numeral n div 2) + 1"
  by (subst compute_bitlen) simp

lemma bitlen_one [simp]: "bitlen 1 = 1"
  by (subst compute_bitlen) simp

lemma yearStep_value: "yearStep = 5764607523034235 / 2 ^ 59"
  by (simp add: yearStep_def binary64_def exponent_def roundTiesToEven_def pow2_def Let_def bitlen_numeral)

text \<open>The familiar sum: in binary64, 0.1 + 0.2 is not the double nearest to 0.3.\<close>

lemma binary64_sum_example:
  "binary64 (binary64 0.1 + binary64 0.2) = 0.3000000000000000444089209850062616169452667236328125"
  "binary64 0.3 = 0.299999999999999988897769753748434595763683319091796875"
  by (simp_all add: binary64_def exponent_def roundTiesToEven_def pow2_def Let_def bitlen_numeral)

lemma pow2_powi: "pow2 k = 2 powi k"
  by (simp add: pow2_def power_int_def inverse_eq_divide power_one_over)

lemma pow2_pos [simp]: "0 < pow2 k"
  by (simp add: pow2_powi)

lemma pow2_nonzero [simp]: "pow2 k \<noteq> 0"
  by (simp add: pow2_powi)

lemma pow2_add: "pow2 (a + b) = pow2 a * pow2 b"
  by (simp add: pow2_powi power_int_add)

lemma pow2_neg: "pow2 (- int n) = 1 / 2 ^ n"
  by (simp add: pow2_powi power_int_minus inverse_eq_divide)

lemma bitlen_eqI:
  assumes "2 ^ j \<le> n" and "n < 2 ^ Suc j"
  shows "bitlen n = int j + 1"
proof -
  have "bitlen n \<le> int j + 1"
    using assms(2) by (simp add: bitlen_le_iff_power nat_add_distrib)
  moreover have "int j + 1 \<le> bitlen n"
    using assms(1) by (simp add: bitlen_ge_iff_power nat_add_distrib)
  ultimately show ?thesis
    by simp
qed

lemma exponent_unique:
  assumes "pow2 k \<le> x" and "x < pow2 (k + 1)"
  shows "exponent x = k"
proof (cases "0 \<le> k")
  case True
  then obtain j where k: "k = int j"
    using nonneg_int_cases by blast
  have lo: "2 ^ j \<le> x" and hi: "x < 2 ^ Suc j"
    using assms by (simp_all add: k pow2_def nat_add_distrib)
  have "1 \<le> x"
    using lo one_le_power [of "2::real" j] by linarith
  moreover have "(2::int) ^ j \<le> \<lfloor>x\<rfloor>"
    using lo by (simp add: le_floor_iff)
  moreover have "\<lfloor>x\<rfloor> < 2 ^ Suc j"
    using hi by (simp add: floor_less_iff)
  ultimately show ?thesis
    by (simp add: exponent_def k bitlen_eqI [of j])
next
  case False
  define j where "j = nat (- k - 1)"
  have k: "k = - int (Suc j)"
    using False by (simp add: j_def)
  have k1: "k + 1 = - int j"
    by (simp add: k)
  have lo: "1 / 2 ^ Suc j \<le> x"
    using assms(1) unfolding k pow2_neg .
  have hi: "x < 1 / 2 ^ j"
    using assms(2) unfolding k1 pow2_neg .
  have x0: "0 < x"
    using lo less_le_trans [of 0 "1 / 2 ^ Suc j" x] by simp
  have x1: "x < 1"
  proof -
    have "1 / (2::real) ^ j \<le> 1"
      by (simp add: field_simps)
    then show ?thesis
      using hi by linarith
  qed
  have a: "2 ^ j < 1 / x"
    using hi x0 by (simp add: field_simps)
  have b: "1 / x \<le> 2 ^ Suc j"
    using lo x0 by (simp add: field_simps)
  have "(2::int) ^ j \<le> \<lceil>1 / x\<rceil> - 1"
  proof -
    have "of_int ((2::int) ^ j) < 1 / x"
      using a by simp
    then have "(2::int) ^ j < \<lceil>1 / x\<rceil>"
      by (simp only: less_ceiling_iff)
    then show ?thesis by simp
  qed
  moreover have "\<lceil>1 / x\<rceil> - 1 < 2 ^ Suc j"
  proof -
    have "1 / x \<le> of_int ((2::int) ^ Suc j)"
      using b by simp
    then have "\<lceil>1 / x\<rceil> \<le> (2::int) ^ Suc j"
      by (simp only: ceiling_le_iff)
    then show ?thesis by simp
  qed
  ultimately have "bitlen (\<lceil>1 / x\<rceil> - 1) = int j + 1"
    by (rule bitlen_eqI)
  then show ?thesis
    using x1 by (simp add: exponent_def k)
qed

lemma roundTiesToEven_near:
  assumes "\<bar>d\<bar> < 1 / 2"
  shows "roundTiesToEven (of_int m + d) = m"
proof (cases "0 \<le> d")
  case True
  then have "\<lfloor>of_int m + d\<rfloor> = m"
    using assms by (simp add: floor_eq_iff)
  then show ?thesis
    using assms True by (simp add: roundTiesToEven_def Let_def)
next
  case False
  then have "\<lfloor>of_int m + d\<rfloor> = m - 1"
    using assms by (simp add: floor_eq_iff)
  then show ?thesis
    using assms False by (simp add: roundTiesToEven_def Let_def)
qed

lemma binary64_in_binade:
  assumes "2 ^ 52 < m" and "m < 2 ^ 53" and "\<bar>d\<bar> < 1 / 2" and "- 1074 \<le> k"
  shows "binary64 ((of_int m + d) * pow2 k) = of_int m * pow2 k"
proof -
  define x where "x = (of_int m + d) * pow2 k"
  have "(2::int) ^ 52 + 1 \<le> m" "m \<le> (2::int) ^ 53 - 1"
    using assms(1,2) by simp_all
  then have "of_int ((2::int) ^ 52 + 1) \<le> (of_int m :: real)"
    "(of_int m :: real) \<le> of_int ((2::int) ^ 53 - 1)"
    by (simp_all only: of_int_le_iff)
  then have m1: "(2::real) ^ 52 + 1 \<le> of_int m" and m2: "of_int m \<le> (2::real) ^ 53 - 1"
    by simp_all
  have lo: "2 ^ 52 \<le> of_int m + d" and hi: "of_int m + d < 2 ^ 53"
    using m1 m2 assms(3) by linarith+
  have "pow2 52 = 2 ^ 52" "pow2 53 = 2 ^ 53"
    by (simp_all add: pow2_def)
  then have "pow2 (k + 52) = 2 ^ 52 * pow2 k" "pow2 (k + 52 + 1) = 2 ^ 53 * pow2 k"
    using pow2_add [of k 52] pow2_add [of k 53] by (simp_all add: add.assoc)
  then have "pow2 (k + 52) \<le> x" "x < pow2 (k + 52 + 1)"
    using lo hi by (simp_all add: x_def)
  then have e: "exponent x = k + 52"
    by (rule exponent_unique)
  have pos: "0 < x"
    using lo by (simp add: x_def zero_less_mult_iff) linarith?
  have ee: "max (exponent \<bar>x\<bar>) (- 1022) - 52 = k"
    using pos e assms(4) by simp
  have "binary64 x = sgn x * (of_int (roundTiesToEven (\<bar>x\<bar> / pow2 k)) * pow2 k)"
    using pos unfolding binary64_def Let_def ee by simp
  then have "binary64 x = of_int (roundTiesToEven (x / pow2 k)) * pow2 k"
    using pos by simp
  also have "x / pow2 k = of_int m + d"
    by (simp add: x_def)
  finally show ?thesis
    using assms(3) by (simp add: roundTiesToEven_near x_def)
qed


lemma advance_in_binade:
  assumes "yearStep = (of_int q + r) * pow2 k" and "\<bar>r\<bar> < 1 / 2"
    and "2 ^ 52 \<le> m" and "0 < q" and "m + q < 2 ^ 53" and "- 1074 \<le> k"
  shows "advance (of_int m * pow2 k) = of_int (m + q) * pow2 k"
proof -
  have "of_int m * pow2 k + yearStep = (of_int (m + q) + r) * pow2 k"
    by (simp add: assms(1) algebra_simps)
  moreover have "2 ^ 52 < m + q"
    using assms(3,4) by simp
  ultimately show ?thesis
    using assms(2,5,6) by (simp only: advance_def binary64_in_binade)
qed

lemma advance_0: "advance 0 = yearStep"
  by (simp add: advance_def yearStep_value)
     (simp add: binary64_def exponent_def roundTiesToEven_def pow2_def Let_def bitlen_numeral)

section \<open>Attack resolution (C7)\<close>

text \<open>
  Claim C7. For an attacker and a target that are different creatures of the list,
  \<^verbatim>\<open>resolveAttack\<close> computes
  \<open>damage = max 0 (attack_damage + bite_force - (armor + 2 * shell_hardness))\<close>; for
  \<open>damage \<le> 0\<close> the list is unchanged; otherwise the target loses \<open>damage * 5\<close>, plus
  \<open>venom_power * 2\<close> when the attacker has venom of positive power, the attacker loses
  \<open>spine_damage * 3\<close> when the target's spine damage is positive, and when the target's
  energy is then \<open>\<le> 0\<close> the target is dead and the attacker's energy becomes
  \<open>min stomach_capacity (energy + 30 * food_efficiency)\<close>; no other creature changes. In
  particular, with \<open>attack_damage = 5\<close>, \<open>bite_force = 1\<close>, no venom, against \<open>armor = 2\<close>
  and \<open>shell_hardness = 0\<close>, the damage is 4 and the target loses 20.
\<close>

theorem resolveAttack_correct:
  assumes "a < length cs" and "t < length cs" and "a \<noteq> t"
  shows "resolveAttack a t cs =
     (let A = cs ! a; T = cs ! t;
          damage = max 0 (num (traits A) attack_damage + num (traits A) bite_force
                          - (num (traits T) armor + 2 * num (traits T) shell_hardness));
          spines = (if num (traits T) spine_damage > 0 then num (traits T) spine_damage * 3 else 0);
          venom = (if flag (traits A) has_venom \<and> num (traits A) venom_power > 0
                   then num (traits A) venom_power * 2 else 0);
          targetEnergy = energy T - damage * 5 - venom;
          attackerEnergy = energy A - spines
      in if damage \<le> 0 then cs
         else if targetEnergy \<le> 0
              then cs[t := T\<lparr>energy := targetEnergy, alive := False\<rparr>,
                      a := A\<lparr>energy := min (num (traits A) stomach_capacity)
                                         (attackerEnergy + 30 * num (traits A) food_efficiency)\<rparr>]
              else cs[t := T\<lparr>energy := targetEnergy\<rparr>, a := A\<lparr>energy := attackerEnergy\<rparr>])
     \<and> (num (traits (cs ! a)) attack_damage = 5 \<and> num (traits (cs ! a)) bite_force = 1 \<and>
        \<not> flag (traits (cs ! a)) has_venom \<and>
        num (traits (cs ! t)) armor = 2 \<and> num (traits (cs ! t)) shell_hardness = 0 \<longrightarrow>
        max 0 (num (traits (cs ! a)) attack_damage + num (traits (cs ! a)) bite_force
               - (num (traits (cs ! t)) armor + 2 * num (traits (cs ! t)) shell_hardness)) = 4 \<and>
        energy (resolveAttack a t cs ! t) = energy (cs ! t) - 20)"
proof -
  have keep: "cs[t := X, a := cs ! a] = cs[t := X]" for X
    using assms by (metis list_update_id nth_list_update_neq)
  have main: "resolveAttack a t cs =
     (let A = cs ! a; T = cs ! t;
          damage = max 0 (num (traits A) attack_damage + num (traits A) bite_force
                          - (num (traits T) armor + 2 * num (traits T) shell_hardness));
          spines = (if num (traits T) spine_damage > 0 then num (traits T) spine_damage * 3 else 0);
          venom = (if flag (traits A) has_venom \<and> num (traits A) venom_power > 0
                   then num (traits A) venom_power * 2 else 0);
          targetEnergy = energy T - damage * 5 - venom;
          attackerEnergy = energy A - spines
      in if damage \<le> 0 then cs
         else if targetEnergy \<le> 0
              then cs[t := T\<lparr>energy := targetEnergy, alive := False\<rparr>,
                      a := A\<lparr>energy := min (num (traits A) stomach_capacity)
                                         (attackerEnergy + 30 * num (traits A) food_efficiency)\<rparr>]
              else cs[t := T\<lparr>energy := targetEnergy\<rparr>, a := A\<lparr>energy := attackerEnergy\<rparr>])"
    using assms
    by (cases "0 < num (traits (cs ! t)) spine_damage";
        cases "flag (traits (cs ! a)) has_venom"; cases "0 < num (traits (cs ! a)) venom_power";
        simp add: resolveAttack_def modify_def Let_def list_update_swap [of a t] keep)
  have scenario: "energy (resolveAttack a t cs ! t) = energy (cs ! t) - 20"
    if "num (traits (cs ! a)) attack_damage = 5" and "num (traits (cs ! a)) bite_force = 1"
      and "\<not> flag (traits (cs ! a)) has_venom"
      and "num (traits (cs ! t)) armor = 2" and "num (traits (cs ! t)) shell_hardness = 0"
    using that assms by (simp add: main Let_def)
  show ?thesis
    using main scenario by simp
qed

theorem resolveAttack_correct_witness:
  "(0::nat) < length duel \<and> (1::nat) < length duel \<and> (0::nat) \<noteq> 1 \<and>
   energy (resolveAttack 0 1 duel ! 1) = 30 \<and> alive (resolveAttack 0 1 duel ! 1) \<and>
   energy (resolveAttack 0 1 duel ! 0) = 50"
  using resolveAttack_correct [of 0 duel 1]
  by (simp add: duel_def Creature_def withNum_def createBaselineTraits_def Let_def)

section \<open>Helper lemmas: choices, mutation, offspring\<close>

lemma find_upt_Some:
  "find P [0..<n] = Some m \<longleftrightarrow> m < n \<and> P m \<and> (\<forall>j<m. \<not> P j)"
  by (auto simp: find_Some_iff)

lemma find_upt_None: "find P [0..<n] = None \<longleftrightarrow> (\<forall>j<n. \<not> P j)"
  by (auto simp: find_None_iff)

lemma random_index: 
  assumes "0 < n"
  shows "0 \<le> \<lfloor>Math_random g * real n\<rfloor> \<and> \<lfloor>Math_random g * real n\<rfloor> < int n"
proof -
  have r: "0 \<le> Math_random g" "Math_random g < 1"
    using Math_random_range [of g] by auto
  have "0 \<le> Math_random g * real n"
    using r by simp
  moreover have "Math_random g * real n < real n"
    using r assms by simp
  ultimately show ?thesis
    by (simp add: floor_less_iff)
qed

lemma randomChoice_mem: "arr \<noteq> [] \<Longrightarrow> randomChoice arr g \<in> set arr"
  using random_index [of "length arr" g]
  by (simp add: randomChoice_def nat_less_iff)

lemma mutateNumeric_capacity:
  "num (fst (mutateNumeric t g)) stomach_capacity = num t stomach_capacity"
proof -
  have "randomChoice MUTABLE_NUMERIC_TRAITS g \<in> set MUTABLE_NUMERIC_TRAITS"
    by (rule randomChoice_mem) (simp add: MUTABLE_NUMERIC_TRAITS_def)
  then have "randomChoice MUTABLE_NUMERIC_TRAITS g \<noteq> stomach_capacity"
    by (auto simp: MUTABLE_NUMERIC_TRAITS_def)
  then show ?thesis
    by (simp add: mutateNumeric_def Let_def)
qed

lemma mutateLoop_capacity:
  "num (fst (mutateLoop k t g)) stomach_capacity = num t stomach_capacity"
  by (induction k arbitrary: t g) (simp_all add: Let_def mutateNumeric_capacity)

lemma applyMutation_capacity:
  "num (fst (applyMutation t g)) stomach_capacity = num t stomach_capacity"
  by (simp add: applyMutation_def Let_def mutateLoop_capacity mutateNumeric_capacity cloneTraits_def)

lemma mixTraits_num: "num (fst (mixTraits a b g)) k = (num a k + num b k) / 2"
  by (simp add: mixTraits_def)

lemma spawnOffspring_shape:
  assumes "i < length cs" and "m < length cs"
  shows "\<exists>kids. fst (spawnOffspring e i m k (cs, g)) = cs @ kids \<and> length kids = k \<and>
           (\<forall>c\<in>set kids. offspringOf e (cs ! i) (cs ! m) c)"
  using assms
proof (induction k arbitrary: cs g)
  case 0
  then show ?case by simp
next
  case (Suc k)
  define childSex where "childSex = (if Math_random g < 0.5 then M else F)"
  define mixed where "mixed = mixTraits (traits (cs ! i)) (traits (cs ! m)) (rest g)"
  define tr where "tr = (if Math_random (snd mixed) < 0.4
                          then fst (applyMutation (fst mixed) (rest (snd mixed))) else fst mixed)"
  define g' where "g' = (if Math_random (snd mixed) < 0.4
                          then snd (applyMutation (fst mixed) (rest (snd mixed))) else rest (snd mixed))"
  define kid where "kid = Creature (speciesList e ! speciesId (cs ! i)) (posx (cs ! i)) (posy (cs ! i)) childSex tr"
  have step: "spawnOffspring e i m (Suc k) (cs, g) = spawnOffspring e i m k (cs @ [kid], g')"
    by (simp add: Let_def childSex_def mixed_def tr_def g'_def kid_def)
  have cap: "num tr stomach_capacity =
      (num (traits (cs ! i)) stomach_capacity + num (traits (cs ! m)) stomach_capacity) / 2"
    by (simp add: tr_def mixed_def applyMutation_capacity mixTraits_num)
  have kid: "offspringOf e (cs ! i) (cs ! m) kid"
    unfolding offspringOf_def kid_def using cap by blast
  have nth: "(cs @ [kid]) ! i = cs ! i" "(cs @ [kid]) ! m = cs ! m"
    using Suc.prems by (simp_all add: nth_append)
  from Suc.IH [of "cs @ [kid]" g'] Suc.prems nth
  obtain kids where kids: "fst (spawnOffspring e i m k (cs @ [kid], g')) = (cs @ [kid]) @ kids"
      "length kids = k" "\<forall>c\<in>set kids. offspringOf e (cs ! i) (cs ! m) c"
    by auto
  show ?case
    using kids kid step by (intro exI [of _ "kid # kids"]) simp
qed

lemma js_rem_multiple:
  assumes "b \<noteq> 0" and "a = of_int q * b"
  shows "js_rem a b = Some 0"
proof -
  have "a / b = of_int q" using assms by simp
  then have "js_trunc (a / b) = q" by (simp add: js_trunc_def)
  then show ?thesis using assms by (simp add: js_rem_def)
qed

section \<open>Terrain outside the grid (C10)\<close>

text \<open>
  Claim C10. For every coordinate pair outside the grid \<^verbatim>\<open>getBiome\<close> returns
  \<open>Fields\<close>. So, in the movement block, when a move is attempted and the destination is
  outside the grid, a terrestrial creature accepts it, and its coordinates are the
  destination's clamped to the grid boundary, while an aquatic creature stays where it
  is.
\<close>

theorem offGrid_terrain:
  "(offGrid e x y \<longrightarrow> getBiome e x y = Fields) \<and>
   (Math_random g < 0.2 + num (traits c) curiosity * 0.3 \<and>
    offGrid e (fst (nextTile c g)) (snd (nextTile c g)) \<longrightarrow>
      (movementMode c = Terrestrial \<longrightarrow>
         fst (moveCreature e c g) = moveTo e (nextTile c g) c \<and>
         posx (fst (moveCreature e c g)) = max 0 (min (int (WORLD_WIDTH e) - 1) (fst (nextTile c g))) \<and>
         posy (fst (moveCreature e c g)) = max 0 (min (int (WORLD_HEIGHT e) - 1) (snd (nextTile c g)))) \<and>
      (movementMode c = Aquatic \<longrightarrow> fst (moveCreature e c g) = c))"
proof -
  have fields: "getBiome e x y = Fields" if "offGrid e x y" for x y
    using that by (auto simp: offGrid_def getBiome_def)
  show ?thesis
    using fields [of "fst (nextTile c g)" "snd (nextTile c g)"] fields [of x y]
    by (auto simp: moveCreature_def Let_def nextTile_def moveTo_def)
qed

theorem offGrid_terrain_witness:
  "offGrid savanna (-1) 0 \<and> getBiome savanna (-1) 0 = Fields \<and>
   Math_random (draws [0.1, 0.7] 0.5) < 0.2 + num (traits wanderer) curiosity * 0.3 \<and>
   nextTile wanderer (draws [0.1, 0.7] 0.5) = (-1, 0) \<and>
   movementMode wanderer = Terrestrial \<and>
   posx (fst (moveCreature savanna wanderer (draws [0.1, 0.7] 0.5))) = 0 \<and>
   posy (fst (moveCreature savanna wanderer (draws [0.1, 0.7] 0.5))) = 0 \<and>
   nextTile swimmer (draws [0.1, 0.7] 0.5) = (-1, -1) \<and>
   movementMode swimmer = Aquatic \<and>
   fst (moveCreature savanna swimmer (draws [0.1, 0.7] 0.5)) = swimmer"
proof -
  have a: "offGrid savanna (-1) 0"
    by (simp add: offGrid_def savanna_def)
  have b: "Math_random (draws [0.1, 0.7] 0.5) < 0.2 + num (traits wanderer) curiosity * 0.3"
    "Math_random (draws [0.1, 0.7] 0.5) < 0.2 + num (traits swimmer) curiosity * 0.3"
    by (simp_all add: wanderer_def swimmer_def Creature_def createBaselineTraits_def)
  have c: "nextTile wanderer (draws [0.1, 0.7] 0.5) = (-1, 0)" "nextTile swimmer (draws [0.1, 0.7] 0.5) = (-1, -1)"
    by (simp_all add: nextTile_def destination_def wanderer_def swimmer_def Creature_def)
  have d: "movementMode wanderer = Terrestrial" "movementMode swimmer = Aquatic"
    by (simp_all add: wanderer_def swimmer_def Creature_def grazers_def)
  have e: "offGrid savanna (fst (nextTile wanderer (draws [0.1, 0.7] 0.5))) (snd (nextTile wanderer (draws [0.1, 0.7] 0.5)))"
     "offGrid savanna (fst (nextTile swimmer (draws [0.1, 0.7] 0.5))) (snd (nextTile swimmer (draws [0.1, 0.7] 0.5)))"
    unfolding c by (simp_all add: offGrid_def savanna_def)
  have f: "WORLD_WIDTH savanna = 2" "WORLD_HEIGHT savanna = 2"
    by (simp_all add: savanna_def)
  show ?thesis
    using offGrid_terrain [of savanna "-1" 0 "draws [0.1, 0.7] 0.5" wanderer]
      offGrid_terrain [of savanna "-1" 0 "draws [0.1, 0.7] 0.5" swimmer]
      a b c d e
    by (simp add: f moveTo_def)
qed

section \<open>Mutation clamps (C8)\<close>

lemma clampTable_update:
  "clampTable t \<Longrightarrow> clampTable (t\<lparr>num := (num t)(key := clampTrait key v)\<rparr>)"
  by (auto simp: clampTable_def clampTrait_def Let_def)

lemma clampTable_flag: "clampTable (t\<lparr>flag := f\<rparr>) = clampTable t"
  by (simp add: clampTable_def)

lemma clampTable_metabolism:
  "clampTable (t\<lparr>num := (num t)(metabolism_rate := v)\<rparr>) = clampTable t"
  by (simp add: clampTable_def)

lemma mutateNumeric_clampTable: "clampTable t \<Longrightarrow> clampTable (fst (mutateNumeric t g))"
  by (simp add: mutateNumeric_def Let_def clampTable_update)

lemma mutateLoop_clampTable: "clampTable t \<Longrightarrow> clampTable (fst (mutateLoop k t g))"
  by (induction k arbitrary: t g) (simp_all add: Let_def mutateNumeric_clampTable)

lemma applyMutation_clampTable: "clampTable t \<Longrightarrow> clampTable (fst (applyMutation t g))"
  by (simp add: applyMutation_def Let_def cloneTraits_def clampTable_metabolism
      mutateLoop_clampTable clampTable_flag del: mutateLoop.simps)

text \<open>
  Claim C8. A trait object that satisfies the clamp table (size in \<open>[0.3, 3]\<close>, max_speed
  in \<open>[0.2, 4]\<close>, armor in \<open>[0, 5]\<close>, attack_damage \<open>\<ge> 0.1\<close>, offspring_per_cycle in
  \<open>[1, 5]\<close>, repro_cooldown in \<open>[80, 500]\<close>, vision_radius in \<open>[3, 20]\<close>) still satisfies
  it after any number \<open>n\<close> of successive calls of \<^verbatim>\<open>applyMutation\<close>, for every random
  source.
\<close>

theorem mutation_clamps:
  "clampTable t \<Longrightarrow> clampTable (fst (mutateTimes n t g))"
  by (induction n arbitrary: t g) (simp_all add: Let_def applyMutation_clampTable)

theorem mutation_clamps_witness:
  "clampTable createBaselineTraits \<and>
   clampTable (fst (mutateTimes 2 createBaselineTraits (draws [0.5, 0.5, 0.33, 0] 0.5))) \<and>
   num (fst (applyMutation createBaselineTraits (draws [0.5, 0.5, 0.33, 0] 0.5))) offspring_per_cycle = 1"
proof -
  have b: "clampTable createBaselineTraits"
    by (simp add: clampTable_def createBaselineTraits_def)
  have "randomChoice MUTABLE_NUMERIC_TRAITS (draws [0.33, 0] 0.5) = offspring_per_cycle"
    by (simp add: randomChoice_def MUTABLE_NUMERIC_TRAITS_def)
  then have "num (fst (applyMutation createBaselineTraits (draws [0.5, 0.5, 0.33, 0] 0.5))) offspring_per_cycle = 1"
    by (simp add: applyMutation_def Let_def cloneTraits_def mutateNumeric_def clampTrait_def
        createBaselineTraits_def)
  then show ?thesis
    using b mutation_clamps [OF b, of 2 "draws [0.5, 0.5, 0.33, 0] 0.5"] by simp
qed

section \<open>Feeding (C4)\<close>

lemma baseline_values:
  "num createBaselineTraits curiosity = 0.5"
  "num createBaselineTraits metabolism_rate = 0.03"
  "num createBaselineTraits stomach_capacity = 60"
  "num createBaselineTraits regen_rate = 0"
  "num createBaselineTraits food_efficiency = 1"
  "num createBaselineTraits aggression = 0.3"
  "num createBaselineTraits max_age = 2000"
  "num createBaselineTraits repro_cooldown = 200"
  "num createBaselineTraits offspring_per_cycle = 1"
  "num createBaselineTraits attack_damage = 1"
  "num createBaselineTraits bite_force = 1"
  "num createBaselineTraits armor = 0"
  "num createBaselineTraits shell_hardness = 0"
  "num createBaselineTraits spine_damage = 0"
  "num createBaselineTraits venom_power = 0"
  "flag createBaselineTraits k = False"
  by (simp_all add: createBaselineTraits_def)

lemma moveCreature_keeps:
  "energy (fst (moveCreature e c g)) = energy c"
  "traits (fst (moveCreature e c g)) = traits c"
  "dietType (fst (moveCreature e c g)) = dietType c"
  "age (fst (moveCreature e c g)) = age c"
  "alive (fst (moveCreature e c g)) = alive c"
  "speciesId (fst (moveCreature e c g)) = speciesId c"
  "movementMode (fst (moveCreature e c g)) = movementMode c"
  "sex (fst (moveCreature e c g)) = sex c"
  "isCannibal (fst (moveCreature e c g)) = isCannibal c"
  by (simp_all add: moveCreature_def Let_def moveTo_def)

lemma feed_keeps:
  "traits (feed b c) = traits c"
  "dietType (feed b c) = dietType c"
  "age (feed b c) = age c"
  "alive (feed b c) = alive c"
  "speciesId (feed b c) = speciesId c"
  "movementMode (feed b c) = movementMode c"
  "sex (feed b c) = sex c"
  "isCannibal (feed b c) = isCannibal c"
  "posx (feed b c) = posx c"
  "posy (feed b c) = posy c"
  by (simp_all add: feed_def Let_def)

lemma feed_energy:
  "energy (feed b c) =
     min (num (traits c) stomach_capacity)
         (energy c + biomeFoodValue b (dietType c) * 0.5 * num (traits c) food_efficiency)"
  by (simp add: feed_def Let_def min_def)

lemma regenMoveFeed_keeps:
  "traits (fst (regenMoveFeed e c g)) = traits c"
  "dietType (fst (regenMoveFeed e c g)) = dietType c"
  "age (fst (regenMoveFeed e c g)) = age c"
  "alive (fst (regenMoveFeed e c g)) = alive c"
  "speciesId (fst (regenMoveFeed e c g)) = speciesId c"
  "movementMode (fst (regenMoveFeed e c g)) = movementMode c"
  "sex (fst (regenMoveFeed e c g)) = sex c"
  "isCannibal (fst (regenMoveFeed e c g)) = isCannibal c"
  by (simp_all add: regenMoveFeed_def Let_def feed_keeps moveCreature_keeps)

lemma regenMoveFeed_energy:
  "energy (fst (regenMoveFeed e c g)) =
     min (num (traits c) stomach_capacity)
         (min (num (traits c) stomach_capacity) (energy c + num (traits c) regen_rate)
          + biomeFoodValue (getBiome e (posx c) (posy c)) (dietType c) * 0.5
            * num (traits c) food_efficiency)"
  by (simp add: regenMoveFeed_def Let_def feed_energy moveCreature_keeps)

lemma ageAndHunger_keeps:
  "traits (ageAndHunger c) = traits c"
  "dietType (ageAndHunger c) = dietType c"
  "age (ageAndHunger c) = age c + 1"
  "alive (ageAndHunger c) = alive c"
  "speciesId (ageAndHunger c) = speciesId c"
  "movementMode (ageAndHunger c) = movementMode c"
  "sex (ageAndHunger c) = sex c"
  "isCannibal (ageAndHunger c) = isCannibal c"
  "posx (ageAndHunger c) = posx c"
  "posy (ageAndHunger c) = posy c"
  "energy (ageAndHunger c) = energy c - hungerIncrease c"
  by (simp_all add: ageAndHunger_def Let_def hungerIncrease_def)

lemma meadow_fed:
  "regenMoveFeed meadow (ageAndHunger grazer) meadowDraws =
     (grazer\<lparr>age := 1, energy := 50.47, posx := 1\<rparr>, draws [0.5] 0.5)"
  by (simp add: regenMoveFeed_def Let_def ageAndHunger_def hungerIncrease_def grazer_def Creature_def
      grazers_def meadowDraws_def
      baseline_values moveCreature_def destination_def getBiome_def meadow_def moveTo_def
      feed_def biomeFoodValue_def)

lemma meadowTick_eq: "meadowTick = grazer\<lparr>age := 1, energy := 50.47, posx := 1\<rparr>"
  unfolding meadowTick_def stepCreature_def
  apply (simp add: Let_def meadow_fed)
  apply (simp add: ageAndHunger_def hungerIncrease_def grazer_def Creature_def grazers_def
      baseline_values predation_def attemptReproduction_def js_rem_def js_trunc_def)
  done

text \<open>
  The claim as stated fails: after the tick of the herbivore of \<open>meadow\<close> the creature
  stands on \<open>Desert\<close>, and it has gained the 0.5 of the \<open>Fields\<close> tile it left, not the 0.1
  of the tile it occupies.
\<close>

theorem feeding_current_tile_counterexample:
  "getBiome meadow (posx meadowTick) (posy meadowTick) = Desert \<and> dietType meadowTick = Herbivore \<and>
   energy (ageAndHunger grazer) = 49.97 \<and> num (traits grazer) regen_rate = 0 \<and>
   energy meadowTick = 50.47 \<and>
   energy meadowTick \<noteq>
     min (num (traits meadowTick) stomach_capacity)
         (49.97 + biomeFoodValue (getBiome meadow (posx meadowTick) (posy meadowTick)) (dietType meadowTick)
                  * 0.5 * num (traits meadowTick) food_efficiency)"
  by (simp add: meadowTick_eq grazer_def Creature_def grazers_def baseline_values getBiome_def meadow_def
      biomeFoodValue_def ageAndHunger_def hungerIncrease_def)

text \<open>
  Claim C4, amended. In every tick that reaches the feeding block, the energy after
  feeding is the energy after regeneration plus
  \<open>biomeFoodValue b diet * 0.5 * food_efficiency\<close>, clamped to the stomach capacity, where
  \<open>b\<close> is the biome of the tile the creature occupied before the move of the same tick
  (the local \<^verbatim>\<open>biome\<close> is read before the movement block); \<open>biomeFoodValue\<close> is 1.0 for
  herbivores on Woods, Fields and Swamp and 0.2 elsewhere, 0.7 and 0.3 for omnivores,
  0.1 for carnivores. When the tick then attacks nobody and the age is off the
  reproduction period, the fed creature is what \<^verbatim>\<open>stepCreature\<close> leaves in the list.
\<close>

theorem feeding_before_move:
  "energy (fst (regenMoveFeed e c g)) =
     min (num (traits c) stomach_capacity)
         (min (num (traits c) stomach_capacity) (energy c + num (traits c) regen_rate)
          + biomeFoodValue (getBiome e (posx c) (posy c)) (dietType c) * 0.5
            * num (traits c) food_efficiency)
   \<and> biomeFoodValue b d =
       (case d of
          Herbivore \<Rightarrow> if b \<in> {Woods, Fields, Swamp} then 1.0 else 0.2
        | Omnivore \<Rightarrow> if b \<in> {Woods, Fields, Swamp} then 0.7 else 0.3
        | Carnivore \<Rightarrow> 0.1)
   \<and> (i < length cs \<and> alive (cs ! i) \<and>
      \<not> (real (age (cs ! i) + 1) > num (traits (cs ! i)) max_age \<or>
         energy (cs ! i) - hungerIncrease (cs ! i) \<le> 0) \<and>
      \<not> Math_random (snd (regenMoveFeed e (ageAndHunger (cs ! i)) g))
           < num (traits (cs ! i)) aggression * 0.05 \<and>
      js_rem (real (age (cs ! i) + 1)) (num (traits (cs ! i)) repro_cooldown) \<noteq> Some 0
      \<longrightarrow> stepCreature e i (cs, g) =
            (cs[i := fst (regenMoveFeed e (ageAndHunger (cs ! i)) g)],
             rest (snd (regenMoveFeed e (ageAndHunger (cs ! i)) g))))"
proof -
  have table: "biomeFoodValue b d =
       (case d of
          Herbivore \<Rightarrow> if b \<in> {Woods, Fields, Swamp} then 1.0 else 0.2
        | Omnivore \<Rightarrow> if b \<in> {Woods, Fields, Swamp} then 0.7 else 0.3
        | Carnivore \<Rightarrow> 0.1)"
    by (cases d) (simp_all add: biomeFoodValue_def)
  have tick: "stepCreature e i (cs, g) =
            (cs[i := fst (regenMoveFeed e (ageAndHunger (cs ! i)) g)],
             rest (snd (regenMoveFeed e (ageAndHunger (cs ! i)) g)))"
    if "i < length cs" "alive (cs ! i)"
      "\<not> (real (age (cs ! i) + 1) > num (traits (cs ! i)) max_age \<or>
         energy (cs ! i) - hungerIncrease (cs ! i) \<le> 0)"
      "\<not> Math_random (snd (regenMoveFeed e (ageAndHunger (cs ! i)) g))
           < num (traits (cs ! i)) aggression * 0.05"
      "js_rem (real (age (cs ! i) + 1)) (num (traits (cs ! i)) repro_cooldown) \<noteq> Some 0"
    using that
    by (simp add: stepCreature_def Let_def ageAndHunger_keeps regenMoveFeed_keeps predation_def
        attemptReproduction_def)
  show ?thesis
    using table tick regenMoveFeed_energy by blast
qed

theorem feeding_before_move_witness:
  "(0::nat) < length [grazer] \<and> alive ([grazer] ! 0) \<and>
   \<not> (real (age ([grazer] ! 0) + 1) > num (traits ([grazer] ! 0)) max_age \<or>
      energy ([grazer] ! 0) - hungerIncrease ([grazer] ! 0) \<le> 0) \<and>
   \<not> Math_random (snd (regenMoveFeed meadow (ageAndHunger ([grazer] ! 0)) meadowDraws))
        < num (traits ([grazer] ! 0)) aggression * 0.05 \<and>
   js_rem (real (age ([grazer] ! 0) + 1)) (num (traits ([grazer] ! 0)) repro_cooldown) \<noteq> Some 0 \<and>
   getBiome meadow (posx (ageAndHunger grazer)) (posy (ageAndHunger grazer)) = Fields \<and>
   biomeFoodValue Fields Herbivore = 1 \<and>
   energy (fst (regenMoveFeed meadow (ageAndHunger grazer) meadowDraws)) = 50.47 \<and>
   posx (fst (regenMoveFeed meadow (ageAndHunger grazer) meadowDraws)) = 1 \<and>
   getBiome meadow 1 0 = Desert \<and>
   fst (stepCreature meadow 0 ([grazer], meadowDraws)) =
     [fst (regenMoveFeed meadow (ageAndHunger grazer) meadowDraws)]"
proof -
  have h: "(0::nat) < length [grazer]" "alive ([grazer] ! 0)"
     "\<not> (real (age ([grazer] ! 0) + 1) > num (traits ([grazer] ! 0)) max_age \<or>
        energy ([grazer] ! 0) - hungerIncrease ([grazer] ! 0) \<le> 0)"
     "\<not> Math_random (snd (regenMoveFeed meadow (ageAndHunger ([grazer] ! 0)) meadowDraws))
        < num (traits ([grazer] ! 0)) aggression * 0.05"
     "js_rem (real (age ([grazer] ! 0) + 1)) (num (traits ([grazer] ! 0)) repro_cooldown) \<noteq> Some 0"
    by (simp_all add: meadow_fed)
       (simp_all add: grazer_def Creature_def baseline_values hungerIncrease_def grazers_def
          js_rem_def js_trunc_def)
  have v: "getBiome meadow (posx (ageAndHunger grazer)) (posy (ageAndHunger grazer)) = Fields"
     "getBiome meadow 1 0 = Desert" "dietType (ageAndHunger grazer) = Herbivore"
     "energy (ageAndHunger grazer) = 49.97"
     "num (traits (ageAndHunger grazer)) stomach_capacity = 60"
     "num (traits (ageAndHunger grazer)) regen_rate = 0"
     "num (traits (ageAndHunger grazer)) food_efficiency = 1"
    by (simp_all add: ageAndHunger_def hungerIncrease_def grazer_def Creature_def grazers_def
        baseline_values getBiome_def meadow_def)
  have p: "posx (fst (regenMoveFeed meadow (ageAndHunger grazer) meadowDraws)) = 1"
    by (simp add: meadow_fed)
  show ?thesis
    using feeding_before_move [of meadow "ageAndHunger grazer" meadowDraws Fields Herbivore 0 "[grazer]"]
      h v p
    by simp
qed

section \<open>World generation (C9)\<close>

lemma Set_add_props:
  "distinct chosen \<Longrightarrow> distinct (Set_add chosen b)"
  "set (Set_add chosen b) = insert b (set chosen)"
  "length chosen \<le> length (Set_add chosen b)"
  "length (Set_add chosen b) \<le> Suc (length chosen)"
  by (auto simp: Set_add_def)

lemma chooseBiomes_result:
  assumes "chooseBiomes n chosen g = Some r"
  shows "distinct chosen \<longrightarrow> Water \<in> set chosen \<longrightarrow> int (length chosen) \<le> n \<longrightarrow>
         distinct (fst r) \<and> Water \<in> set (fst r) \<and> int (length (fst r)) = n"
proof (rule chooseBiomes.raw_induct [OF _ assms], goal_cases)
  case (1 loop n chosen g r)
  show ?case
  proof (cases "int (length chosen) < n")
    case True
    with 1(2) have call: "loop n (Set_add chosen (randomChoice BIOMES g)) (rest g) = Some r"
      by simp
    have "int (length (Set_add chosen (randomChoice BIOMES g))) \<le> n"
      using True Set_add_props(4) [of chosen "randomChoice BIOMES g"] by linarith
    then show ?thesis
      using 1(1) [OF call] by (simp add: Set_add_props)
  next
    case False
    with 1(2) show ?thesis by auto
  qed
qed

lemma generateBiomes_palette:
  assumes "generateBiomes g = Some (palette, g1)"
  shows "Water \<in> set palette \<and> distinct palette \<and> 2 \<le> length palette \<and> length palette \<le> 4"
proof -
  have n: "0 \<le> \<lfloor>Math_random g * 3\<rfloor> \<and> \<lfloor>Math_random g * 3\<rfloor> < 3"
    using random_index [of 3 g] by simp
  have "chooseBiomes (2 + \<lfloor>Math_random g * 3\<rfloor>) [Water] (rest g) = Some (palette, g1)"
    using assms by (simp add: generateBiomes_def Set_add_def)
  from chooseBiomes_result [OF this] n
  have "distinct palette \<and> Water \<in> set palette \<and> int (length palette) = 2 + \<lfloor>Math_random g * 3\<rfloor>"
    by simp
  with n show ?thesis by linarith
qed

lemma those_Some_iff: "those xs = Some ys \<longleftrightarrow> xs = map Some ys"
  by (induction xs arbitrary: ys) (auto split: option.splits)

lemma filter_not_Water:
  assumes "distinct allowed" and "length allowed > 1"
  shows "filter (\<lambda>b. b \<noteq> Water) allowed \<noteq> []"
proof
  assume "filter (\<lambda>b. b \<noteq> Water) allowed = []"
  then have "set allowed \<subseteq> {Water}"
    by (auto simp: filter_empty_conv)
  then have "card (set allowed) \<le> 1"
    by (metis card_mono finite.emptyI finite.insertI card.empty card.insert empty_iff One_nat_def)
  then show False
    using assms by (simp add: distinct_card)
qed

lemma seedBiome_allowed:
  assumes "Water \<in> set allowed" and "distinct allowed"
  shows "fst (seedBiome allowed i g) \<in> set allowed"
proof -
  have ne: "allowed \<noteq> []" using assms(1) by auto
  have "randomChoice (filter (\<lambda>b. b \<noteq> Water) allowed) h \<in> set allowed" if "length allowed > 1" for h
    using randomChoice_mem [OF filter_not_Water [OF assms(2) that], of h] by auto
  then show ?thesis
    using assms(1) randomChoice_mem [OF ne, of g]
    by (auto simp: seedBiome_def Let_def)
qed

lemma makeSeeds_props:
  assumes "Water \<in> set allowed" and "distinct allowed"
  shows "length (fst (makeSeeds W H allowed i k g)) = k \<and>
         (\<forall>s\<in>set (fst (makeSeeds W H allowed i k g)). seed_biome s \<in> set allowed)"
  by (induction k arbitrary: i g) (simp_all add: Let_def seedBiome_allowed [OF assms])

lemma betterSeed_cases:
  "betterSeed x y best s = best \<or> fst (betterSeed x y best s) = Some s"
  by (simp add: betterSeed_def Let_def)

lemma foldl_betterSeed_some:
  "fst best \<noteq> None \<Longrightarrow> fst (foldl (betterSeed x y) best seeds) \<noteq> None"
  by (induction seeds arbitrary: best) (auto simp: betterSeed_def Let_def)

lemma foldl_betterSeed_mem:
  "fst (foldl (betterSeed x y) best seeds) = fst best \<or>
   (\<exists>s\<in>set seeds. fst (foldl (betterSeed x y) best seeds) = Some s)"
proof (induction seeds arbitrary: best)
  case Nil
  show ?case by simp
next
  case (Cons s seeds)
  from Cons [of "betterSeed x y best s"] betterSeed_cases [of x y best s]
  show ?case by auto
qed

lemma bestSeed_mem:
  assumes "seeds \<noteq> []"
  shows "\<exists>s\<in>set seeds. bestSeed seeds x y = Some s"
proof -
  obtain s0 rest0 where seeds: "seeds = s0 # rest0"
    using assms by (cases seeds) auto
  have first: "fst (betterSeed x y (None, None) s0) = Some s0"
    by (simp add: betterSeed_def Let_def nearer_def)
  then have "fst (foldl (betterSeed x y) (betterSeed x y (None, None) s0) rest0) \<noteq> None"
    by (intro foldl_betterSeed_some) simp
  moreover note foldl_betterSeed_mem [of x y "betterSeed x y (None, None) s0" rest0]
  ultimately show ?thesis
    using first by (auto simp: bestSeed_def seeds)
qed

lemma gridCells_total:
  assumes "seeds \<noteq> []"
  shows "\<exists>grid. gridCells W H seeds = Some grid \<and> length grid = H \<and>
           (\<forall>row\<in>set grid. length row = W \<and> (\<forall>b\<in>set row. b \<in> seed_biome ` set seeds))"
proof -
  define cell where "cell x y = the (bestSeed seeds (int x) (int y))" for x y
  have cell: "bestSeed seeds (int x) (int y) = Some (cell x y) \<and> cell x y \<in> set seeds" for x y
    using bestSeed_mem [OF assms, of "int x" "int y"] by (auto simp: cell_def)
  define grid where "grid = map (\<lambda>y. map (\<lambda>x. seed_biome (cell x y)) [0..<W]) [0..<H]"
  have "gridCells W H seeds = Some grid"
    by (simp add: gridCells_def grid_def those_Some_iff cell comp_def)
  moreover have "length grid = H"
    by (simp add: grid_def)
  moreover have "\<forall>row\<in>set grid. length row = W \<and> (\<forall>b\<in>set row. b \<in> seed_biome ` set seeds)"
    using cell by (auto simp: grid_def)
  ultimately show ?thesis by blast
qed

text \<open>
  Claim C9. Whenever \<^verbatim>\<open>generateBiomes\<close> returns a palette (its loop ends), the palette
  contains \<open>Water\<close> and has between 2 and 4 members, all different; \<^verbatim>\<open>generateWorld\<close> then
  returns a grid, for every width and height and every outcome of the draws, the grid
  has the given height and width, and every cell holds a member of the palette.
\<close>

theorem world_biome_coverage:
  assumes "generateBiomes g = Some (palette, g1)"
  shows "Water \<in> set palette \<and> distinct palette \<and> 2 \<le> length palette \<and> length palette \<le> 4 \<and>
         (\<exists>grid g'. generateWorld W H g = Some (grid, g') \<and> length grid = H \<and>
            (\<forall>row\<in>set grid. length row = W \<and> (\<forall>b\<in>set row. b \<in> set palette)))"
proof -
  have pal: "Water \<in> set palette \<and> distinct palette \<and> 2 \<le> length palette \<and> length palette \<le> 4"
    using assms by (rule generateBiomes_palette)
  define seeds where "seeds = fst (makeSeeds W H palette 0 (length palette * 3) g1)"
  have seeds: "length seeds = length palette * 3" "\<forall>s\<in>set seeds. seed_biome s \<in> set palette"
    using makeSeeds_props [of palette W H 0 "length palette * 3" g1] pal
    by (simp_all add: seeds_def)
  then have "seeds \<noteq> []"
    using pal by auto
  from gridCells_total [OF this, of W H]
  obtain grid where grid: "gridCells W H seeds = Some grid" "length grid = H"
      "\<forall>row\<in>set grid. length row = W \<and> (\<forall>b\<in>set row. b \<in> seed_biome ` set seeds)"
    by blast
  have "generateWorld W H g = Some (grid, snd (makeSeeds W H palette 0 (length palette * 3) g1))"
    using assms grid(1) by (simp add: generateWorld_def Let_def seeds_def)
  moreover have "\<forall>row\<in>set grid. length row = W \<and> (\<forall>b\<in>set row. b \<in> set palette)"
    using grid(3) seeds(2) by fastforce
  ultimately show ?thesis
    using pal grid(2) by blast
qed

lemma generateBiomes_worldDraws:
  "generateBiomes worldDraws = Some ([Water, Desert, Woods], draws [] (1 / 2))"
  unfolding generateBiomes_def worldDraws_def
  apply (simp add: Let_def Set_add_def)
  apply (subst chooseBiomes.simps)
  apply (simp add: Set_add_def randomChoice_def BIOMES_def)
  apply (subst chooseBiomes.simps)
  apply (simp add: Set_add_def randomChoice_def BIOMES_def)
  apply (subst chooseBiomes.simps)
  apply (simp add: Set_add_def randomChoice_def BIOMES_def)
  done


lemma makeSeeds_constant:
  "makeSeeds 2 2 [Water, Desert, Woods] (Suc i) k (draws [] (1 / 2)) =
     (replicate k \<lparr>seed_x = 1, seed_y = 1, seed_biome = Desert\<rparr>, draws [] (1 / 2))"
  by (induction k arbitrary: i) (simp_all add: Let_def seedBiome_def randomChoice_def)

lemma makeSeeds_worldDraws:
  "makeSeeds 2 2 [Water, Desert, Woods] 0 (Suc 8) (draws [] (1 / 2)) =
     (\<lparr>seed_x = 1, seed_y = 1, seed_biome = Water\<rparr> #
      replicate 8 \<lparr>seed_x = 1, seed_y = 1, seed_biome = Desert\<rparr>, draws [] (1 / 2))"
  by (subst makeSeeds.simps) (simp add: Let_def seedBiome_def makeSeeds_constant)

lemma foldl_betterSeed_same:
  "foldl (betterSeed x y) (best, Some ((x - 1) * (x - 1) + (y - 1) * (y - 1)))
     (replicate k \<lparr>seed_x = 1, seed_y = 1, seed_biome = b\<rparr>) =
   (best, Some ((x - 1) * (x - 1) + (y - 1) * (y - 1)))"
  by (induction k) (simp_all add: betterSeed_def Let_def nearer_def)

lemma bestSeed_worldDraws:
  "bestSeed (\<lparr>seed_x = 1, seed_y = 1, seed_biome = Water\<rparr> #
             replicate 8 \<lparr>seed_x = 1, seed_y = 1, seed_biome = Desert\<rparr>) x y =
     Some \<lparr>seed_x = 1, seed_y = 1, seed_biome = Water\<rparr>"
  by (simp add: bestSeed_def betterSeed_def Let_def nearer_def foldl_betterSeed_same)

lemma generateWorld_worldDraws:
  "generateWorld 2 2 worldDraws = Some ([[Water, Water], [Water, Water]], draws [] (1 / 2))"
proof -
  have "gridCells 2 2 (\<lparr>seed_x = 1, seed_y = 1, seed_biome = Water\<rparr> #
             replicate 8 \<lparr>seed_x = 1, seed_y = 1, seed_biome = Desert\<rparr>) =
        Some [[Water, Water], [Water, Water]]"
    by (simp add: gridCells_def bestSeed_worldDraws numeral_2_eq_2 del: replicate_Suc replicate.simps)
  moreover have "length [Water, Desert, Woods] * 3 = Suc 8"
    by simp
  ultimately show ?thesis
    by (simp only: generateWorld_def generateBiomes_worldDraws makeSeeds_worldDraws Let_def
        option.case prod.case fst_conv snd_conv option.map)
qed

theorem world_biome_coverage_witness:
  "generateBiomes worldDraws = Some ([Water, Desert, Woods], draws [] (1 / 2)) \<and>
   generateWorld 2 2 worldDraws = Some ([[Water, Water], [Water, Water]], draws [] (1 / 2)) \<and>
   (\<exists>grid g'. generateWorld 2 2 worldDraws = Some (grid, g') \<and> length grid = 2 \<and>
      (\<forall>row\<in>set grid. length row = 2 \<and> (\<forall>b\<in>set row. b \<in> set [Water, Desert, Woods])))"
  using world_biome_coverage [OF generateBiomes_worldDraws, of 2 2]
    generateBiomes_worldDraws generateWorld_worldDraws
  by simp

section \<open>Helper lemmas: what one tick and one pass change\<close>

lemma grows_refl: "grows cs cs"
  by (simp add: grows_def)

lemma grows_trans:
  assumes "grows a b" and "grows b c"
  shows "grows a c"
  unfolding grows_def
proof (intro conjI allI impI)
  show "length a \<le> length c"
    using assms by (simp add: grows_def)
next
  fix k assume k: "k < length a"
  then have kb: "k < length b" using assms(1) by (simp add: grows_def)
  show "age (c ! k) = age (a ! k)"
    using assms k kb by (simp add: grows_def)
  assume "\<not> alive (a ! k)"
  then show "c ! k = a ! k"
    using assms k kb by (simp add: grows_def)
next
  fix k assume k: "k < length c" "length a \<le> k"
  show "age (c ! k) = 0"
  proof (cases "k < length b")
    case True
    then show ?thesis using assms k by (simp add: grows_def)
  next
    case False
    then show ?thesis using assms k by (simp add: grows_def)
  qed
qed

lemma resolveAttack_shape:
  assumes "a < length cs" and "t < length cs" and "a \<noteq> t"
  shows "\<exists>et ea al. resolveAttack a t cs =
            cs[t := (cs ! t)\<lparr>energy := et, alive := al\<rparr>, a := (cs ! a)\<lparr>energy := ea\<rparr>] \<and>
          (al \<longrightarrow> alive (cs ! t)) \<and> et \<le> energy (cs ! t) \<and>
          (ea \<le> energy (cs ! a) \<or> ea \<le> num (traits (cs ! a)) stomach_capacity)"
proof -
  define damage where "damage = max 0 (num (traits (cs ! a)) attack_damage + num (traits (cs ! a)) bite_force
                          - (num (traits (cs ! t)) armor + num (traits (cs ! t)) shell_hardness * 2))"
  show ?thesis
  proof (cases "damage \<le> 0")
    case True
    then have "resolveAttack a t cs = cs"
      by (simp add: resolveAttack_def Let_def damage_def)
    moreover have "cs[t := (cs ! t)\<lparr>energy := energy (cs ! t), alive := alive (cs ! t)\<rparr>,
                      a := (cs ! a)\<lparr>energy := energy (cs ! a)\<rparr>] = cs"
      by simp
    ultimately show ?thesis
      by (metis order_refl)
  next
    case False
    define cs1 where "cs1 = modify t (\<lambda>c. c\<lparr>energy := energy c - damage * 5\<rparr>) cs"
    define sp where "sp = (if num (traits (cs ! t)) spine_damage > 0 then num (traits (cs ! t)) spine_damage * 3 else 0)"
    define vn where "vn = (if flag (traits (cs ! a)) has_venom \<and> num (traits (cs ! a)) venom_power > 0
                           then num (traits (cs ! a)) venom_power * 2 else 0)"
    define et where "et = energy (cs ! t) - damage * 5 - vn"
    define ea where "ea = (if et \<le> 0 then min (num (traits (cs ! a)) stomach_capacity)
                                (energy (cs ! a) - sp + 30 * num (traits (cs ! a)) food_efficiency)
                           else energy (cs ! a) - sp)"
    define al where "al = (if et \<le> 0 then False else alive (cs ! t))"
    have keep: "cs[t := X, a := cs ! a] = cs[t := X]" for X
      using assms by (metis list_update_id nth_list_update_neq)
    have eq: "resolveAttack a t cs =
            cs[t := (cs ! t)\<lparr>energy := et, alive := al\<rparr>, a := (cs ! a)\<lparr>energy := ea\<rparr>]"
      using assms False
      unfolding et_def ea_def al_def sp_def vn_def damage_def
      by (cases "0 < num (traits (cs ! t)) spine_damage";
          cases "flag (traits (cs ! a)) has_venom"; cases "0 < num (traits (cs ! a)) venom_power";
          simp add: resolveAttack_def modify_def Let_def list_update_swap [of a t] keep)
    have "0 \<le> sp" "0 \<le> vn" "0 < damage"
      using False by (simp_all add: sp_def vn_def)
    then have "et \<le> energy (cs ! t)" "ea \<le> energy (cs ! a) \<or> ea \<le> num (traits (cs ! a)) stomach_capacity"
      by (auto simp: et_def ea_def)
    moreover have "al \<longrightarrow> alive (cs ! t)"
      by (simp add: al_def)
    ultimately show ?thesis
      using eq by blast
  qed
qed

lemma predation_cases:
  assumes "i < length cs"
  shows "predation i (cs, g) = (cs, rest g) \<or>
         (\<exists>t. t < length cs \<and> t \<noteq> i \<and> alive (cs ! t) \<and>
              predation i (cs, g) = (resolveAttack i t cs, rest g))"
  by (auto simp: predation_def Let_def findNearbyCreature_def find_upt_Some split: option.splits)

lemma attemptReproduction_shape:
  assumes "i < length cs"
  shows "attemptReproduction e i (cs, g) = (cs, g) \<or>
         (\<exists>m kids g'. m < length cs \<and> m \<noteq> i \<and> alive (cs ! i) \<and> isMate cs i m \<and>
            attemptReproduction e i (cs, g) =
              ((cs @ kids)[i := (cs ! i)\<lparr>energy := energy (cs ! i) * 0.5\<rparr>,
                           m := (cs ! m)\<lparr>energy := energy (cs ! m) * 0.5\<rparr>], g') \<and>
            (\<forall>c\<in>set kids. offspringOf e (cs ! i) (cs ! m) c))"
proof (cases "attemptReproduction e i (cs, g) = (cs, g)")
  case True
  then show ?thesis by simp
next
  case False
  then have alive: "alive (cs ! i)"
    by (auto simp: attemptReproduction_def split: if_splits)
  from False obtain m where m: "findMate cs i = Some m"
    by (auto simp: attemptReproduction_def split: option.splits if_splits)
  then have mp: "m < length cs" "isMate cs i m"
    by (auto simp: findMate_def find_upt_Some)
  have mi: "m \<noteq> i"
    using mp(2) by (simp add: isMate_def)
  define n where "n = nat (round ((num (traits (cs ! i)) offspring_per_cycle +
                      num (traits (cs ! m)) offspring_per_cycle) / 2))"
  obtain kids where kids: "fst (spawnOffspring e i m n (cs, g)) = cs @ kids"
      "\<forall>c\<in>set kids. offspringOf e (cs ! i) (cs ! m) c"
    using spawnOffspring_shape [OF assms mp(1)] by blast
  have nth: "(cs @ kids) ! i = cs ! i" "(cs @ kids) ! m = cs ! m"
    using assms mp(1) by (simp_all add: nth_append)
  have "attemptReproduction e i (cs, g) =
       ((cs @ kids)[i := (cs ! i)\<lparr>energy := energy (cs ! i) * 0.5\<rparr>,
                    m := (cs ! m)\<lparr>energy := energy (cs ! m) * 0.5\<rparr>],
        snd (spawnOffspring e i m n (cs, g)))"
    using False m kids(1) nth mi
    by (auto simp: attemptReproduction_def Let_def modify_def n_def [symmetric] split: if_splits)
  then show ?thesis
    using mp mi alive kids(2) by blast
qed

lemma grows_update:
  assumes "k < length cs" and "alive (cs ! k)" and "age c = age (cs ! k)"
  shows "grows cs (cs[k := c])"
  using assms by (auto simp: grows_def nth_list_update)

lemma grows_append:
  assumes "\<forall>c\<in>set kids. age c = 0"
  shows "grows cs (cs @ kids)"
  using assms by (auto simp: grows_def nth_append)

lemma resolveAttack_grows:
  assumes "a < length cs" and "t < length cs" and "a \<noteq> t"
    and "alive (cs ! a)" and "alive (cs ! t)"
  shows "grows cs (resolveAttack a t cs)"
proof -
  obtain et ea al where eq: "resolveAttack a t cs =
            cs[t := (cs ! t)\<lparr>energy := et, alive := al\<rparr>, a := (cs ! a)\<lparr>energy := ea\<rparr>]"
    using resolveAttack_shape [OF assms(1-3)] by blast
  have "grows cs (cs[t := (cs ! t)\<lparr>energy := et, alive := al\<rparr>])"
    using assms by (intro grows_update) simp_all
  moreover have "grows (cs[t := (cs ! t)\<lparr>energy := et, alive := al\<rparr>])
                   (cs[t := (cs ! t)\<lparr>energy := et, alive := al\<rparr>, a := (cs ! a)\<lparr>energy := ea\<rparr>])"
    using assms by (intro grows_update) simp_all
  ultimately show ?thesis
    unfolding eq by (rule grows_trans)
qed

lemma predation_grows:
  assumes "i < length cs" and "alive (cs ! i)"
  shows "grows cs (fst (predation i (cs, g)))"
  using predation_cases [OF assms(1), of g] resolveAttack_grows [OF assms(1) _ _ assms(2)]
  by (auto simp: grows_refl)

lemma offspringOf_age: "offspringOf e p q c \<Longrightarrow> age c = 0 \<and> alive c \<and> energy c = 50"
  by (auto simp: offspringOf_def Creature_def)

lemma attemptReproduction_grows:
  assumes "i < length cs"
  shows "grows cs (fst (attemptReproduction e i (cs, g)))"
proof -
  from attemptReproduction_shape [OF assms, of e g]
  show ?thesis
  proof (elim disjE exE conjE)
    assume "attemptReproduction e i (cs, g) = (cs, g)"
    then show ?thesis by (simp add: grows_refl)
  next
    fix m kids g'
    assume m: "m < length cs" "m \<noteq> i" "alive (cs ! i)" "isMate cs i m"
      and eq: "attemptReproduction e i (cs, g) =
              ((cs @ kids)[i := (cs ! i)\<lparr>energy := energy (cs ! i) * 0.5\<rparr>,
                           m := (cs ! m)\<lparr>energy := energy (cs ! m) * 0.5\<rparr>], g')"
      and kids: "\<forall>c\<in>set kids. offspringOf e (cs ! i) (cs ! m) c"
    have am: "alive (cs ! m)" using m(4) by (simp add: isMate_def)
    have 1: "grows cs (cs @ kids)"
      using kids by (intro grows_append) (auto dest: offspringOf_age)
    have 2: "grows (cs @ kids) ((cs @ kids)[i := (cs ! i)\<lparr>energy := energy (cs ! i) * 0.5\<rparr>])"
      using assms m by (intro grows_update) (simp_all add: nth_append)
    have 3: "grows ((cs @ kids)[i := (cs ! i)\<lparr>energy := energy (cs ! i) * 0.5\<rparr>])
                   ((cs @ kids)[i := (cs ! i)\<lparr>energy := energy (cs ! i) * 0.5\<rparr>,
                                m := (cs ! m)\<lparr>energy := energy (cs ! m) * 0.5\<rparr>])"
      using assms m am by (intro grows_update) (simp_all add: nth_append)
    show ?thesis
      unfolding eq fst_conv by (rule grows_trans [OF grows_trans [OF 1 2] 3])
  qed
qed

lemma grows_after_update:
  assumes "i < length cs" and "alive (cs ! i)" and "age c = age (cs ! i) + 1"
    and "grows (cs[i := c]) cs'"
  shows "ticked i cs cs'"
  using assms unfolding ticked_def grows_def
  by (auto simp: nth_list_update split: if_splits)

lemma stepCreature_ticked:
  assumes "i < length cs"
  shows "ticked i cs (fst (stepCreature e i (cs, g)))"
proof (cases "alive (cs ! i)")
  case False
  then show ?thesis
    by (simp add: stepCreature_def ticked_def)
next
  case True
  define c2 where "c2 = ageAndHunger (cs ! i)"
  show ?thesis
  proof (cases "real (age c2) > num (traits c2) max_age \<or> energy c2 \<le> 0")
    case dies: True
    then have "fst (stepCreature e i (cs, g)) = cs[i := c2\<lparr>alive := False\<rparr>]"
      using True by (simp add: stepCreature_def Let_def c2_def)
    moreover have "grows (cs[i := c2\<lparr>alive := False\<rparr>]) (cs[i := c2\<lparr>alive := False\<rparr>])"
      by (rule grows_refl)
    ultimately show ?thesis
      using assms True by (intro grows_after_update [where c = "c2\<lparr>alive := False\<rparr>"])
        (simp_all add: c2_def ageAndHunger_keeps)
  next
    case lives: False
    define fed where "fed = regenMoveFeed e c2 g"
    define cs5 where "cs5 = cs[i := fst fed]"
    define s6 where "s6 = predation i (cs5, snd fed)"
    have fedp: "alive (fst fed)" "age (fst fed) = age (cs ! i) + 1"
      using True by (simp_all add: fed_def regenMoveFeed_keeps c2_def ageAndHunger_keeps)
    have i5: "i < length cs5" "alive (cs5 ! i)"
      using assms fedp by (simp_all add: cs5_def)
    have g6: "grows cs5 (fst s6)"
      unfolding s6_def using i5 by (rule predation_grows)
    then have i6: "i < length (fst s6)"
      using i5 by (simp add: grows_def)
    have "grows (fst s6) (fst (attemptReproduction e i (fst s6, snd s6)))"
      using i6 by (rule attemptReproduction_grows)
    then have g7: "grows cs5 (fst (attemptReproduction e i s6))"
      using g6 grows_trans by simp
    have "fst (stepCreature e i (cs, g)) = fst s6 \<or>
          fst (stepCreature e i (cs, g)) = fst (attemptReproduction e i s6)"
      using True lives
      by (simp add: stepCreature_def Let_def c2_def [symmetric] fed_def [symmetric]
          cs5_def [symmetric] s6_def [symmetric])
    then have "grows cs5 (fst (stepCreature e i (cs, g)))"
      using g6 g7 by auto
    then show ?thesis
      using assms True fedp unfolding cs5_def by (intro grows_after_update [where c = "fst fed"])
  qed
qed

lemma passed_end: "\<not> i < length cs \<Longrightarrow> passed i cs cs"
  by (simp add: passed_def)

lemma passed_step:
  assumes "i < length cs" and "ticked i cs cs1" and "passed (Suc i) cs1 cs'"
  shows "passed i cs cs'"
  unfolding passed_def
proof (intro conjI allI impI)
  show "length cs \<le> length cs'"
    using assms by (simp add: ticked_def passed_def)
next
  fix k assume "k < length cs" "\<not> alive (cs ! k)"
  then show "cs' ! k = cs ! k"
    using assms(2,3) by (simp add: ticked_def passed_def)
next
  fix k assume k: "k < length cs'" "alive (cs' ! k)"
  have len: "length cs \<le> length cs1" "length cs1 \<le> length cs'"
    using assms by (simp_all add: ticked_def passed_def)
  have live1: "alive (cs1 ! k)" if "k < length cs1"
    using that k(2) assms(3) by (auto simp: passed_def)
  have live0: "alive (cs ! k)" if "k < length cs"
    using that live1 len assms(2) by (auto simp: ticked_def)
  have a1: "age (cs' ! k) = (if k < Suc i then age (cs1 ! k)
                           else if k < length cs1 then age (cs1 ! k) + 1 else 1)"
    using assms(3) k by (simp add: passed_def)
  consider "k < i" | "k = i" | "i < k" "k < length cs" | "length cs \<le> k" "k < length cs1"
    | "length cs1 \<le> k"
    by linarith
  then show "age (cs' ! k) = (if k < i then age (cs ! k)
                           else if k < length cs then age (cs ! k) + 1 else 1)"
  proof cases
    case 1
    then show ?thesis
      using a1 assms(1,2) by (simp add: ticked_def)
  next
    case 2
    then show ?thesis
      using a1 assms(1,2) live0 by (simp add: ticked_def)
  next
    case 3
    then show ?thesis
      using a1 assms(1,2) len by (simp add: ticked_def)
  next
    case 4
    then show ?thesis
      using a1 assms(1,2) by (simp add: ticked_def)
  next
    case 5
    then show ?thesis
      using a1 assms(1) len by simp
  qed
qed

lemma tickCreatures_passed:
  assumes "tickCreatures e i s = Some r"
  shows "passed i (fst s) (fst r)"
proof (rule tickCreatures.raw_induct [OF _ assms], goal_cases)
  case (1 loop e i s r)
  show ?case
  proof (cases "i < length (fst s)")
    case False
    with 1(2) show ?thesis by (simp add: passed_end)
  next
    case True
    define s1 where "s1 = (if alive (fst s ! i) then stepCreature e i s else s)"
    have t: "ticked i (fst s) (fst s1)"
    proof (cases "alive (fst s ! i)")
      case True
      then show ?thesis
        using stepCreature_ticked [OF \<open>i < length (fst s)\<close>, of e "snd s"] by (simp add: s1_def)
    next
      case False
      then show ?thesis by (simp add: s1_def ticked_def)
    qed
    have "loop e (Suc i) s1 = Some r"
      using 1(2) True by (simp add: s1_def)
    then have p: "passed (Suc i) (fst s1) (fst r)"
      by (rule 1(1))
    show ?thesis
      by (rule passed_step [OF True t p])
  qed
qed

section \<open>A pass over a family\<close>

lemma halfDraws_simps [simp]: "Math_random halfDraws = 1 / 2" "rest halfDraws = halfDraws"
  by (simp_all add: halfDraws_def)

lemma rest_pow_halfDraws [simp]: "(rest ^^ n) halfDraws = halfDraws"
  by (induction n) simp_all

lemma babyTraits_values:
  "num babyTraits curiosity = 0.5"
  "num babyTraits metabolism_rate = 0.03"
  "num babyTraits stomach_capacity = 60"
  "num babyTraits regen_rate = 0"
  "num babyTraits food_efficiency = 1"
  "num babyTraits aggression = 0.3"
  "num babyTraits max_age = 2000"
  "num babyTraits repro_cooldown = 200"
  by (simp_all add: babyTraits_def mixTraits_num baseline_values)

lemma savanna_fields: "getBiome savanna 1 1 = Fields" "getBiome savanna 1 0 = Fields"
  by (simp_all add: getBiome_def savanna_def)

lemma quiet_tick:
  assumes "num (traits c) curiosity = 0.5" and "num (traits c) aggression = 0.3"
    and "num (traits c) regen_rate = 0" and "num (traits c) food_efficiency = 1"
    and "num (traits c) stomach_capacity = 60" and "dietType c = Herbivore"
    and "getBiome e (posx c) (posy c) = Fields" and "energy c \<le> 59"
  shows "regenMoveFeed e c halfDraws = (c\<lparr>energy := energy c + 0.5\<rparr>, halfDraws)"
  using assms
  by (simp add: regenMoveFeed_def Let_def moveCreature_def feed_def biomeFoodValue_def)

lemma family_tick0: "stepCreature savanna 0 (family, halfDraws) = (family1, halfDraws)"
proof -
  define mum where "mum = (Creature grazers 1 1 F createBaselineTraits)\<lparr>age := 200, energy := 49.97\<rparr>"
  have c2: "ageAndHunger (family ! 0) = mum"
    by (simp add: family_def mum_def ageAndHunger_def hungerIncrease_def Creature_def grazers_def
        baseline_values)
  have fed: "regenMoveFeed savanna mum halfDraws = (mum\<lparr>energy := energy mum + 0.5\<rparr>, halfDraws)"
    by (rule quiet_tick) (simp_all add: mum_def Creature_def grazers_def baseline_values savanna_fields)
  define cs5 where "cs5 = family[0 := mum\<lparr>energy := energy mum + 0.5\<rparr>]"
  have pred: "predation 0 (cs5, halfDraws) = (cs5, halfDraws)"
    by (simp add: predation_def Let_def cs5_def family_def mum_def Creature_def baseline_values)
  have mate: "findMate cs5 0 = Some 1"
    by (simp add: findMate_def isMate_def cs5_def family_def mum_def Creature_def grazers_def
        baseline_values numeral_2_eq_2)
  have spawn: "spawnOffspring savanna 0 1 (Suc 0) (cs5, halfDraws) =
                 (cs5 @ [Creature grazers 1 1 F babyTraits], halfDraws)"
    by (simp add: Let_def cs5_def family_def mum_def Creature_def grazers_def hunters_def savanna_def
        babyTraits_def mixTraits_def funpow_simps_right)
  have a: "alive (cs5 ! 0)"
    and r: "js_rem (real (age (cs5 ! 0))) (num (traits (cs5 ! 0)) repro_cooldown) = Some 0"
    and n: "nat (round ((num (traits (cs5 ! 0)) offspring_per_cycle +
                         num (traits (cs5 ! 1)) offspring_per_cycle) / 2)) = Suc 0"
    by (simp_all add: cs5_def family_def mum_def Creature_def baseline_values js_rem_def js_trunc_def)
  have halves: "modify 1 (\<lambda>c. c\<lparr>energy := energy c * 0.5\<rparr>)
                 (modify 0 (\<lambda>c. c\<lparr>energy := energy c * 0.5\<rparr>)
                    (cs5 @ [Creature grazers 1 1 F babyTraits])) = family1"
    by (simp add: cs5_def family_def family1_def mum_def modify_def Creature_def)
  have repro: "attemptReproduction savanna 0 (cs5, halfDraws) = (family1, halfDraws)"
    by (simp only: attemptReproduction_def Let_def fst_conv snd_conv a r mate n spawn halves
        option.case simp_thms if_True if_False)
  have gate: "energy (cs5 ! 0) > num (traits (cs5 ! 0)) stomach_capacity * 0.7"
    by (simp add: cs5_def family_def mum_def Creature_def baseline_values)
  have alive0: "alive (family ! 0)"
    and lives: "\<not> (real (age mum) > num (traits mum) max_age \<or> energy mum \<le> 0)"
    by (simp_all add: family_def mum_def Creature_def baseline_values)
  show ?thesis
    by (simp only: stepCreature_def Let_def fst_conv snd_conv c2 fed alive0 lives
        cs5_def [symmetric] pred gate repro simp_thms if_True if_False)
qed


lemma quiet_stepCreature:
  assumes "i < length cs" and "alive (cs ! i)" and "dietType (cs ! i) = Herbivore"
    and "num (traits (cs ! i)) curiosity = 0.5" and "num (traits (cs ! i)) aggression = 0.3"
    and "num (traits (cs ! i)) regen_rate = 0" and "num (traits (cs ! i)) food_efficiency = 1"
    and "num (traits (cs ! i)) stomach_capacity = 60" and "num (traits (cs ! i)) metabolism_rate = 0.03"
    and "num (traits (cs ! i)) max_age = 2000" and "num (traits (cs ! i)) repro_cooldown = 200"
    and "getBiome e (posx (cs ! i)) (posy (cs ! i)) = Fields"
    and "1 \<le> energy (cs ! i)" and "energy (cs ! i) \<le> 59" and "age (cs ! i) < 199"
  shows "stepCreature e i (cs, halfDraws) =
           (cs[i := (cs ! i)\<lparr>age := age (cs ! i) + 1, energy := energy (cs ! i) - 0.03 + 0.5\<rparr>],
            halfDraws)"
proof -
  define c2 where "c2 = ageAndHunger (cs ! i)"
  have c2: "c2 = (cs ! i)\<lparr>age := age (cs ! i) + 1, energy := energy (cs ! i) - 0.03\<rparr>"
    using assms by (simp add: c2_def ageAndHunger_def hungerIncrease_def)
  have fed: "regenMoveFeed e c2 halfDraws = (c2\<lparr>energy := energy c2 + 0.5\<rparr>, halfDraws)"
    using assms by (intro quiet_tick) (simp_all add: c2)
  define cs5 where "cs5 = cs[i := c2\<lparr>energy := energy c2 + 0.5\<rparr>]"
  have pred: "predation i (cs5, halfDraws) = (cs5, halfDraws)"
    using assms by (simp add: predation_def Let_def cs5_def c2)
  have "js_trunc (real (age (cs ! i) + 1) / 200) = 0"
    using assms(15) by (simp add: js_trunc_def floor_eq_iff)
  then have rem: "js_rem (real (age (cs5 ! i))) (num (traits (cs5 ! i)) repro_cooldown) \<noteq> Some 0"
    using assms by (simp add: cs5_def c2 js_rem_def)
  have repro: "attemptReproduction e i (cs5, halfDraws) = (cs5, halfDraws)"
    using rem by (simp add: attemptReproduction_def)
  have lives: "\<not> (real (age c2) > num (traits c2) max_age \<or> energy c2 \<le> 0)"
    using assms by (simp add: c2)
  have "stepCreature e i (cs, halfDraws) = (cs5, halfDraws)"
    by (simp only: stepCreature_def Let_def fst_conv snd_conv c2_def [symmetric] fed assms(2) lives
        cs5_def [symmetric] pred repro simp_thms if_True if_False if_cancel)
  then show ?thesis
    by (simp add: cs5_def c2)
qed

lemma family_pass: "tickCreatures savanna 0 (family, halfDraws) = Some (family3, halfDraws)"
proof -
  define family2 where "family2 =
     [(Creature grazers 1 1 F createBaselineTraits)\<lparr>age := 200, energy := 25.235\<rparr>,
      (Creature grazers 1 0 M createBaselineTraits)\<lparr>age := 1, energy := 25.47\<rparr>,
      Creature grazers 1 1 F babyTraits]"
  have e2: "family1[Suc 0 := (family1 ! Suc 0)\<lparr>age := age (family1 ! Suc 0) + 1,
                                            energy := energy (family1 ! Suc 0) - 0.03 + 0.5\<rparr>] = family2"
    by (simp add: family2_def family1_def Creature_def)
  have e3: "family2[Suc (Suc 0) := (family2 ! Suc (Suc 0))\<lparr>age := age (family2 ! Suc (Suc 0)) + 1,
                                 energy := energy (family2 ! Suc (Suc 0)) - 0.03 + 0.5\<rparr>] = family3"
    by (simp add: family2_def family3_def Creature_def)
  have t1: "stepCreature savanna (Suc 0) (family1, halfDraws) = (family2, halfDraws)"
    unfolding e2 [symmetric]
    by (rule quiet_stepCreature)
       (simp_all add: family1_def Creature_def grazers_def baseline_values savanna_fields)
  have t2: "stepCreature savanna (Suc (Suc 0)) (family2, halfDraws) = (family3, halfDraws)"
    unfolding e3 [symmetric]
    by (rule quiet_stepCreature)
       (simp_all add: family2_def Creature_def grazers_def babyTraits_values savanna_fields)
  have len: "length family = Suc (Suc 0)" "length family1 = Suc (Suc (Suc 0))"
      "length family2 = Suc (Suc (Suc 0))" "length family3 = Suc (Suc (Suc 0))"
    and al: "alive (family ! 0)" "alive (family1 ! Suc 0)" "alive (family2 ! Suc (Suc 0))"
    by (simp_all add: family_def family1_def family2_def family3_def Creature_def)
  have "tickCreatures savanna (Suc (Suc (Suc 0))) (family3, halfDraws) = Some (family3, halfDraws)"
    by (subst tickCreatures.simps) (simp add: len)
  then have "tickCreatures savanna (Suc (Suc 0)) (family2, halfDraws) = Some (family3, halfDraws)"
    by (subst tickCreatures.simps) (simp add: len al t2)
  then have "tickCreatures savanna (Suc 0) (family1, halfDraws) = Some (family3, halfDraws)"
    by (subst tickCreatures.simps) (simp add: len al t1)
  then show ?thesis
    by (subst tickCreatures.simps) (simp add: len al family_tick0)
qed

lemma family_step:
  "stepSimulation savanna \<lparr>creatures = family, year = 0, rand = halfDraws\<rparr> =
     Some \<lparr>creatures = family3, year = yearStep, rand = halfDraws\<rparr>"
  by (simp add: stepSimulation_def family_pass js_rem_def js_trunc_def advance_0)
     (simp add: family3_def Creature_def)

section \<open>Reproduction (C6)\<close>

lemma stepCreature_threshold:
  assumes "survivesTick (cs ! i)"
  shows "stepCreature e i (cs, g) =
           (let s6 = beforeReproduction e i (cs, g)
            in if energy (fst s6 ! i) > num (traits (fst s6 ! i)) stomach_capacity * 0.7
               then attemptReproduction e i s6 else s6)"
  using assms by (simp add: stepCreature_def beforeReproduction_def survivesTick_def Let_def)

lemma attemptReproduction_mate:
  assumes "i < length cs" and "j < length cs" and "isMate cs i j"
    and "alive (cs ! i)"
    and "num (traits (cs ! i)) repro_cooldown \<noteq> 0"
    and "real (age (cs ! i)) = of_int q * num (traits (cs ! i)) repro_cooldown"
  shows "\<exists>m kids g'.
     findMate cs i = Some m \<and> m \<le> j \<and> m \<noteq> i \<and> isMate cs i m \<and> (\<forall>k<m. \<not> isMate cs i k) \<and>
     attemptReproduction e i (cs, g) =
       ((cs @ kids)[i := (cs ! i)\<lparr>energy := energy (cs ! i) * 0.5\<rparr>,
                    m := (cs ! m)\<lparr>energy := energy (cs ! m) * 0.5\<rparr>], g') \<and>
     int (length kids) =
       max 0 (round ((num (traits (cs ! i)) offspring_per_cycle +
                      num (traits (cs ! m)) offspring_per_cycle) / 2)) \<and>
     (\<forall>c\<in>set kids. \<exists>sx tr.
         c = Creature (speciesList e ! speciesId (cs ! i)) (posx (cs ! i)) (posy (cs ! i)) sx tr)"
proof -
  have "find (isMate cs i) [0..<length cs] \<noteq> None"
    using assms(2,3) by (auto simp: find_upt_None)
  then obtain m where m: "findMate cs i = Some m"
    by (auto simp: findMate_def)
  then have mp: "m < length cs" "isMate cs i m" "\<forall>k<m. \<not> isMate cs i k"
    by (auto simp: findMate_def find_upt_Some)
  have mj: "m \<le> j"
    using mp(3) assms(3) by (meson not_less)
  have mi: "m \<noteq> i"
    using mp(2) by (simp add: isMate_def)
  define n where "n = nat (round ((num (traits (cs ! i)) offspring_per_cycle +
                      num (traits (cs ! m)) offspring_per_cycle) / 2))"
  obtain kids where kids: "fst (spawnOffspring e i m n (cs, g)) = cs @ kids" "length kids = n"
      "\<forall>c\<in>set kids. offspringOf e (cs ! i) (cs ! m) c"
    using spawnOffspring_shape [OF assms(1) mp(1)] by blast
  have rem: "js_rem (real (age (cs ! i))) (num (traits (cs ! i)) repro_cooldown) = Some 0"
    using assms(5,6) by (rule js_rem_multiple)
  have nth: "(cs @ kids) ! i = cs ! i" "(cs @ kids) ! m = cs ! m"
    using assms(1) mp(1) by (simp_all add: nth_append)
  have res: "attemptReproduction e i (cs, g) =
       ((cs @ kids)[i := (cs ! i)\<lparr>energy := energy (cs ! i) * 0.5\<rparr>,
                    m := (cs ! m)\<lparr>energy := energy (cs ! m) * 0.5\<rparr>],
        snd (spawnOffspring e i m n (cs, g)))"
    using assms(4) rem m kids(1) nth mi
    by (simp add: attemptReproduction_def Let_def modify_def n_def [symmetric])
  have "int (length kids) = max 0 (round ((num (traits (cs ! i)) offspring_per_cycle +
                      num (traits (cs ! m)) offspring_per_cycle) / 2))"
    using kids(2) by (simp add: n_def)
  moreover have "\<forall>c\<in>set kids. \<exists>sx tr.
         c = Creature (speciesList e ! speciesId (cs ! i)) (posx (cs ! i)) (posy (cs ! i)) sx tr"
    using kids(3) unfolding offspringOf_def by blast
  ultimately show ?thesis
    using m mj mi mp(2,3) res by blast
qed

lemma courting_point:
  "survivesTick (family ! 0)"
  "beforeReproduction savanna 0 (family, halfDraws) = (courting, halfDraws)"
proof -
  define mum where "mum = (Creature grazers 1 1 F createBaselineTraits)\<lparr>age := 200, energy := 49.97\<rparr>"
  have c2: "ageAndHunger (family ! 0) = mum"
    by (simp add: family_def mum_def ageAndHunger_def hungerIncrease_def Creature_def grazers_def
        baseline_values)
  have fed: "regenMoveFeed savanna mum halfDraws = (mum\<lparr>energy := energy mum + 0.5\<rparr>, halfDraws)"
    by (rule quiet_tick) (simp_all add: mum_def Creature_def grazers_def baseline_values savanna_fields)
  have upd: "family[0 := mum\<lparr>energy := energy mum + 0.5\<rparr>] = courting"
    by (simp add: family_def courting_def mum_def Creature_def)
  have pred: "predation 0 (courting, halfDraws) = (courting, halfDraws)"
    by (simp add: predation_def Let_def courting_def Creature_def baseline_values)
  show "survivesTick (family ! 0)"
    unfolding survivesTick_def c2 by (simp add: family_def mum_def Creature_def baseline_values)
  show "beforeReproduction savanna 0 (family, halfDraws) = (courting, halfDraws)"
    by (simp only: beforeReproduction_def Let_def fst_conv snd_conv c2 fed upd pred)
qed

lemma shy_point:
  "survivesTick (shy ! 0)"
  "beforeReproduction savanna 0 (shy, halfDraws) = (shy1, halfDraws)"
proof -
  define mum where "mum = (Creature grazers 1 1 F createBaselineTraits)\<lparr>age := 200, energy := 34.97\<rparr>"
  have c2: "ageAndHunger (shy ! 0) = mum"
    by (simp add: shy_def mum_def ageAndHunger_def hungerIncrease_def Creature_def grazers_def
        baseline_values)
  have fed: "regenMoveFeed savanna mum halfDraws = (mum\<lparr>energy := energy mum + 0.5\<rparr>, halfDraws)"
    by (rule quiet_tick) (simp_all add: mum_def Creature_def grazers_def baseline_values savanna_fields)
  have upd: "shy[0 := mum\<lparr>energy := energy mum + 0.5\<rparr>] = shy1"
    by (simp add: shy_def shy1_def mum_def Creature_def)
  have pred: "predation 0 (shy1, halfDraws) = (shy1, halfDraws)"
    by (simp add: predation_def Let_def shy1_def Creature_def baseline_values)
  show "survivesTick (shy ! 0)"
    unfolding survivesTick_def c2 by (simp add: shy_def mum_def Creature_def baseline_values)
  show "beforeReproduction savanna 0 (shy, halfDraws) = (shy1, halfDraws)"
    by (simp only: beforeReproduction_def Let_def fst_conv snd_conv c2 fed upd pred)
qed

lemma shy_tick: "stepCreature savanna 0 (shy, halfDraws) = (shy1, halfDraws)"
proof -
  have "\<not> energy (shy1 ! 0) > num (traits (shy1 ! 0)) stomach_capacity * 0.7"
    by (simp add: shy1_def Creature_def baseline_values)
  then show ?thesis
    using stepCreature_threshold [OF shy_point(1), of savanna halfDraws]
    by (simp only: shy_point(2) Let_def fst_conv if_False)
qed

lemma trio_litter:
  "length (fst (attemptReproduction savanna 0 (trio, halfDraws))) = 6"
  "energy (fst (attemptReproduction savanna 0 (trio, halfDraws)) ! 2) = 50"
proof -
  have h: "(0::nat) < length trio" "(1::nat) < length trio" "isMate trio 0 1" "alive (trio ! 0)"
      "num (traits (trio ! 0)) repro_cooldown \<noteq> 0"
      "real (age (trio ! 0)) = of_int 1 * num (traits (trio ! 0)) repro_cooldown"
    by (simp_all add: trio_def isMate_def Creature_def withNum_def baseline_values)
  from attemptReproduction_mate [OF h, of savanna halfDraws]
  obtain m kids g' where r: "m \<le> 1" "m \<noteq> 0"
      "attemptReproduction savanna 0 (trio, halfDraws) =
         ((trio @ kids)[0 := (trio ! 0)\<lparr>energy := energy (trio ! 0) * 0.5\<rparr>,
                        m := (trio ! m)\<lparr>energy := energy (trio ! m) * 0.5\<rparr>], g')"
      "int (length kids) =
         max 0 (round ((num (traits (trio ! 0)) offspring_per_cycle +
                        num (traits (trio ! m)) offspring_per_cycle) / 2))"
    by blast
  have m: "m = 1"
    using r(1,2) by simp
  have "int (length kids) = 3"
    using r(4) by (simp add: m trio_def Creature_def withNum_def baseline_values)
  then have k: "length kids = 3"
    by simp
  have len: "length trio = 3" and e2: "energy (trio ! 2) = 50"
    by (simp_all add: trio_def Creature_def)
  show "length (fst (attemptReproduction savanna 0 (trio, halfDraws))) = 6"
    unfolding r(3) m by (simp add: k len)
  show "energy (fst (attemptReproduction savanna 0 (trio, halfDraws)) ! 2) = 50"
    unfolding r(3) m using e2 by (simp add: len nth_append)
qed

text \<open>
  Claim C6 as stated does not hold. In \<open>trio\<close> the creatures 0 and 2 meet every condition
  of the claim and \<open>round ((o1 + o2) / 2)\<close> is 1 for them; but creature 1, earlier in the
  list, qualifies too and is the mate: three offspring are appended and creature 2 keeps
  its energy. In \<open>shy\<close> the tick of creature 0 reaches the reproduction block with every
  condition of the claim true, its energy 35.47 being more than half of the capacity 60
  but not more than 70% of it: no reproduction is attempted.
\<close>

theorem reproduction_pair_counterexample:
  "(alive (trio ! 0) \<and> alive (trio ! 2) \<and> speciesId (trio ! 2) = speciesId (trio ! 0) \<and>
    sex (trio ! 2) \<noteq> sex (trio ! 0) \<and>
    \<bar>posx (trio ! 2) - posx (trio ! 0)\<bar> \<le> 1 \<and> \<bar>posy (trio ! 2) - posy (trio ! 0)\<bar> \<le> 1 \<and>
    energy (trio ! 0) \<ge> num (traits (trio ! 0)) stomach_capacity * 0.5 \<and>
    energy (trio ! 2) \<ge> num (traits (trio ! 2)) stomach_capacity * 0.5 \<and>
    js_rem (real (age (trio ! 0))) (num (traits (trio ! 0)) repro_cooldown) = Some 0 \<and>
    round ((num (traits (trio ! 0)) offspring_per_cycle +
            num (traits (trio ! 2)) offspring_per_cycle) / 2) = 1 \<and>
    length trio = 3 \<and>
    length (fst (attemptReproduction savanna 0 (trio, halfDraws))) = 6 \<and>
    energy (trio ! 2) = 50 \<and>
    energy (fst (attemptReproduction savanna 0 (trio, halfDraws)) ! 2) = 50) \<and>
   (survivesTick (shy ! 0) \<and>
    beforeReproduction savanna 0 (shy, halfDraws) = (shy1, halfDraws) \<and>
    alive (shy1 ! 0) \<and> alive (shy1 ! 1) \<and> speciesId (shy1 ! 1) = speciesId (shy1 ! 0) \<and>
    sex (shy1 ! 1) \<noteq> sex (shy1 ! 0) \<and>
    \<bar>posx (shy1 ! 1) - posx (shy1 ! 0)\<bar> \<le> 1 \<and> \<bar>posy (shy1 ! 1) - posy (shy1 ! 0)\<bar> \<le> 1 \<and>
    energy (shy1 ! 0) \<ge> num (traits (shy1 ! 0)) stomach_capacity * 0.5 \<and>
    energy (shy1 ! 1) \<ge> num (traits (shy1 ! 1)) stomach_capacity * 0.5 \<and>
    js_rem (real (age (shy1 ! 0))) (num (traits (shy1 ! 0)) repro_cooldown) = Some 0 \<and>
    stepCreature savanna 0 (shy, halfDraws) = (shy1, halfDraws) \<and>
    length shy1 = 2 \<and> energy (shy1 ! 0) = 35.47 \<and> energy (shy1 ! 1) = 50)"
proof -
  have t: "alive (trio ! 0)" "alive (trio ! 2)" "speciesId (trio ! 2) = speciesId (trio ! 0)"
    "sex (trio ! 2) \<noteq> sex (trio ! 0)"
    "\<bar>posx (trio ! 2) - posx (trio ! 0)\<bar> \<le> 1" "\<bar>posy (trio ! 2) - posy (trio ! 0)\<bar> \<le> 1"
    "energy (trio ! 0) \<ge> num (traits (trio ! 0)) stomach_capacity * 0.5"
    "energy (trio ! 2) \<ge> num (traits (trio ! 2)) stomach_capacity * 0.5"
    "js_rem (real (age (trio ! 0))) (num (traits (trio ! 0)) repro_cooldown) = Some 0"
    "round ((num (traits (trio ! 0)) offspring_per_cycle +
            num (traits (trio ! 2)) offspring_per_cycle) / 2) = 1"
    "length trio = 3" "energy (trio ! 2) = 50"
    by (simp_all add: trio_def Creature_def baseline_values js_rem_def js_trunc_def)
  have s: "alive (shy1 ! 0)" "alive (shy1 ! 1)" "speciesId (shy1 ! 1) = speciesId (shy1 ! 0)"
    "sex (shy1 ! 1) \<noteq> sex (shy1 ! 0)"
    "\<bar>posx (shy1 ! 1) - posx (shy1 ! 0)\<bar> \<le> 1" "\<bar>posy (shy1 ! 1) - posy (shy1 ! 0)\<bar> \<le> 1"
    "energy (shy1 ! 0) \<ge> num (traits (shy1 ! 0)) stomach_capacity * 0.5"
    "energy (shy1 ! 1) \<ge> num (traits (shy1 ! 1)) stomach_capacity * 0.5"
    "js_rem (real (age (shy1 ! 0))) (num (traits (shy1 ! 0)) repro_cooldown) = Some 0"
    "length shy1 = 2" "energy (shy1 ! 0) = 35.47" "energy (shy1 ! 1) = 50"
    by (simp_all add: shy1_def Creature_def baseline_values js_rem_def js_trunc_def)
  show ?thesis
    by (intro conjI t s trio_litter shy_point shy_tick)
qed

text \<open>
  Claim C6, amended. Let \<open>cs\<close> be the list when the creature at index \<open>i\<close> comes to
  reproduce: it is alive, its age is a multiple of its \<open>repro_cooldown\<close>, its species
  id is an index of the species list, and another living creature \<open>j\<close> of the same
  species and the opposite sex is within Chebyshev distance 1 with at least half of its
  stomach capacity as energy. Then \<^verbatim>\<open>attemptReproduction\<close> succeeds under every outcome
  of the draws. The mate \<open>m\<close> is the first creature of the list that qualifies (\<open>j\<close>
  itself when no earlier one does). It appends \<open>round ((o1 + o2) / 2)\<close> offspring, \<open>o1\<close>
  and \<open>o2\<close> the \<open>offspring_per_cycle\<close> of the initiator and of \<open>m\<close> (none when that
  number is negative), each a new creature of the initiator's species at the initiator's
  position, and it halves the energy of the initiator and of \<open>m\<close> once. The energy of
  the initiator is not compared with half of its capacity. A tick that reaches the
  reproduction block in this state ends with that result when the initiator's energy is
  above 70% of its stomach capacity, and with the state unchanged otherwise.
\<close>

theorem reproduction_succeeds:
  assumes "i < length cs" and "j < length cs" and "j \<noteq> i"
    and "alive (cs ! i)" and "alive (cs ! j)"
    and "speciesId (cs ! i) < length (speciesList e)"
    and "speciesId (cs ! j) = speciesId (cs ! i)"
    and "sex (cs ! j) \<noteq> sex (cs ! i)"
    and "\<bar>posx (cs ! j) - posx (cs ! i)\<bar> \<le> 1" and "\<bar>posy (cs ! j) - posy (cs ! i)\<bar> \<le> 1"
    and "energy (cs ! j) \<ge> num (traits (cs ! j)) stomach_capacity * 0.5"
    and "num (traits (cs ! i)) repro_cooldown \<noteq> 0"
    and "real (age (cs ! i)) = of_int q * num (traits (cs ! i)) repro_cooldown"
  shows "\<exists>m kids g'.
     findMate cs i = Some m \<and> m \<le> j \<and> m \<noteq> i \<and> isMate cs i m \<and>
     (\<forall>k<m. \<not> isMate cs i k) \<and> ((\<forall>k<j. \<not> isMate cs i k) \<longrightarrow> m = j) \<and>
     attemptReproduction e i (cs, g) =
       ((cs @ kids)[i := (cs ! i)\<lparr>energy := energy (cs ! i) * 0.5\<rparr>,
                    m := (cs ! m)\<lparr>energy := energy (cs ! m) * 0.5\<rparr>], g') \<and>
     int (length kids) =
       max 0 (round ((num (traits (cs ! i)) offspring_per_cycle +
                      num (traits (cs ! m)) offspring_per_cycle) / 2)) \<and>
     (\<forall>c\<in>set kids. \<exists>sx tr.
         c = Creature (speciesList e ! speciesId (cs ! i)) (posx (cs ! i)) (posy (cs ! i)) sx tr) \<and>
     (\<forall>cs0 g0. survivesTick (cs0 ! i) \<and> beforeReproduction e i (cs0, g0) = (cs, g) \<longrightarrow>
        stepCreature e i (cs0, g0) =
          (if energy (cs ! i) > num (traits (cs ! i)) stomach_capacity * 0.7
           then ((cs @ kids)[i := (cs ! i)\<lparr>energy := energy (cs ! i) * 0.5\<rparr>,
                             m := (cs ! m)\<lparr>energy := energy (cs ! m) * 0.5\<rparr>], g')
           else (cs, g)))"
proof -
  have j: "isMate cs i j"
    using assms by (simp add: isMate_def not_less)
  obtain m kids g' where r: "findMate cs i = Some m" "m \<le> j" "m \<noteq> i" "isMate cs i m"
      "\<forall>k<m. \<not> isMate cs i k"
      "attemptReproduction e i (cs, g) =
         ((cs @ kids)[i := (cs ! i)\<lparr>energy := energy (cs ! i) * 0.5\<rparr>,
                      m := (cs ! m)\<lparr>energy := energy (cs ! m) * 0.5\<rparr>], g')"
      "int (length kids) =
         max 0 (round ((num (traits (cs ! i)) offspring_per_cycle +
                        num (traits (cs ! m)) offspring_per_cycle) / 2))"
      "\<forall>c\<in>set kids. \<exists>sx tr.
         c = Creature (speciesList e ! speciesId (cs ! i)) (posx (cs ! i)) (posy (cs ! i)) sx tr"
    using attemptReproduction_mate [OF assms(1,2) j assms(4,12,13), of e g] by blast
  have first: "m = j" if "\<forall>k<j. \<not> isMate cs i k"
    using that r(2,4) by (metis le_neq_implies_less)
  have tick: "stepCreature e i (cs0, g0) =
          (if energy (cs ! i) > num (traits (cs ! i)) stomach_capacity * 0.7
           then ((cs @ kids)[i := (cs ! i)\<lparr>energy := energy (cs ! i) * 0.5\<rparr>,
                             m := (cs ! m)\<lparr>energy := energy (cs ! m) * 0.5\<rparr>], g')
           else (cs, g))"
    if "survivesTick (cs0 ! i)" and "beforeReproduction e i (cs0, g0) = (cs, g)" for cs0 g0
    using stepCreature_threshold [OF that(1), of e g0] by (simp add: that(2) r(6))
  show ?thesis
    using r first tick by blast
qed

text \<open>
  The theorem at the tick of the mother of \<open>family\<close>: it reaches the reproduction
  block in the state \<open>courting\<close>, above 70% of the capacity; one child is appended on
  her tile and both parents lose half of their energy.
\<close>

theorem reproduction_succeeds_witness:
  "(0::nat) < length courting \<and> (1::nat) < length courting \<and>
   alive (courting ! 0) \<and> alive (courting ! 1) \<and>
   speciesId (courting ! 0) < length (speciesList savanna) \<and>
   speciesId (courting ! 1) = speciesId (courting ! 0) \<and> sex (courting ! 1) \<noteq> sex (courting ! 0) \<and>
   \<bar>posx (courting ! 1) - posx (courting ! 0)\<bar> \<le> 1 \<and> \<bar>posy (courting ! 1) - posy (courting ! 0)\<bar> \<le> 1 \<and>
   energy (courting ! 1) \<ge> num (traits (courting ! 1)) stomach_capacity * 0.5 \<and>
   real (age (courting ! 0)) = of_int 1 * num (traits (courting ! 0)) repro_cooldown \<and>
   energy (courting ! 0) > num (traits (courting ! 0)) stomach_capacity * 0.7 \<and>
   survivesTick (family ! 0) \<and>
   beforeReproduction savanna 0 (family, halfDraws) = (courting, halfDraws) \<and>
   stepCreature savanna 0 (family, halfDraws) = attemptReproduction savanna 0 (courting, halfDraws) \<and>
   length (fst (stepCreature savanna 0 (family, halfDraws))) = 3 \<and>
   energy (fst (stepCreature savanna 0 (family, halfDraws)) ! 0) = 25.235 \<and>
   energy (fst (stepCreature savanna 0 (family, halfDraws)) ! 1) = 25 \<and>
   posx (fst (stepCreature savanna 0 (family, halfDraws)) ! 2) = 1 \<and>
   posy (fst (stepCreature savanna 0 (family, halfDraws)) ! 2) = 1 \<and>
   speciesId (fst (stepCreature savanna 0 (family, halfDraws)) ! 2) = 1"
proof -
  have h: "(0::nat) < length courting" "(1::nat) < length courting" "(1::nat) \<noteq> 0"
     "alive (courting ! 0)" "alive (courting ! 1)"
     "speciesId (courting ! 0) < length (speciesList savanna)"
     "speciesId (courting ! 1) = speciesId (courting ! 0)" "sex (courting ! 1) \<noteq> sex (courting ! 0)"
     "\<bar>posx (courting ! 1) - posx (courting ! 0)\<bar> \<le> 1" "\<bar>posy (courting ! 1) - posy (courting ! 0)\<bar> \<le> 1"
     "energy (courting ! 1) \<ge> num (traits (courting ! 1)) stomach_capacity * 0.5"
     "num (traits (courting ! 0)) repro_cooldown \<noteq> 0"
     "real (age (courting ! 0)) = of_int 1 * num (traits (courting ! 0)) repro_cooldown"
    by (simp_all add: courting_def Creature_def baseline_values savanna_def grazers_def)
  have gate: "energy (courting ! 0) > num (traits (courting ! 0)) stomach_capacity * 0.7"
    by (simp add: courting_def Creature_def baseline_values)
  from reproduction_succeeds [OF h, of halfDraws]
  obtain m kids g' where r: "m \<le> 1" "m \<noteq> 0"
     "attemptReproduction savanna 0 (courting, halfDraws) =
       ((courting @ kids)[0 := (courting ! 0)\<lparr>energy := energy (courting ! 0) * 0.5\<rparr>,
                    m := (courting ! m)\<lparr>energy := energy (courting ! m) * 0.5\<rparr>], g')"
     "int (length kids) =
       max 0 (round ((num (traits (courting ! 0)) offspring_per_cycle +
                      num (traits (courting ! m)) offspring_per_cycle) / 2))"
     "\<forall>c\<in>set kids. \<exists>sx tr.
         c = Creature (speciesList savanna ! speciesId (courting ! 0)) (posx (courting ! 0)) (posy (courting ! 0)) sx tr"
     "\<forall>cs0 g0. survivesTick (cs0 ! 0) \<and> beforeReproduction savanna 0 (cs0, g0) = (courting, halfDraws) \<longrightarrow>
        stepCreature savanna 0 (cs0, g0) =
          (if energy (courting ! 0) > num (traits (courting ! 0)) stomach_capacity * 0.7
           then ((courting @ kids)[0 := (courting ! 0)\<lparr>energy := energy (courting ! 0) * 0.5\<rparr>,
                             m := (courting ! m)\<lparr>energy := energy (courting ! m) * 0.5\<rparr>], g')
           else (courting, halfDraws))"
    by blast
  have m: "m = 1" using r(1,2) by simp
  have tick: "stepCreature savanna 0 (family, halfDraws) =
       ((courting @ kids)[0 := (courting ! 0)\<lparr>energy := energy (courting ! 0) * 0.5\<rparr>,
                    m := (courting ! m)\<lparr>energy := energy (courting ! m) * 0.5\<rparr>], g')"
    using r(6) courting_point gate by (simp only: simp_thms if_True)
  have same: "stepCreature savanna 0 (family, halfDraws) = attemptReproduction savanna 0 (courting, halfDraws)"
    by (simp only: tick r(3))
  have "int (length kids) = 1"
    using r(4) by (simp add: m courting_def Creature_def baseline_values)
  then obtain kid where kids: "kids = [kid]"
    by (cases kids) auto
  have kid: "posx kid = 1 \<and> posy kid = 1 \<and> speciesId kid = 1"
    using r(5) by (auto simp: kids courting_def Creature_def savanna_def grazers_def hunters_def)
  have en: "energy (courting ! 0) = 50.47" "energy (courting ! 1) = 50" "length courting = 2"
    by (simp_all add: courting_def Creature_def)
  have out: "length (fst (stepCreature savanna 0 (family, halfDraws))) = 3"
   "energy (fst (stepCreature savanna 0 (family, halfDraws)) ! 0) = 25.235"
   "energy (fst (stepCreature savanna 0 (family, halfDraws)) ! 1) = 25"
   "posx (fst (stepCreature savanna 0 (family, halfDraws)) ! 2) = 1"
   "posy (fst (stepCreature savanna 0 (family, halfDraws)) ! 2) = 1"
   "speciesId (fst (stepCreature savanna 0 (family, halfDraws)) ! 2) = 1"
    using en kid unfolding tick m kids by (simp_all add: nth_append)
  show ?thesis
    by (intro conjI h(1,2,4-11) h(13) gate courting_point same out)
qed

section \<open>Creatures appended during a step (C5)\<close>

text \<open>
  The claim as stated fails: the step starts with two creatures; the tick of the first
  appends a child of age 0; the same step then ticks the child, whose age is 1 when the
  step ends.
\<close>

theorem appended_ticked_counterexample:
  "length family = 2 \<and> map age family = [199, 0] \<and>
   stepCreature savanna 0 (family, halfDraws) = (family1, halfDraws) \<and>
   length family1 = 3 \<and> age (family1 ! 2) = 0 \<and>
   stepSimulation savanna \<lparr>creatures = family, year = 0, rand = halfDraws\<rparr> =
     Some \<lparr>creatures = family3, year = yearStep, rand = halfDraws\<rparr> \<and>
   map age family3 = [200, 1, 1]"
  by (simp add: family_tick0 family_step)
     (simp add: family_def family1_def family3_def Creature_def)

text \<open>
  Claim C5, amended. The pass of a simulation step reads the length of the creature
  list again at every iteration: from index \<open>i\<close> it ticks the creature at \<open>i\<close> and goes on
  from \<open>i + 1\<close> on the list the tick returned, which is the old list updated in place and
  extended at its end by creatures of age 0. So when the pass from index 0 ends, every
  creature then alive has been ticked exactly once in it, those appended during the pass
  included: one present at the start is one tick older, one appended has age 1. A
  creature is appended behind its parents, and therefore ticked after them.
\<close>

theorem pass_ticks_appended:
  "(tickCreatures e 0 (cs, g) = Some (cs', g') \<longrightarrow>
       length cs \<le> length cs' \<and>
       (\<forall>k<length cs'. alive (cs' ! k) \<longrightarrow>
           age (cs' ! k) = (if k < length cs then age (cs ! k) + 1 else 1)))
   \<and> (i < length cs \<longrightarrow>
       tickCreatures e i (cs, g) =
         tickCreatures e (Suc i) (if alive (cs ! i) then stepCreature e i (cs, g) else (cs, g))
       \<and> ticked i cs (fst (stepCreature e i (cs, g))))"
proof -
  have a: "length cs \<le> length cs' \<and>
       (\<forall>k<length cs'. alive (cs' ! k) \<longrightarrow>
           age (cs' ! k) = (if k < length cs then age (cs ! k) + 1 else 1))"
    if "tickCreatures e 0 (cs, g) = Some (cs', g')"
    using tickCreatures_passed [OF that] by (simp add: passed_def)
  have b: "tickCreatures e i (cs, g) =
         tickCreatures e (Suc i) (if alive (cs ! i) then stepCreature e i (cs, g) else (cs, g))"
    if "i < length cs"
    using that by (subst tickCreatures.simps) simp
  show ?thesis
    using a b stepCreature_ticked [of i cs e g] by blast
qed

theorem pass_ticks_appended_witness:
  "tickCreatures savanna 0 (family, halfDraws) = Some (family3, halfDraws) \<and>
   length family = 2 \<and> length family3 = 3 \<and> alive (family3 ! 2) \<and> age (family3 ! 2) = 1 \<and>
   age (family3 ! 0) = age (family ! 0) + 1 \<and>
   ticked 0 family (fst (stepCreature savanna 0 (family, halfDraws)))"
proof -
  have l: "length family = 2" "length family3 = 3" "alive (family3 ! 2)" "alive (family3 ! 0)"
    by (simp_all add: family_def family3_def Creature_def)
  show ?thesis
    using pass_ticks_appended [of savanna family halfDraws family3 halfDraws 0] family_pass l
    by simp
qed

section \<open>Compaction (C3)\<close>

lemma js_rem_small: "0 < y \<Longrightarrow> y < 5 \<Longrightarrow> js_rem y 5 = Some y"
  by (simp add: js_rem_def js_trunc_def floor_eq_iff)

lemma dead_pass:
  assumes "\<not> alive c"
  shows "tickCreatures e 0 ([c], g) = Some ([c], g)"
proof -
  have "tickCreatures e (Suc 0) ([c], g) = Some ([c], g)"
    by (subst tickCreatures.simps) simp
  then show ?thesis
    using assms by (subst tickCreatures.simps) simp
qed

lemma dead_step:
  assumes "\<not> alive c" and "0 < y" and "y < 5"
  shows "stepSimulation e \<lparr>creatures = [c], year = y, rand = g\<rparr> =
           Some \<lparr>creatures = [c], year = advance y, rand = g\<rparr>"
  using assms by (simp add: stepSimulation_def js_rem_small dead_pass)

lemma dead_run_in_binade:
  assumes "\<not> alive c" and "yearStep = (of_int q + r) * pow2 k" and "\<bar>r\<bar> < 1 / 2"
    and "0 < q" and "- 1074 \<le> k"
  shows "2 ^ 52 \<le> m \<Longrightarrow> m + int n * q < 2 ^ 53 \<Longrightarrow> of_int (m + int n * q) * pow2 k \<le> 5 \<Longrightarrow>
         runSteps n e \<lparr>creatures = [c], year = of_int m * pow2 k, rand = g\<rparr> =
           Some \<lparr>creatures = [c], year = of_int (m + int n * q) * pow2 k, rand = g\<rparr>"
proof (induction n arbitrary: m)
  case 0
  show ?case by simp
next
  case (Suc n)
  have mq: "m + q + int n * q = m + int (Suc n) * q"
    by (simp add: algebra_simps)
  have lo: "2 ^ 52 \<le> m + q"
    using Suc.prems(1) assms(4) by simp
  have hi: "m + q < 2 ^ 53"
  proof -
    have "0 \<le> int n * q"
      using assms(4) by simp
    then show ?thesis
      using Suc.prems(2) unfolding mq [symmetric] by linarith
  qed
  have pos: "0 < of_int m * pow2 k"
    using Suc.prems(1) by (simp add: zero_less_mult_iff) linarith?
  have "of_int m * pow2 k < of_int (m + int (Suc n) * q) * pow2 k"
  proof -
    have "0 < int (Suc n) * q"
      using assms(4) by simp
    then have "m < m + int (Suc n) * q"
      by linarith
    then have "of_int m < (of_int (m + int (Suc n) * q) :: real)"
      by (simp only: of_int_less_iff)
    then show ?thesis
      using pow2_pos [of k] by (simp only: mult_strict_right_mono)
  qed
  then have less5: "of_int m * pow2 k < 5"
    using Suc.prems(3) by linarith
  have adv: "advance (of_int m * pow2 k) = of_int (m + q) * pow2 k"
    using assms(2,3) Suc.prems(1) assms(4) hi assms(5) by (rule advance_in_binade)
  have first: "stepSimulation e \<lparr>creatures = [c], year = of_int m * pow2 k, rand = g\<rparr> =
           Some \<lparr>creatures = [c], year = of_int (m + q) * pow2 k, rand = g\<rparr>"
    using dead_step [OF assms(1) pos less5] adv by simp
  have then_n: "runSteps n e \<lparr>creatures = [c], year = of_int (m + q) * pow2 k, rand = g\<rparr> =
           Some \<lparr>creatures = [c], year = of_int (m + q + int n * q) * pow2 k, rand = g\<rparr>"
    using lo Suc.prems(2,3) unfolding mq [symmetric] by (rule Suc.IH)
  show ?case
    unfolding mq [symmetric] by (simp only: runSteps.simps first option.case then_n)
qed

lemma runSteps_add:
  "runSteps a e st = Some st1 \<Longrightarrow> runSteps b e st1 = Some st2 \<Longrightarrow> n = a + b \<Longrightarrow>
   runSteps n e st = Some st2"
proof (induction a arbitrary: st n)
  case 0
  then show ?case by simp
next
  case (Suc a)
  then show ?case
    by (cases "stepSimulation e st") simp_all
qed

lemma late_dead: "\<not> alive late"
  by (simp add: late_def)

lemma elder_tick: "stepCreature savanna 0 ([elder], halfDraws) = ([elder1], halfDraws)"
proof -
  define old where "old = (Creature grazers 1 1 F createBaselineTraits)\<lparr>age := 2000, energy := 49.97\<rparr>"
  have c2: "ageAndHunger ([elder] ! 0) = old"
    by (simp add: elder_def old_def ageAndHunger_def hungerIncrease_def Creature_def grazers_def
        baseline_values)
  have fed: "regenMoveFeed savanna old halfDraws = (old\<lparr>energy := energy old + 0.5\<rparr>, halfDraws)"
    by (rule quiet_tick) (simp_all add: old_def Creature_def grazers_def baseline_values savanna_fields)
  have e1: "[elder][0 := old\<lparr>energy := energy old + 0.5\<rparr>] = [elder1]"
    by (simp add: old_def elder1_def Creature_def)
  have pred: "predation 0 ([elder1], halfDraws) = ([elder1], halfDraws)"
    by (simp add: predation_def Let_def elder1_def Creature_def baseline_values)
  have gate: "energy ([elder1] ! 0) > num (traits ([elder1] ! 0)) stomach_capacity * 0.7"
    by (simp add: elder1_def Creature_def baseline_values)
  have mate: "findMate [elder1] 0 = None"
    by (simp add: findMate_def isMate_def)
  have repro: "attemptReproduction savanna 0 ([elder1], halfDraws) = ([elder1], halfDraws)"
    by (simp add: attemptReproduction_def Let_def mate)
  have live: "alive ([elder] ! 0)" "\<not> (real (age old) > num (traits old) max_age \<or> energy old \<le> 0)"
    by (simp_all add: elder_def old_def Creature_def baseline_values)
  show ?thesis
    by (simp only: stepCreature_def Let_def fst_conv snd_conv c2 fed live e1 pred gate repro
        simp_thms if_True if_False)
qed

lemma elder1_tick: "stepCreature savanna 0 ([elder1], halfDraws) = ([late], halfDraws)"
  by (simp add: stepCreature_def Let_def elder1_def late_def ageAndHunger_def
      hungerIncrease_def Creature_def grazers_def baseline_values)

lemma elder_pass: "tickCreatures savanna 0 ([elder], halfDraws) = Some ([elder1], halfDraws)"
proof -
  have "tickCreatures savanna (Suc 0) ([elder1], halfDraws) = Some ([elder1], halfDraws)"
    by (subst tickCreatures.simps) simp
  moreover have "alive elder"
    by (simp add: elder_def Creature_def)
  ultimately show ?thesis
    by (subst tickCreatures.simps) (simp add: elder_tick)
qed

lemma elder1_pass: "tickCreatures savanna 0 ([elder1], halfDraws) = Some ([late], halfDraws)"
proof -
  have "tickCreatures savanna (Suc 0) ([late], halfDraws) = Some ([late], halfDraws)"
    by (subst tickCreatures.simps) simp
  moreover have "alive elder1"
    by (simp add: elder1_def Creature_def)
  ultimately show ?thesis
    by (subst tickCreatures.simps) (simp add: elder1_tick)
qed

lemma elder_step:
  "stepSimulation savanna \<lparr>creatures = [elder], year = 0, rand = halfDraws\<rparr> =
     Some \<lparr>creatures = [elder1], year = yearStep, rand = halfDraws\<rparr>"
  by (simp add: stepSimulation_def elder_pass js_rem_def js_trunc_def advance_0)
     (simp add: elder1_def Creature_def)

lemma advance_1: "advance yearStep = 5764607523034235 / 2 ^ 58"
  by (simp add: advance_def yearStep_value)
     (simp add: binary64_def exponent_def roundTiesToEven_def pow2_def Let_def bitlen_numeral)

lemma elder1_step:
  "stepSimulation savanna \<lparr>creatures = [elder1], year = yearStep, rand = halfDraws\<rparr> =
     Some \<lparr>creatures = [late], year = 5764607523034235 / 2 ^ 58, rand = halfDraws\<rparr>"
proof -
  have "0 < yearStep" "yearStep < 5"
    by (simp_all add: yearStep_value)
  then have "js_rem yearStep 5 \<noteq> Some 0"
    by (simp add: js_rem_small)
  then show ?thesis
    by (simp add: stepSimulation_def elder1_pass advance_1)
qed

lemma elder_run_0_2:
  "runSteps 2 savanna \<lparr>creatures = [elder], year = 0, rand = halfDraws\<rparr> =
     Some \<lparr>creatures = [late], year = 5764607523034235 / 2 ^ 58, rand = halfDraws\<rparr>"
  by (simp add: numeral_2_eq_2 elder_step elder1_step)

lemma advance_2:
  "advance (5764607523034235 / 2 ^ 58) = 8646911284551352 / 2 ^ 58"
  by (simp add: advance_def yearStep_value)
     (simp add: binary64_def exponent_def roundTiesToEven_def pow2_def Let_def bitlen_numeral)

lemma late_run_2_3:
  "runSteps 1 savanna \<lparr>creatures = [late], year = 5764607523034235 / 2 ^ 58, rand = halfDraws\<rparr> =
     Some \<lparr>creatures = [late], year = 8646911284551352 / 2 ^ 58, rand = halfDraws\<rparr>"
  using dead_step [OF late_dead, of "5764607523034235 / 2 ^ 58" savanna halfDraws] advance_2
  by simp

lemma advance_3:
  "advance (8646911284551352 / 2 ^ 58) = 5764607523034235 / 2 ^ 57"
  by (simp add: advance_def yearStep_value)
     (simp add: binary64_def exponent_def roundTiesToEven_def pow2_def Let_def bitlen_numeral)

lemma late_run_3_4:
  "runSteps 1 savanna \<lparr>creatures = [late], year = 8646911284551352 / 2 ^ 58, rand = halfDraws\<rparr> =
     Some \<lparr>creatures = [late], year = 5764607523034235 / 2 ^ 57, rand = halfDraws\<rparr>"
  using dead_step [OF late_dead, of "8646911284551352 / 2 ^ 58" savanna halfDraws] advance_3
  by simp

lemma yearStep_binade_57:
  "yearStep = (of_int 1441151880758559 + - (1 / 4)) * pow2 (- 57)"
  by (simp add: yearStep_value pow2_def)

lemma late_run_4_6:
  "runSteps 2 savanna \<lparr>creatures = [late], year = 5764607523034235 / 2 ^ 57, rand = halfDraws\<rparr> =
     Some \<lparr>creatures = [late], year = 8646911284551353 / 2 ^ 57, rand = halfDraws\<rparr>"
  using dead_run_in_binade [OF late_dead yearStep_binade_57, of 5764607523034235 2 savanna halfDraws]
  by (simp add: pow2_def)

lemma advance_6:
  "advance (8646911284551353 / 2 ^ 57) = 5044031582654956 / 2 ^ 56"
  by (simp add: advance_def yearStep_value)
     (simp add: binary64_def exponent_def roundTiesToEven_def pow2_def Let_def bitlen_numeral)

lemma late_run_6_7:
  "runSteps 1 savanna \<lparr>creatures = [late], year = 8646911284551353 / 2 ^ 57, rand = halfDraws\<rparr> =
     Some \<lparr>creatures = [late], year = 5044031582654956 / 2 ^ 56, rand = halfDraws\<rparr>"
  using dead_step [OF late_dead, of "8646911284551353 / 2 ^ 57" savanna halfDraws] advance_6
  by simp

lemma yearStep_binade_56:
  "yearStep = (of_int 720575940379279 + 3 / 8) * pow2 (- 56)"
  by (simp add: yearStep_value pow2_def)

lemma late_run_7_10:
  "runSteps 3 savanna \<lparr>creatures = [late], year = 5044031582654956 / 2 ^ 56, rand = halfDraws\<rparr> =
     Some \<lparr>creatures = [late], year = 7205759403792793 / 2 ^ 56, rand = halfDraws\<rparr>"
  using dead_run_in_binade [OF late_dead yearStep_binade_56, of 5044031582654956 3 savanna halfDraws]
  by (simp add: pow2_def)

lemma late_run_10_12:
  "runSteps 2 savanna \<lparr>creatures = [late], year = 7205759403792793 / 2 ^ 56, rand = halfDraws\<rparr> =
     Some \<lparr>creatures = [late], year = 8646911284551351 / 2 ^ 56, rand = halfDraws\<rparr>"
  using dead_run_in_binade [OF late_dead yearStep_binade_56, of 7205759403792793 2 savanna halfDraws]
  by (simp add: pow2_def)

lemma advance_12:
  "advance (8646911284551351 / 2 ^ 56) = 4683743612465315 / 2 ^ 55"
  by (simp add: advance_def yearStep_value)
     (simp add: binary64_def exponent_def roundTiesToEven_def pow2_def Let_def bitlen_numeral)

lemma late_run_12_13:
  "runSteps 1 savanna \<lparr>creatures = [late], year = 8646911284551351 / 2 ^ 56, rand = halfDraws\<rparr> =
     Some \<lparr>creatures = [late], year = 4683743612465315 / 2 ^ 55, rand = halfDraws\<rparr>"
  using dead_step [OF late_dead, of "8646911284551351 / 2 ^ 56" savanna halfDraws] advance_12
  by simp

lemma yearStep_binade_55:
  "yearStep = (of_int 360287970189640 + - (5 / 16)) * pow2 (- 55)"
  by (simp add: yearStep_value pow2_def)

lemma late_run_13_24:
  "runSteps 11 savanna \<lparr>creatures = [late], year = 4683743612465315 / 2 ^ 55, rand = halfDraws\<rparr> =
     Some \<lparr>creatures = [late], year = 8646911284551355 / 2 ^ 55, rand = halfDraws\<rparr>"
  using dead_run_in_binade [OF late_dead yearStep_binade_55, of 4683743612465315 11 savanna halfDraws]
  by (simp add: pow2_def)

lemma advance_24:
  "advance (8646911284551355 / 2 ^ 55) = 4503599627370497 / 2 ^ 54"
  by (simp add: advance_def yearStep_value)
     (simp add: binary64_def exponent_def roundTiesToEven_def pow2_def Let_def bitlen_numeral)

lemma late_run_24_25:
  "runSteps 1 savanna \<lparr>creatures = [late], year = 8646911284551355 / 2 ^ 55, rand = halfDraws\<rparr> =
     Some \<lparr>creatures = [late], year = 4503599627370497 / 2 ^ 54, rand = halfDraws\<rparr>"
  using dead_step [OF late_dead, of "8646911284551355 / 2 ^ 55" savanna halfDraws] advance_24
  by simp

lemma yearStep_binade_54:
  "yearStep = (of_int 180143985094820 + - (5 / 32)) * pow2 (- 54)"
  by (simp add: yearStep_value pow2_def)

lemma late_run_25_49:
  "runSteps 24 savanna \<lparr>creatures = [late], year = 4503599627370497 / 2 ^ 54, rand = halfDraws\<rparr> =
     Some \<lparr>creatures = [late], year = 8827055269646177 / 2 ^ 54, rand = halfDraws\<rparr>"
  using dead_run_in_binade [OF late_dead yearStep_binade_54, of 4503599627370497 24 savanna halfDraws]
  by (simp add: pow2_def)

lemma advance_49:
  "advance (8827055269646177 / 2 ^ 54) = 4503599627370498 / 2 ^ 53"
  by (simp add: advance_def yearStep_value)
     (simp add: binary64_def exponent_def roundTiesToEven_def pow2_def Let_def bitlen_numeral)

lemma late_run_49_50:
  "runSteps 1 savanna \<lparr>creatures = [late], year = 8827055269646177 / 2 ^ 54, rand = halfDraws\<rparr> =
     Some \<lparr>creatures = [late], year = 4503599627370498 / 2 ^ 53, rand = halfDraws\<rparr>"
  using dead_step [OF late_dead, of "8827055269646177 / 2 ^ 54" savanna halfDraws] advance_49
  by simp

lemma yearStep_binade_53:
  "yearStep = (of_int 90071992547410 + - (5 / 64)) * pow2 (- 53)"
  by (simp add: yearStep_value pow2_def)

lemma late_run_50_99:
  "runSteps 49 savanna \<lparr>creatures = [late], year = 4503599627370498 / 2 ^ 53, rand = halfDraws\<rparr> =
     Some \<lparr>creatures = [late], year = 8917127262193588 / 2 ^ 53, rand = halfDraws\<rparr>"
  using dead_run_in_binade [OF late_dead yearStep_binade_53, of 4503599627370498 49 savanna halfDraws]
  by (simp add: pow2_def)

lemma advance_99:
  "advance (8917127262193588 / 2 ^ 53) = 4503599627370499 / 2 ^ 52"
  by (simp add: advance_def yearStep_value)
     (simp add: binary64_def exponent_def roundTiesToEven_def pow2_def Let_def bitlen_numeral)

lemma late_run_99_100:
  "runSteps 1 savanna \<lparr>creatures = [late], year = 8917127262193588 / 2 ^ 53, rand = halfDraws\<rparr> =
     Some \<lparr>creatures = [late], year = 4503599627370499 / 2 ^ 52, rand = halfDraws\<rparr>"
  using dead_step [OF late_dead, of "8917127262193588 / 2 ^ 53" savanna halfDraws] advance_99
  by simp

lemma yearStep_binade_52:
  "yearStep = (of_int 45035996273705 + - (5 / 128)) * pow2 (- 52)"
  by (simp add: yearStep_value pow2_def)

lemma late_run_100_199:
  "runSteps 99 savanna \<lparr>creatures = [late], year = 4503599627370499 / 2 ^ 52, rand = halfDraws\<rparr> =
     Some \<lparr>creatures = [late], year = 8962163258467294 / 2 ^ 52, rand = halfDraws\<rparr>"
  using dead_run_in_binade [OF late_dead yearStep_binade_52, of 4503599627370499 99 savanna halfDraws]
  by (simp add: pow2_def)

lemma advance_199:
  "advance (8962163258467294 / 2 ^ 52) = 4503599627370499 / 2 ^ 51"
  by (simp add: advance_def yearStep_value)
     (simp add: binary64_def exponent_def roundTiesToEven_def pow2_def Let_def bitlen_numeral)

lemma late_run_199_200:
  "runSteps 1 savanna \<lparr>creatures = [late], year = 8962163258467294 / 2 ^ 52, rand = halfDraws\<rparr> =
     Some \<lparr>creatures = [late], year = 4503599627370499 / 2 ^ 51, rand = halfDraws\<rparr>"
  using dead_step [OF late_dead, of "8962163258467294 / 2 ^ 52" savanna halfDraws] advance_199
  by simp

lemma yearStep_binade_51:
  "yearStep = (of_int 22517998136852 + 123 / 256) * pow2 (- 51)"
  by (simp add: yearStep_value pow2_def)

lemma late_run_200_400:
  "runSteps 200 savanna \<lparr>creatures = [late], year = 4503599627370499 / 2 ^ 51, rand = halfDraws\<rparr> =
     Some \<lparr>creatures = [late], year = 9007199254740899 / 2 ^ 51, rand = halfDraws\<rparr>"
  using dead_run_in_binade [OF late_dead yearStep_binade_51, of 4503599627370499 200 savanna halfDraws]
  by (simp add: pow2_def)

lemma advance_400:
  "advance (9007199254740899 / 2 ^ 51) = 4514858626438876 / 2 ^ 50"
  by (simp add: advance_def yearStep_value)
     (simp add: binary64_def exponent_def roundTiesToEven_def pow2_def Let_def bitlen_numeral)

lemma late_run_400_401:
  "runSteps 1 savanna \<lparr>creatures = [late], year = 9007199254740899 / 2 ^ 51, rand = halfDraws\<rparr> =
     Some \<lparr>creatures = [late], year = 4514858626438876 / 2 ^ 50, rand = halfDraws\<rparr>"
  using dead_step [OF late_dead, of "9007199254740899 / 2 ^ 51" savanna halfDraws] advance_400
  by simp

lemma yearStep_binade_50:
  "yearStep = (of_int 11258999068426 + 123 / 512) * pow2 (- 50)"
  by (simp add: yearStep_value pow2_def)

lemma late_run_401_500:
  "runSteps 99 savanna \<lparr>creatures = [late], year = 4514858626438876 / 2 ^ 50, rand = halfDraws\<rparr> =
     Some \<lparr>creatures = [late], year = 5629499534213050 / 2 ^ 50, rand = halfDraws\<rparr>"
  using dead_run_in_binade [OF late_dead yearStep_binade_50, of 4514858626438876 99 savanna halfDraws]
  by (simp add: pow2_def)

lemma advance_500:
  "advance (5629499534213050 / 2 ^ 50) = 5640758533281476 / 2 ^ 50"
  by (simp add: advance_def yearStep_value)
     (simp add: binary64_def exponent_def roundTiesToEven_def pow2_def Let_def bitlen_numeral)

lemma late_run_500_501:
  "runSteps 1 savanna \<lparr>creatures = [late], year = 5629499534213050 / 2 ^ 50, rand = halfDraws\<rparr> =
     Some \<lparr>creatures = [late], year = 5640758533281476 / 2 ^ 50, rand = halfDraws\<rparr>"
  using dead_step [OF late_dead, of "5629499534213050 / 2 ^ 50" savanna halfDraws] advance_500
  by simp

lemma late_run_2_4:
  "runSteps 2 savanna \<lparr>creatures = [late], year = 5764607523034235 / 2 ^ 58, rand = halfDraws\<rparr> =
     Some \<lparr>creatures = [late], year = 5764607523034235 / 2 ^ 57, rand = halfDraws\<rparr>"
  by (rule runSteps_add [OF late_run_2_3 late_run_3_4]) simp

lemma late_run_2_6:
  "runSteps 4 savanna \<lparr>creatures = [late], year = 5764607523034235 / 2 ^ 58, rand = halfDraws\<rparr> =
     Some \<lparr>creatures = [late], year = 8646911284551353 / 2 ^ 57, rand = halfDraws\<rparr>"
  by (rule runSteps_add [OF late_run_2_4 late_run_4_6]) simp

lemma late_run_2_7:
  "runSteps 5 savanna \<lparr>creatures = [late], year = 5764607523034235 / 2 ^ 58, rand = halfDraws\<rparr> =
     Some \<lparr>creatures = [late], year = 5044031582654956 / 2 ^ 56, rand = halfDraws\<rparr>"
  by (rule runSteps_add [OF late_run_2_6 late_run_6_7]) simp

lemma late_run_2_10:
  "runSteps 8 savanna \<lparr>creatures = [late], year = 5764607523034235 / 2 ^ 58, rand = halfDraws\<rparr> =
     Some \<lparr>creatures = [late], year = 7205759403792793 / 2 ^ 56, rand = halfDraws\<rparr>"
  by (rule runSteps_add [OF late_run_2_7 late_run_7_10]) simp

lemma late_run_2_12:
  "runSteps 10 savanna \<lparr>creatures = [late], year = 5764607523034235 / 2 ^ 58, rand = halfDraws\<rparr> =
     Some \<lparr>creatures = [late], year = 8646911284551351 / 2 ^ 56, rand = halfDraws\<rparr>"
  by (rule runSteps_add [OF late_run_2_10 late_run_10_12]) simp

lemma late_run_2_13:
  "runSteps 11 savanna \<lparr>creatures = [late], year = 5764607523034235 / 2 ^ 58, rand = halfDraws\<rparr> =
     Some \<lparr>creatures = [late], year = 4683743612465315 / 2 ^ 55, rand = halfDraws\<rparr>"
  by (rule runSteps_add [OF late_run_2_12 late_run_12_13]) simp

lemma late_run_2_24:
  "runSteps 22 savanna \<lparr>creatures = [late], year = 5764607523034235 / 2 ^ 58, rand = halfDraws\<rparr> =
     Some \<lparr>creatures = [late], year = 8646911284551355 / 2 ^ 55, rand = halfDraws\<rparr>"
  by (rule runSteps_add [OF late_run_2_13 late_run_13_24]) simp

lemma late_run_2_25:
  "runSteps 23 savanna \<lparr>creatures = [late], year = 5764607523034235 / 2 ^ 58, rand = halfDraws\<rparr> =
     Some \<lparr>creatures = [late], year = 4503599627370497 / 2 ^ 54, rand = halfDraws\<rparr>"
  by (rule runSteps_add [OF late_run_2_24 late_run_24_25]) simp

lemma late_run_2_49:
  "runSteps 47 savanna \<lparr>creatures = [late], year = 5764607523034235 / 2 ^ 58, rand = halfDraws\<rparr> =
     Some \<lparr>creatures = [late], year = 8827055269646177 / 2 ^ 54, rand = halfDraws\<rparr>"
  by (rule runSteps_add [OF late_run_2_25 late_run_25_49]) simp

lemma late_run_2_50:
  "runSteps 48 savanna \<lparr>creatures = [late], year = 5764607523034235 / 2 ^ 58, rand = halfDraws\<rparr> =
     Some \<lparr>creatures = [late], year = 4503599627370498 / 2 ^ 53, rand = halfDraws\<rparr>"
  by (rule runSteps_add [OF late_run_2_49 late_run_49_50]) simp

lemma late_run_2_99:
  "runSteps 97 savanna \<lparr>creatures = [late], year = 5764607523034235 / 2 ^ 58, rand = halfDraws\<rparr> =
     Some \<lparr>creatures = [late], year = 8917127262193588 / 2 ^ 53, rand = halfDraws\<rparr>"
  by (rule runSteps_add [OF late_run_2_50 late_run_50_99]) simp

lemma late_run_2_100:
  "runSteps 98 savanna \<lparr>creatures = [late], year = 5764607523034235 / 2 ^ 58, rand = halfDraws\<rparr> =
     Some \<lparr>creatures = [late], year = 4503599627370499 / 2 ^ 52, rand = halfDraws\<rparr>"
  by (rule runSteps_add [OF late_run_2_99 late_run_99_100]) simp

lemma late_run_2_199:
  "runSteps 197 savanna \<lparr>creatures = [late], year = 5764607523034235 / 2 ^ 58, rand = halfDraws\<rparr> =
     Some \<lparr>creatures = [late], year = 8962163258467294 / 2 ^ 52, rand = halfDraws\<rparr>"
  by (rule runSteps_add [OF late_run_2_100 late_run_100_199]) simp

lemma late_run_2_200:
  "runSteps 198 savanna \<lparr>creatures = [late], year = 5764607523034235 / 2 ^ 58, rand = halfDraws\<rparr> =
     Some \<lparr>creatures = [late], year = 4503599627370499 / 2 ^ 51, rand = halfDraws\<rparr>"
  by (rule runSteps_add [OF late_run_2_199 late_run_199_200]) simp

lemma late_run_2_400:
  "runSteps 398 savanna \<lparr>creatures = [late], year = 5764607523034235 / 2 ^ 58, rand = halfDraws\<rparr> =
     Some \<lparr>creatures = [late], year = 9007199254740899 / 2 ^ 51, rand = halfDraws\<rparr>"
  by (rule runSteps_add [OF late_run_2_200 late_run_200_400]) simp

lemma late_run_2_401:
  "runSteps 399 savanna \<lparr>creatures = [late], year = 5764607523034235 / 2 ^ 58, rand = halfDraws\<rparr> =
     Some \<lparr>creatures = [late], year = 4514858626438876 / 2 ^ 50, rand = halfDraws\<rparr>"
  by (rule runSteps_add [OF late_run_2_400 late_run_400_401]) simp

lemma late_run_2_500:
  "runSteps 498 savanna \<lparr>creatures = [late], year = 5764607523034235 / 2 ^ 58, rand = halfDraws\<rparr> =
     Some \<lparr>creatures = [late], year = 5629499534213050 / 2 ^ 50, rand = halfDraws\<rparr>"
  by (rule runSteps_add [OF late_run_2_401 late_run_401_500]) simp

lemma late_run_2_501:
  "runSteps 499 savanna \<lparr>creatures = [late], year = 5764607523034235 / 2 ^ 58, rand = halfDraws\<rparr> =
     Some \<lparr>creatures = [late], year = 5640758533281476 / 2 ^ 50, rand = halfDraws\<rparr>"
  by (rule runSteps_add [OF late_run_2_500 late_run_500_501]) simp


lemma elder_run_10:
  "runSteps 10 savanna \<lparr>creatures = [elder], year = 0, rand = halfDraws\<rparr> =
     Some \<lparr>creatures = [late], year = 7205759403792793 / 2 ^ 56, rand = halfDraws\<rparr>"
  by (rule runSteps_add [OF elder_run_0_2 late_run_2_10]) simp

lemma elder_run_500:
  "runSteps 500 savanna \<lparr>creatures = [elder], year = 0, rand = halfDraws\<rparr> =
     Some \<lparr>creatures = [late], year = 5629499534213050 / 2 ^ 50, rand = halfDraws\<rparr>"
  by (rule runSteps_add [OF elder_run_0_2 late_run_2_500]) simp

lemma elder_run_501:
  "runSteps 501 savanna \<lparr>creatures = [elder], year = 0, rand = halfDraws\<rparr> =
     Some \<lparr>creatures = [late], year = 5640758533281476 / 2 ^ 50, rand = halfDraws\<rparr>"
  by (rule runSteps_add [OF elder_run_0_2 late_run_2_501]) simp

text \<open>
  What a step does to the list: creatures are removed only after the pass, and only
  when the year counter at the start of the step satisfies \<^verbatim>\<open>year % 5 === 0\<close>; then all
  dead creatures go. In any other step the list only grows and every creature that was
  dead at the start is still in its place, unchanged.
\<close>

lemma compaction_test:
  assumes "stepSimulation e st = Some st'"
  shows "\<exists>s. tickCreatures e 0 (creatures st, rand st) = Some s \<and>
          length (creatures st) \<le> length (fst s) \<and>
          (\<forall>k<length (creatures st). \<not> alive (creatures st ! k) \<longrightarrow> fst s ! k = creatures st ! k) \<and>
          creatures st' = (if js_rem (year st) 5 = Some 0 then filter alive (fst s) else fst s) \<and>
          year st' = advance (year st)"
proof -
  from assms obtain s where s: "tickCreatures e 0 (creatures st, rand st) = Some s"
    and st': "st' = \<lparr> creatures = (if js_rem (year st) 5 = Some 0 then filter alive (fst s) else fst s),
               year = advance (year st), rand = snd s \<rparr>"
    by (auto simp: stepSimulation_def split: option.splits)
  have p: "length (creatures st) \<le> length (fst s)"
    "\<forall>k<length (creatures st). \<not> alive (creatures st ! k) \<longrightarrow> fst s ! k = creatures st ! k"
    using tickCreatures_passed [OF s] by (simp_all add: passed_def)
  show ?thesis
    using s p by (simp add: st')
qed

lemma starving_removed:
  "stepSimulation savanna \<lparr>creatures = [starving], year = 0, rand = halfDraws\<rparr> =
     Some \<lparr>creatures = [], year = yearStep, rand = halfDraws\<rparr>"
proof -
  have "stepCreature savanna 0 ([starving], halfDraws) = ([starved], halfDraws)"
    by (simp add: stepCreature_def Let_def starving_def starved_def ageAndHunger_def
        hungerIncrease_def Creature_def grazers_def baseline_values)
  moreover have "tickCreatures savanna (Suc 0) ([starved], halfDraws) = Some ([starved], halfDraws)"
    by (subst tickCreatures.simps) simp
  moreover have "alive starving"
    by (simp add: starving_def Creature_def)
  ultimately have "tickCreatures savanna 0 ([starving], halfDraws) = Some ([starved], halfDraws)"
    by (subst tickCreatures.simps) simp
  moreover have "\<not> alive starved"
    by (simp add: starved_def)
  ultimately show ?thesis
    by (simp add: stepSimulation_def js_rem_def js_trunc_def advance_0)
qed

text \<open>
  Claim C3 on the code. After a reset the year counter is 0, so the first step compacts:
  a creature that dies in it is removed at its end. A creature that dies in the second
  step is still in the list after 10 steps: the test is on the year counter, which
  advances by 0.01 a step, and not on a count of 5 steps. It is still there after 501
  steps: in binary64 the counter is \<open>5629499534213050 / 2 ^ 50\<close>, just below 5, at the
  start of step 501, where the sum in exact arithmetic would be 5, so that step does not
  compact either.
\<close>

theorem compaction_missed:
  "alive starving \<and> js_rem 0 5 = Some 0 \<and>
   stepSimulation savanna \<lparr>creatures = [starving], year = 0, rand = halfDraws\<rparr> =
     Some \<lparr>creatures = [], year = yearStep, rand = halfDraws\<rparr> \<and>
   alive elder \<and> \<not> alive late \<and>
   runSteps 2 savanna \<lparr>creatures = [elder], year = 0, rand = halfDraws\<rparr> =
     Some \<lparr>creatures = [late], year = 5764607523034235 / 2 ^ 58, rand = halfDraws\<rparr> \<and>
   runSteps 10 savanna \<lparr>creatures = [elder], year = 0, rand = halfDraws\<rparr> =
     Some \<lparr>creatures = [late], year = 7205759403792793 / 2 ^ 56, rand = halfDraws\<rparr> \<and>
   runSteps 500 savanna \<lparr>creatures = [elder], year = 0, rand = halfDraws\<rparr> =
     Some \<lparr>creatures = [late], year = 5629499534213050 / 2 ^ 50, rand = halfDraws\<rparr> \<and>
   js_rem (5629499534213050 / 2 ^ 50) 5 \<noteq> Some 0 \<and>
   runSteps 501 savanna \<lparr>creatures = [elder], year = 0, rand = halfDraws\<rparr> =
     Some \<lparr>creatures = [late], year = 5640758533281476 / 2 ^ 50, rand = halfDraws\<rparr>"
proof -
  have s: "alive starving"
    by (simp add: starving_def Creature_def)
  have a: "alive elder"
    by (simp add: elder_def Creature_def)
  have r0: "js_rem 0 5 = Some 0"
    by (simp add: js_rem_def js_trunc_def)
  have r5: "js_rem (5629499534213050 / 2 ^ 50) 5 \<noteq> Some 0"
    by (simp add: js_rem_small)
  show ?thesis
    by (intro conjI s a late_dead r0 r5 starving_removed elder_run_0_2 elder_run_10
        elder_run_500 elder_run_501)
qed

section \<open>Energy bounds (C1)\<close>

lemma fits_update:
  assumes "\<forall>c\<in>set cs. fits c" and "fits c'"
  shows "\<forall>c\<in>set (cs[k := c']). fits c"
  using assms set_update_subset_insert [of cs k c'] by auto

lemma fits_nth: "\<forall>c\<in>set cs. fits c \<Longrightarrow> k < length cs \<Longrightarrow> fits (cs ! k)"
  by simp

lemma resolveAttack_fits:
  assumes "\<forall>c\<in>set cs. fits c" and "a < length cs" and "t < length cs" and "a \<noteq> t"
  shows "\<forall>c\<in>set (resolveAttack a t cs). fits c"
proof -
  obtain et ea al where eq: "resolveAttack a t cs =
            cs[t := (cs ! t)\<lparr>energy := et, alive := al\<rparr>, a := (cs ! a)\<lparr>energy := ea\<rparr>]"
    and al: "al \<longrightarrow> alive (cs ! t)" and et: "et \<le> energy (cs ! t)"
    and ea: "ea \<le> energy (cs ! a) \<or> ea \<le> num (traits (cs ! a)) stomach_capacity"
    using resolveAttack_shape [OF assms(2-4)] by blast
  have "fits ((cs ! t)\<lparr>energy := et, alive := al\<rparr>)"
    using fits_nth [OF assms(1,3)] al et by (auto simp: fits_def)
  moreover have "fits ((cs ! a)\<lparr>energy := ea\<rparr>)"
    using fits_nth [OF assms(1,2)] ea by (auto simp: fits_def)
  ultimately show ?thesis
    unfolding eq using assms(1) by (intro fits_update)
qed

lemma resolveAttack_length: "length (resolveAttack a t cs) = length cs"
  by (simp add: resolveAttack_def modify_def Let_def)

lemma predation_length: "length (fst (predation i (cs, g))) = length cs"
  by (simp add: predation_def Let_def resolveAttack_length split: option.splits)

lemma predation_fits:
  assumes "\<forall>c\<in>set cs. fits c" and "i < length cs"
  shows "\<forall>c\<in>set (fst (predation i (cs, g))). fits c"
proof -
  from predation_cases [OF assms(2), of g]
  show ?thesis
  proof (elim disjE exE conjE)
    assume "predation i (cs, g) = (cs, rest g)"
    then show ?thesis using assms(1) by simp
  next
    fix t
    assume t: "t < length cs" "t \<noteq> i"
      and eq: "predation i (cs, g) = (resolveAttack i t cs, rest g)"
    show ?thesis
      unfolding eq fst_conv using assms t by (intro resolveAttack_fits) auto
  qed
qed

lemma attemptReproduction_fits:
  assumes "\<forall>c\<in>set cs. fits c" and "i < length cs"
  shows "\<forall>c\<in>set (fst (attemptReproduction e i (cs, g))). fits c"
proof -
  from attemptReproduction_shape [OF assms(2), of e g]
  show ?thesis
  proof (elim disjE exE conjE)
    assume "attemptReproduction e i (cs, g) = (cs, g)"
    then show ?thesis using assms(1) by simp
  next
    fix m kids g'
    assume m: "m < length cs" "m \<noteq> i" "alive (cs ! i)" "isMate cs i m"
      and eq: "attemptReproduction e i (cs, g) =
              ((cs @ kids)[i := (cs ! i)\<lparr>energy := energy (cs ! i) * 0.5\<rparr>,
                           m := (cs ! m)\<lparr>energy := energy (cs ! m) * 0.5\<rparr>], g')"
      and kids: "\<forall>c\<in>set kids. offspringOf e (cs ! i) (cs ! m) c"
    have am: "alive (cs ! m)" using m(4) by (simp add: isMate_def)
    have fi: "fits (cs ! i)" and fm: "fits (cs ! m)"
      using assms m(1) by simp_all
    have caps: "50 \<le> num (traits (cs ! i)) stomach_capacity" "50 \<le> num (traits (cs ! m)) stomach_capacity"
      using fi fm m(3) am by (simp_all add: fits_def)
    have "fits c" if "c \<in> set kids" for c
    proof -
      from kids that obtain sx tr where c: "c = Creature (speciesList e ! speciesId (cs ! i))
            (posx (cs ! i)) (posy (cs ! i)) sx tr"
        and cap: "num tr stomach_capacity =
           (num (traits (cs ! i)) stomach_capacity + num (traits (cs ! m)) stomach_capacity) / 2"
        unfolding offspringOf_def by blast
      show ?thesis
        using caps by (simp add: fits_def c Creature_def cap)
    qed
    then have all: "\<forall>c\<in>set (cs @ kids). fits c"
      using assms(1) by auto
    have hi: "fits ((cs ! i)\<lparr>energy := energy (cs ! i) * 0.5\<rparr>)"
      using fi caps by (auto simp: fits_def)
    have hm: "fits ((cs ! m)\<lparr>energy := energy (cs ! m) * 0.5\<rparr>)"
      using fm caps by (auto simp: fits_def)
    show ?thesis
      unfolding eq fst_conv by (intro fits_update all hi hm)
  qed
qed

lemma stepCreature_fits:
  assumes "\<forall>c\<in>set cs. fits c" and "i < length cs"
  shows "\<forall>c\<in>set (fst (stepCreature e i (cs, g))). fits c"
proof (cases "alive (cs ! i)")
  case False
  then show ?thesis
    using assms(1) by (simp add: stepCreature_def)
next
  case True
  define c2 where "c2 = ageAndHunger (cs ! i)"
  show ?thesis
  proof (cases "real (age c2) > num (traits c2) max_age \<or> energy c2 \<le> 0")
    case dies: True
    then have eq: "fst (stepCreature e i (cs, g)) = cs[i := c2\<lparr>alive := False\<rparr>]"
      using True by (simp add: stepCreature_def Let_def c2_def)
    have "fits (c2\<lparr>alive := False\<rparr>)"
      by (simp add: fits_def)
    with assms(1) show ?thesis
      unfolding eq by (rule fits_update)
  next
    case lives: False
    define fed where "fed = regenMoveFeed e c2 g"
    define cs5 where "cs5 = cs[i := fst fed]"
    define s6 where "s6 = predation i (cs5, snd fed)"
    have "fits (cs ! i)"
      using assms by simp
    then have cap: "50 \<le> num (traits (cs ! i)) stomach_capacity"
      using True by (simp add: fits_def)
    have "fits (fst fed)"
      using cap by (simp add: fits_def fed_def regenMoveFeed_keeps regenMoveFeed_energy c2_def
          ageAndHunger_keeps)
    then have f5: "\<forall>c\<in>set cs5. fits c"
      unfolding cs5_def using assms(1) by (intro fits_update)
    have i5: "i < length cs5"
      using assms(2) by (simp add: cs5_def)
    have f6: "\<forall>c\<in>set (fst s6). fits c"
      unfolding s6_def using f5 i5 by (rule predation_fits)
    have i6: "i < length (fst s6)"
      using i5 by (simp add: s6_def predation_length)
    have "\<forall>c\<in>set (fst (attemptReproduction e i (fst s6, snd s6))). fits c"
      using f6 i6 by (rule attemptReproduction_fits)
    then have f7: "\<forall>c\<in>set (fst (attemptReproduction e i s6)). fits c"
      by simp
    have "fst (stepCreature e i (cs, g)) = fst s6 \<or>
          fst (stepCreature e i (cs, g)) = fst (attemptReproduction e i s6)"
      using True lives
      by (simp add: stepCreature_def Let_def c2_def [symmetric] fed_def [symmetric]
          cs5_def [symmetric] s6_def [symmetric])
    then show ?thesis
      using f6 f7 by auto
  qed
qed


lemma tickCreatures_fits:
  assumes "tickCreatures e i s = Some r"
  shows "(\<forall>c\<in>set (fst s). fits c) \<longrightarrow> (\<forall>c\<in>set (fst r). fits c)"
proof (rule tickCreatures.raw_induct [OF _ assms], goal_cases)
  case (1 loop e i s r)
  show ?case
  proof (cases "i < length (fst s)")
    case False
    with 1(2) show ?thesis by auto
  next
    case True
    define s1 where "s1 = (if alive (fst s ! i) then stepCreature e i s else s)"
    have "loop e (Suc i) s1 = Some r"
      using 1(2) True by (simp add: s1_def)
    then have ih: "(\<forall>c\<in>set (fst s1). fits c) \<longrightarrow> (\<forall>c\<in>set (fst r). fits c)"
      by (rule 1(1))
    have "\<forall>c\<in>set (fst s1). fits c" if "\<forall>c\<in>set (fst s). fits c"
      using stepCreature_fits [OF that True, of e "snd s"] that by (simp add: s1_def)
    then show ?thesis
      using ih by blast
  qed
qed

lemma starving_tick: "stepCreature savanna 0 ([starving], halfDraws) = ([starved], halfDraws)"
  by (simp add: stepCreature_def Let_def starving_def starved_def ageAndHunger_def
      hungerIncrease_def Creature_def grazers_def baseline_values)

lemma ambush_attack:
  "energy (resolveAttack 0 1 ambush ! 1) = - 10" "\<not> alive (resolveAttack 0 1 ambush ! 1)"
  "energy (resolveAttack 0 1 ambush ! 0) = 60"
  by (simp_all add: resolveAttack_def modify_def Let_def ambush_def Creature_def withNum_def
      baseline_values)

text \<open>
  The claim as stated fails at its lower bound. An attack of damage 4 on a target with
  energy 10 leaves the target with energy \<open>-10\<close>; the tick of a creature with energy 0.02
  and hunger 0.03 leaves it with energy \<open>-0.01\<close>.
\<close>

theorem energy_nonnegative_counterexample:
  "energy (ambush ! 1) = 10 \<and> energy (resolveAttack 0 1 ambush ! 1) = - 10 \<and>
   energy (resolveAttack 0 1 ambush ! 1) < 0 \<and>
   energy starving = 0.02 \<and>
   stepCreature savanna 0 ([starving], halfDraws) = ([starved], halfDraws) \<and>
   energy starved = - 0.01 \<and> energy starved < 0"
  using ambush_attack starving_tick
  by (simp add: ambush_def starving_def starved_def Creature_def)

text \<open>
  Claim C1, amended. For every living creature whose stomach capacity is at least 50
  (the energy of a newborn; the capacity is 60 in every trait object the program
  creates), \<open>energy \<le> stomach_capacity\<close> holds after every attack resolution, after every
  tick of a creature and after every simulation step that returns, if it held for every
  living creature before. No lower bound is kept: hunger, an attack, the spines of a
  target and a negative regeneration rate take energy to 0 and below.
\<close>

theorem energy_upper_bound:
  "((\<forall>c\<in>set cs. fits c) \<and> a < length cs \<and> t < length cs \<and> a \<noteq> t \<longrightarrow>
      (\<forall>c\<in>set (resolveAttack a t cs). fits c)) \<and>
   ((\<forall>c\<in>set cs. fits c) \<and> i < length cs \<longrightarrow>
      (\<forall>c\<in>set (fst (stepCreature e i (cs, g))). fits c)) \<and>
   ((\<forall>c\<in>set (creatures st). fits c) \<and> stepSimulation e st = Some st' \<longrightarrow>
      (\<forall>c\<in>set (creatures st'). fits c))"
proof -
  have sim: "\<forall>c\<in>set (creatures st'). fits c"
    if inv: "\<forall>c\<in>set (creatures st). fits c" and step: "stepSimulation e st = Some st'"
  proof -
    from step obtain s where s: "tickCreatures e 0 (creatures st, rand st) = Some s"
      and st': "creatures st' = (if js_rem (year st) 5 = Some 0 then filter alive (fst s) else fst s)"
      by (auto simp: stepSimulation_def split: option.splits)
    have "\<forall>c\<in>set (fst s). fits c"
      using tickCreatures_fits [OF s] inv by simp
    then show ?thesis
      by (auto simp: st')
  qed
  show ?thesis
    using resolveAttack_fits [of cs a t] stepCreature_fits [of cs i e g] sim by blast
qed

theorem energy_upper_bound_witness:
  "list_all fits ambush \<and> (0::nat) < length ambush \<and> (1::nat) < length ambush \<and>
   list_all fits (resolveAttack 0 1 ambush) \<and>
   energy (resolveAttack 0 1 ambush ! 0) = 60 \<and>
   list_all fits family \<and>
   list_all fits (fst (stepCreature savanna 0 (family, halfDraws))) \<and>
   stepSimulation savanna \<lparr>creatures = family, year = 0, rand = halfDraws\<rparr> =
     Some \<lparr>creatures = family3, year = yearStep, rand = halfDraws\<rparr> \<and>
   list_all fits family3"
proof -
  have a: "\<forall>c\<in>set ambush. fits c" "(0::nat) < length ambush" "(1::nat) < length ambush"
      "(0::nat) \<noteq> 1"
    by (simp_all add: ambush_def fits_def Creature_def withNum_def baseline_values)
  have f: "\<forall>c\<in>set family. fits c" "(0::nat) < length family"
    by (simp_all add: family_def fits_def Creature_def baseline_values)
  note inst = energy_upper_bound [of _ 0 1 0 savanna halfDraws
        "\<lparr>creatures = family, year = 0, rand = halfDraws\<rparr>"
        "\<lparr>creatures = family3, year = yearStep, rand = halfDraws\<rparr>"]
  have 1: "\<forall>c\<in>set (resolveAttack 0 1 ambush). fits c"
    using inst [of ambush] a by blast
  have 2: "\<forall>c\<in>set (fst (stepCreature savanna 0 (family, halfDraws))). fits c"
    using inst [of family] f by blast
  have "\<forall>c\<in>set (creatures \<lparr>creatures = family3, year = yearStep, rand = halfDraws\<rparr>). fits c"
    by (rule inst [of family, THEN conjunct2, THEN conjunct2, THEN mp]) (simp add: f family_step)
  then have 3: "\<forall>c\<in>set family3. fits c"
    by (simp only: simulation.select_convs)
  have 4: "list_all fits ambush" "list_all fits (resolveAttack 0 1 ambush)"
    "list_all fits family" "list_all fits (fst (stepCreature savanna 0 (family, halfDraws)))"
    "list_all fits family3"
    using a(1) 1 f(1) 2 3 by (simp_all only: list_all_iff)
  show ?thesis
    by (intro conjI a 4 family_step ambush_attack(3))
qed

section \<open>Movement-mode containment (C2)\<close>


lemma nextTile_cong:
  "posx c' = posx c \<Longrightarrow> posy c' = posy c \<Longrightarrow> nextTile c' g = nextTile c g"
  by (simp add: nextTile_def)

lemma moveCreature_species:
  "speciesId (fst (moveCreature e c g)) = speciesId c"
  "movementMode (fst (moveCreature e c g)) = movementMode c"
  by (simp_all add: moveCreature_keeps)






















end
